theory Spec2Isabelle
  imports Complex_Main
begin

section \<open>Number model and exceptions\<close>

text \<open>
  Python and numpy floats are modelled as real numbers: rounding, overflow and the
  infinities of IEEE arithmetic are not represented. The one non-real value that the
  code can produce from real inputs and that matters below is numpy's NaN for the
  square root of a negative number; it is modelled explicitly by \<open>npfloat\<close>.
  Exceptions are values of \<open>exn\<close>; a computation that can raise returns \<open>exn + 'a\<close>.
\<close>

datatype exn =
    ValueError
  | TypeError
  | IndexError
  | KeyError
  | UnboundLocalError
  | ZeroDivisionError
  | AttributeError
  | RecursionError
  | PhaseError string string

text \<open>\<open>math.factorial\<close>: raises ValueError for a negative argument.\<close>

definition py_factorial :: "int \<Rightarrow> exn + nat" where
  "py_factorial n = (if n < 0 then Inl ValueError else Inr (fact (nat n)))"

text \<open>Propagation of a raised exception through a sequence of statements.\<close>

definition bind_exn :: "exn + 'a \<Rightarrow> ('a \<Rightarrow> exn + 'b) \<Rightarrow> exn + 'b" where
  "bind_exn r f = (case r of Inl e \<Rightarrow> Inl e | Inr v \<Rightarrow> f v)"

text \<open>A comprehension or a vectorised call whose body can raise: the first failure wins.\<close>

fun map_exn :: "('a \<Rightarrow> exn + 'b) \<Rightarrow> 'a list \<Rightarrow> exn + 'b list" where
  "map_exn f [] = Inr []"
| "map_exn f (x # xs) =
     bind_exn (f x) (\<lambda>y. bind_exn (map_exn f xs) (\<lambda>ys. Inr (y # ys)))"

text \<open>
  \<open>np.sqrt\<close> on a float: NaN (with a warning, no exception) for a negative argument.
\<close>

datatype npfloat = Num real | NaN

definition np_sqrt :: "real \<Rightarrow> npfloat" where
  "np_sqrt y = (if y < 0 then NaN else Num (sqrt y))"

text \<open>Arithmetic on values that may be NaN: NaN is absorbing.\<close>

fun np_lift2 :: "(real \<Rightarrow> real \<Rightarrow> real) \<Rightarrow> npfloat \<Rightarrow> npfloat \<Rightarrow> npfloat" where
  "np_lift2 f (Num a) (Num b) = Num (f a b)"
| "np_lift2 f _ _ = NaN"

definition np_add :: "npfloat \<Rightarrow> npfloat \<Rightarrow> npfloat" where
  "np_add = np_lift2 (+)"

definition np_sub :: "npfloat \<Rightarrow> npfloat \<Rightarrow> npfloat" where
  "np_sub = np_lift2 (-)"

definition np_mul :: "npfloat \<Rightarrow> npfloat \<Rightarrow> npfloat" where
  "np_mul = np_lift2 (*)"

text \<open>\<open>np.sum\<close> of a list of such values (0 for the empty list).\<close>

definition np_sum :: "npfloat list \<Rightarrow> npfloat" where
  "np_sum xs = foldl np_add (Num 0) xs"

text \<open>Python list indexing with a non-negative index: IndexError out of range.\<close>

definition py_index :: "'a list \<Rightarrow> nat \<Rightarrow> exn + 'a" where
  "py_index xs i = (if i < length xs then Inr (xs ! i) else Inl IndexError)"

text \<open>Python list indexing with any integer: a negative index counts from the end.\<close>

definition py_index_int :: "'a list \<Rightarrow> int \<Rightarrow> exn + 'a" where
  "py_index_int xs i =
     (let n = int (length xs); j = (if i < 0 then n + i else i)
      in if 0 \<le> j \<and> j < n then Inr (xs ! nat j) else Inl IndexError)"

text \<open>\<open>max\<close> and \<open>np.max\<close> of a sequence: ValueError when it is empty.\<close>

definition py_max :: "real list \<Rightarrow> exn + real" where
  "py_max xs = (case xs of [] \<Rightarrow> Inl ValueError | x # rest \<Rightarrow> Inr (foldl max x rest))"

section \<open>The collaborators: traced ray paths and the velocity model\<close>

text \<open>
  A point of a traced ray path. The newer variant reads the fields by name
  (\<open>p\<close>, \<open>time\<close>, \<open>dist\<close>, \<open>depth\<close>), the older one by position (0, 1, 2, 3).
\<close>

record path_point =
  pt_p :: real
  pt_time :: real
  pt_dist :: real
  pt_depth :: real

text \<open>An arrival of the ray tracer; \<open>arr_path\<close> is None when no path was computed.\<close>

record arrival =
  arr_name :: string
  arr_distance :: real
  arr_purist_distance :: real
  arr_ray_param :: real
  arr_source_depth :: real
  arr_path :: "path_point list option"

text \<open>A layer of the velocity model (one row of \<open>v_mod.layers\<close>).\<close>

record layer =
  top_depth :: real
  bot_depth :: real
  top_p_velocity :: real
  bot_p_velocity :: real
  top_s_velocity :: real
  bot_s_velocity :: real
  top_density :: real
  bot_density :: real

text \<open>
  The velocity model and the ray tracer are not code of this repository: their queries are
  fields of the model, taken as given. \<open>top_bot_epsilon\<close> is the pair of attributes
  \<open>top_epsilon\<close>, \<open>bot_epsilon\<close> that the newer variant attaches to the model, and
  \<open>epsilon_profile\<close> the pair \<open>epsilon_r\<close>, \<open>epsilon\<close> of the older one; None while the
  attribute does not exist. \<open>get_ray_paths\<close> takes the source depth, the distance in
  degrees and the phase name (the receiver depth is always 0).
\<close>

record tau_model =
  radius_of_planet :: real
  cmb_depth :: real
  iocb_depth :: real
  model_name :: string
  layers :: "layer list"
  get_discontinuity_depths :: "real list"
  evaluate_above :: "real \<Rightarrow> string \<Rightarrow> real"
  evaluate_below :: "real \<Rightarrow> string \<Rightarrow> real"
  layer_number_above :: "real \<Rightarrow> nat"
  layer_number_below :: "real \<Rightarrow> nat"
  get_ray_paths :: "real \<Rightarrow> real \<Rightarrow> string \<Rightarrow> arrival list"
  top_bot_epsilon :: "(real list \<times> real list) option"
  epsilon_profile :: "(real list \<times> real list) option"

definition EARTH_LOD :: real where
  "EARTH_LOD = 86164.0905"

definition G :: real where
  "G = 6.67408 / 10 ^ 11"

section \<open>Weighted Legendre evaluator\<close>

text \<open>
  \<open>weighted_alp2(m, theta)\<close>, the same in both source variants (the exponent is
  written \<open>2\<close> in one and \<open>2.0\<close> in the other). The normalisation is computed before
  the order is inspected, so the factorials can raise before the final \<open>raise\<close> does.
\<close>

definition weighted_alp2 :: "int \<Rightarrow> real \<Rightarrow> exn + real" where
  "weighted_alp2 m theta =
     (let kronecker_0m = (if m = 0 then 1 else 0 :: real) in
      case py_factorial (2 - m) of
        Inl e \<Rightarrow> Inl e
      | Inr f1 \<Rightarrow>
          (case py_factorial (2 + m) of
             Inl e \<Rightarrow> Inl e
           | Inr f2 \<Rightarrow>
               (let norm = sqrt ((2 - kronecker_0m) * (real f1 / real f2)) in
                if m = 0 then Inr (norm * 0.5 * (3.0 * cos theta ^ 2 - 1.0))
                else if m = 1 then Inr (norm * 3.0 * cos theta * sin theta)
                else if m = 2 then Inr (norm * 3.0 * sin theta ^ 2)
                else Inl ValueError)))"

section \<open>Correction evaluator\<close>

text \<open>\<open>np.radians\<close>.\<close>

definition radians :: "real \<Rightarrow> real" where
  "radians d = d * pi / 180"

text \<open>
  One term of the generator in \<open>correction_from_coefficients\<close>:
  \<open>coefficients[m] * weighted_alp2(m, colatitude) * np.cos(m * azimuth)\<close>.
\<close>

definition correction_term :: "real list \<Rightarrow> real \<Rightarrow> real \<Rightarrow> nat \<Rightarrow> exn + real" where
  "correction_term coefficients colatitude azimuth m =
     (case py_index coefficients m of
        Inl e \<Rightarrow> Inl e
      | Inr c \<Rightarrow>
          (case weighted_alp2 (int m) colatitude of
             Inl e \<Rightarrow> Inl e
           | Inr w \<Rightarrow> Inr (c * w * cos (real m * azimuth))))"

text \<open>\<open>sum(...)\<close> over a generator whose items can raise, starting from 0.\<close>

fun sum_terms :: "(nat \<Rightarrow> exn + real) \<Rightarrow> nat list \<Rightarrow> real \<Rightarrow> exn + real" where
  "sum_terms f [] acc = Inr acc"
| "sum_terms f (m # ms) acc =
     (case f m of Inl e \<Rightarrow> Inl e | Inr t \<Rightarrow> sum_terms f ms (acc + t))"

definition correction_from_coefficients :: "real list \<Rightarrow> real \<Rightarrow> real \<Rightarrow> exn + real" where
  "correction_from_coefficients coefficients azimuth source_latitude =
     (let colatitude = radians (90 - source_latitude);
          azimuth = radians azimuth
      in sum_terms (correction_term coefficients colatitude azimuth) [0, 1, 2] 0)"

section \<open>Helpers for numpy and Python built-ins\<close>

text \<open>\<open>np.cumsum\<close>.\<close>

fun cumsum_from :: "real \<Rightarrow> real list \<Rightarrow> real list" where
  "cumsum_from acc [] = []"
| "cumsum_from acc (x # xs) = (acc + x) # cumsum_from (acc + x) xs"

definition cumsum :: "real list \<Rightarrow> real list" where
  "cumsum xs = cumsum_from 0 xs"

text \<open>The difference \<open>xs[1:] - xs[:-1]\<close> of neighbouring entries.\<close>

definition diff_list :: "real list \<Rightarrow> real list" where
  "diff_list xs = map2 (-) (tl xs) (butlast xs)"

text \<open>
  \<open>cumtrapz(y, x=x, initial=0.0)\<close>: the cumulative trapezoidal rule over the sample
  points \<open>x\<close>, with a leading 0.
\<close>

definition cumtrapz_x :: "real list \<Rightarrow> real list \<Rightarrow> real list" where
  "cumtrapz_x y x = 0 # cumsum (map2 (\<lambda>d s. d * s / 2) (diff_list x) (map2 (+) (tl y) (butlast y)))"

text \<open>\<open>cumtrapz(y)\<close> with unit spacing and no initial value.\<close>

definition cumtrapz :: "real list \<Rightarrow> real list" where
  "cumtrapz y = cumsum (map (\<lambda>s. 1 * s / 2) (map2 (+) (tl y) (butlast y)))"

text \<open>\<open>xs[-1]\<close>: IndexError on an empty sequence.\<close>

definition py_last :: "'a list \<Rightarrow> exn + 'a" where
  "py_last xs = (if xs = [] then Inl IndexError else Inr (last xs))"

text \<open>\<open>str.lower\<close> on ASCII letters.\<close>

definition lower_char :: "char \<Rightarrow> char" where
  "lower_char c =
     (let n = (of_char c :: nat) in if 65 \<le> n \<and> n \<le> 90 then char_of (n + 32) else c)"

definition py_lower :: "string \<Rightarrow> string" where
  "py_lower s = map lower_char s"

text \<open>\<open>needle in haystack\<close> for strings: the substring test.\<close>

fun py_in_str :: "string \<Rightarrow> string \<Rightarrow> bool" where
  "py_in_str needle [] = (needle = [])"
| "py_in_str needle (c # cs) =
     (take (length needle) (c # cs) = needle \<or> py_in_str needle cs)"

section \<open>Newer variant (ellipticipy): the ellipticity profile\<close>

text \<open>
  \<open>model_epsilon(model, lod)\<close> of the newer variant. Its arrays \<open>top_radius\<close>, \<open>mass\<close>
  and \<open>radau\<close> depend on the model only and are defined on their own; the layers are
  read deepest first.
\<close>

definition top_radius_of :: "tau_model \<Rightarrow> real list" where
  "top_radius_of model =
     (let a = radius_of_planet model * 1000;
          top_depth_m = map (\<lambda>l. top_depth l * 1000) (rev (layers model))
      in map (\<lambda>d. a - d) top_depth_m)"

definition mass_of :: "tau_model \<Rightarrow> real list" where
  "mass_of model =
     (let top_density_kg = map (\<lambda>l. top_density l * 1000) (rev (layers model));
          bot_density_kg = map (\<lambda>l. bot_density l * 1000) (rev (layers model));
          top_radius = top_radius_of model;
          top_volume = map (\<lambda>r. (4 / 3) * pi * r ^ 3) top_radius;
          volume = 0 # top_volume;
          d_volume = diff_list volume;
          d_mass = map2 (\<lambda>(b, t) dv. 0.5 * (b + t) * dv)
                     (zip bot_density_kg top_density_kg) d_volume
      in cumsum d_mass)"

definition radau_of :: "tau_model \<Rightarrow> real list" where
  "radau_of model =
     (let top_density_kg = map (\<lambda>l. top_density l * 1000) (rev (layers model));
          bot_density_kg = map (\<lambda>l. bot_density l * 1000) (rev (layers model));
          top_radius = top_radius_of model;
          mass = mass_of model;
          j_top = map (\<lambda>r. (8 / 15) * pi * r ^ 5) top_radius;
          j = 0 # j_top;
          d_j = diff_list j;
          d_inertia = map2 (\<lambda>(b, t) dj. 0.5 * (b + t) * dj)
                        (zip bot_density_kg top_density_kg) d_j;
          moment_of_inertia = cumsum d_inertia;
          y = map2 (\<lambda>i (m, r). i / (m * r ^ 2)) moment_of_inertia (zip mass top_radius)
      in map (\<lambda>y. 6.25 * (1 - 3 * y / 2) ^ 2 - 1) y)"

text \<open>
  The quotient \<open>2 * np.pi / lod\<close> is a division of Python floats and raises for
  \<open>lod = 0\<close>; the other divisions are numpy's. \<open>mass[-1]\<close> and \<open>radau[-1]\<close> raise for a
  model without layers. The result is the model with its two new attributes.
\<close>

definition model_epsilon :: "tau_model \<Rightarrow> real \<Rightarrow> exn + tau_model" where
  "model_epsilon model lod =
     (if lod = 0 then Inl ZeroDivisionError
      else
        let omega = 2 * pi / lod;
            a = radius_of_planet model * 1000;
            top_radius = top_radius_of model;
            mass = mass_of model
        in bind_exn (py_last mass) (\<lambda>total_mass.
             let radau = radau_of model;
                 ha = (a ^ 3 * omega ^ 2) / (G * total_mass)
             in bind_exn (py_last radau) (\<lambda>radau_a.
                  let epsilona = (5 * ha) / (2 * radau_a + 4);
                      epsilon = map exp (cumtrapz_x (map2 (/) radau top_radius) top_radius)
                  in bind_exn (py_last epsilon) (\<lambda>epsilon_last.
                       let epsilon = map (\<lambda>e. epsilona * e / epsilon_last) epsilon
                       in bind_exn (py_index epsilon 0) (\<lambda>epsilon_0.
                            let epsilon = epsilon_0 # epsilon
                            in Inr (model\<lparr>top_bot_epsilon :=
                                      Some (butlast (rev epsilon), tl (rev epsilon))\<rparr>))))))"

text \<open>
  \<open>get_epsilon(model, depth)\<close> at one depth (the source works on arrays, entry by
  entry): linear interpolation inside the layer above the depth.
\<close>

definition get_epsilon :: "tau_model \<Rightarrow> real \<Rightarrow> exn + real" where
  "get_epsilon model depth =
     (let top_layer_idx = layer_number_below model 0;
          layer_idx = (if depth > 0 then layer_number_above model depth else top_layer_idx)
      in bind_exn (py_index (layers model) layer_idx) (\<lambda>layer.
           let thick = bot_depth layer - top_depth layer
           in case top_bot_epsilon model of
                None \<Rightarrow> Inl AttributeError
              | Some (top_epsilon, bot_epsilon) \<Rightarrow>
                  bind_exn (py_index bot_epsilon layer_idx) (\<lambda>bot_eps.
                  bind_exn (py_index top_epsilon layer_idx) (\<lambda>top_eps.
                    let slope = (bot_eps - top_eps) / thick
                    in Inr (slope * (depth - top_depth layer) + top_eps)))))"

section \<open>Depth derivatives of the velocity model (both variants)\<close>

definition evaluate_derivative_at :: "layer \<Rightarrow> string \<Rightarrow> exn + real" where
  "evaluate_derivative_at layer prop =
     (let thick = bot_depth layer - top_depth layer;
          prop = py_lower prop
      in if prop = ''p'' then Inr ((bot_p_velocity layer - top_p_velocity layer) / thick)
         else if prop = ''s'' then Inr ((bot_s_velocity layer - top_s_velocity layer) / thick)
         else if py_in_str prop ''rd'' then Inr ((bot_density layer - top_density layer) / thick)
         else Inl ValueError)"

definition evaluate_derivative_below :: "tau_model \<Rightarrow> real \<Rightarrow> string \<Rightarrow> exn + real" where
  "evaluate_derivative_below model depth prop =
     bind_exn (py_index (layers model) (layer_number_below model depth))
       (\<lambda>layer. evaluate_derivative_at layer prop)"

definition evaluate_derivative_above :: "tau_model \<Rightarrow> real \<Rightarrow> string \<Rightarrow> exn + real" where
  "evaluate_derivative_above model depth prop =
     bind_exn (py_index (layers model) (layer_number_above model depth))
       (\<lambda>layer. evaluate_derivative_at layer prop)"

section \<open>Newer variant: segmenter and kinematic classifier\<close>

text \<open>
  The vertical slowness of the newer variant, \<open>np.sqrt(y * (y > 0))\<close> with
  \<open>y = eta**2 - p**2\<close>, written three times in the source (in \<open>expected_delay_time\<close>,
  \<open>integral_coefficients\<close> and \<open>discontinuity_contribution\<close>).
\<close>

definition vertical_slowness :: "real \<Rightarrow> real \<Rightarrow> npfloat" where
  "vertical_slowness eta p =
     (let y = eta ^ 2 - p ^ 2 in np_sqrt (y * (if y > 0 then 1 else 0)))"

text \<open>
  The same value as a real number: the argument of the square root is never negative,
  so the result is never NaN (lemma \<open>vertical_slowness_clamped\<close> below).
\<close>

definition vertical_slowness_val :: "real \<Rightarrow> real \<Rightarrow> real" where
  "vertical_slowness_val eta p =
     (let y = eta ^ 2 - p ^ 2 in sqrt (y * (if y > 0 then 1 else 0)))"

definition expected_delay_time :: "real \<Rightarrow> real \<Rightarrow> real \<Rightarrow> string \<Rightarrow> tau_model \<Rightarrow> real" where
  "expected_delay_time ray_param depth0 depth1 wave model =
     (let radius0 = radius_of_planet model - depth0;
          radius1 = radius_of_planet model - depth1;
          v0 = (if depth1 \<ge> depth0 then evaluate_below model depth0 wave
                else evaluate_above model depth0 wave);
          v1 = (if depth1 \<ge> depth0 then evaluate_above model depth1 wave
                else evaluate_below model depth1 wave)
      in if v0 > 0 then
           (let eta0 = radius0 / v0;
                eta1 = radius1 / v1;
                n0 = vertical_slowness_val eta0 ray_param;
                n1 = vertical_slowness_val eta1 ray_param
            in if ray_param = 0 then 0.5 * ((1 / v0) + (1 / v1)) * \<bar>radius1 - radius0\<bar>
               else 0.5 * (n0 + n1) * \<bar>ln (radius1 / radius0)\<bar>)
         else 0)"

text \<open>
  \<open>classify_path(path, model)\<close> returns \<open>"p"\<close>, \<open>"s"\<close> or \<open>"diff"\<close>. A segment of fewer
  than two points makes one of \<open>path[0]\<close>, \<open>path[1]\<close>, \<open>path[-2]\<close> raise IndexError.
\<close>

definition classify_path :: "path_point list \<Rightarrow> tau_model \<Rightarrow> exn + string" where
  "classify_path path model =
     (if length path < 2 then Inl IndexError
      else
        let point0 = (if pt_depth (path ! 0) < pt_depth (path ! (length path - 1))
                      then path ! 0 else path ! (length path - 2));
            point1 = (if pt_depth (path ! 0) < pt_depth (path ! (length path - 1))
                      then path ! 1 else path ! (length path - 1));
            ray_param = pt_p point0;
            depth0 = pt_depth point0;
            depth1 = pt_depth point1
        in if depth0 = depth1 then Inr ''diff''
           else
             let travel_time = pt_time point1 - pt_time point0;
                 distance = \<bar>pt_dist point0 - pt_dist point1\<bar>;
                 delay_time = travel_time - ray_param * distance;
                 delay_p = expected_delay_time ray_param depth0 depth1 ''p'' model;
                 delay_s = expected_delay_time ray_param depth0 depth1 ''s'' model;
                 error_p = (delay_p / delay_time) - 1;
                 error_s = (delay_s / delay_time) - 1
             in if \<bar>error_p\<bar> < \<bar>error_s\<bar> then Inr ''p'' else Inr ''s'')"

text \<open>\<open>np.split(xs, idx)\<close> for increasing indices: the pieces between the indices.\<close>

fun np_split_from :: "nat \<Rightarrow> 'a list \<Rightarrow> nat list \<Rightarrow> 'a list list" where
  "np_split_from off xs [] = [xs]"
| "np_split_from off xs (i # idx) = take (i - off) xs # np_split_from i (drop (i - off) xs) idx"

definition np_split :: "'a list \<Rightarrow> nat list \<Rightarrow> 'a list list" where
  "np_split xs idx = np_split_from 0 xs idx"

text \<open>
  \<open>[np.append(s, splitted[i + 1][0]) for i, s in enumerate(splitted[:-1])]\<close>: every piece
  but the last, each with the first point of the next piece appended.
\<close>

fun append_next_first :: "'a list list \<Rightarrow> exn + 'a list list" where
  "append_next_first (s # t # rest) =
     (case t of
        [] \<Rightarrow> Inl IndexError
      | x # _ \<Rightarrow> bind_exn (append_next_first (t # rest)) (\<lambda>r. Inr ((s @ [x]) # r)))"
| "append_next_first _ = Inr []"

text \<open>
  The first half of \<open>split_ray_path\<close>: the list \<open>dpaths\<close> of candidate segments, before
  classification. A missing path (None) cannot be subscripted, and in an empty one
  \<open>is_disc[0] = False\<close> is out of range.
\<close>

definition split_dpaths :: "arrival \<Rightarrow> tau_model \<Rightarrow> exn + path_point list list" where
  "split_dpaths arrival model =
     (let discs = butlast (get_discontinuity_depths model)
      in case arr_path arrival of
           None \<Rightarrow> Inl TypeError
         | Some full_path \<Rightarrow>
             let depths = map pt_depth full_path;
                 is_disc = map (\<lambda>d. d \<in> set discs) depths
             in if is_disc = [] then Inl IndexError
                else
                  let is_disc = is_disc[0 := False];
                      idx = filter (\<lambda>i. is_disc ! i) [0..<length is_disc];
                      splitted = np_split full_path idx
                  in append_next_first splitted)"

text \<open>
  \<open>split_ray_path(arrival, model)\<close>: the candidate segments are classified and the
  diffracted ones removed; the result is the list of pairs of \<open>paths\<close> and \<open>waves\<close>.
\<close>

definition split_ray_path :: "arrival \<Rightarrow> tau_model \<Rightarrow> exn + (path_point list \<times> string) list" where
  "split_ray_path arrival model =
     bind_exn (split_dpaths arrival model) (\<lambda>dpaths.
     bind_exn (map_exn (\<lambda>path. classify_path path model) dpaths) (\<lambda>dwaves.
       Inr (filter (\<lambda>(p, w). w \<noteq> ''diff'') (zip dpaths dwaves))))"

section \<open>Newer variant: integral and discontinuity contributions, aggregation\<close>

text \<open>\<open>lam = [-(2.0 / 3.0) * weighted_alp2(m, distance) for m in [0, 1, 2]]\<close>.\<close>

definition lambda_m :: "nat \<Rightarrow> real \<Rightarrow> exn + real" where
  "lambda_m m distance =
     bind_exn (weighted_alp2 (int m) distance) (\<lambda>w. Inr (- (2 / 3) * w))"

text \<open>The trapezoidal sum of \<open>integration(m)\<close> in \<open>integral_coefficients\<close>.\<close>

definition trapezoid_abs :: "real list \<Rightarrow> real list \<Rightarrow> real" where
  "trapezoid_abs integrand vs =
     (let top = tl integrand;
          bot = butlast integrand;
          delta = map abs (diff_list vs)
      in sum_list (map2 (\<lambda>(t, b) d. 0.5 * (t + b) * d) (zip top bot) delta))"

text \<open>The body of the loop of \<open>integral_coefficients\<close> for one segment.\<close>

definition segment_integral ::
  "arrival \<Rightarrow> tau_model \<Rightarrow> path_point list \<Rightarrow> string \<Rightarrow> exn + real list" where
  "segment_integral arrival model path wave =
     (let depth = map pt_depth path
      in bind_exn (py_max depth) (\<lambda>max_depth.
           let radius = map (\<lambda>d. radius_of_planet model - d) depth;
               v = map (\<lambda>d. if d \<noteq> max_depth then evaluate_below model d wave
                              else evaluate_above model max_depth wave) depth
           in bind_exn (map_exn (\<lambda>d.
                  if d \<noteq> max_depth
                  then bind_exn (evaluate_derivative_below model d wave) (\<lambda>s. Inr (- s))
                  else bind_exn (evaluate_derivative_above model max_depth wave) (\<lambda>s. Inr (- s)))
                depth) (\<lambda>dvdr.
              let eta = map2 (/) radius v
              in bind_exn (map_exn (get_epsilon model) depth) (\<lambda>epsilon.
                 let distance = map pt_dist path
                 in bind_exn (map_exn (\<lambda>m. map_exn (lambda_m m) distance) [0, 1, 2]) (\<lambda>lam.
                    let vs = map (\<lambda>e. vertical_slowness_val e (arr_ray_param arrival)) eta;
                        integration =
                          (\<lambda>m. trapezoid_abs
                                  (map2 (\<lambda>(e, d) (ep, l). (e * d / (1 - e * d)) * ep * l)
                                     (zip eta dvdr) (zip epsilon (lam ! m)))
                                  vs)
                    in Inr (map integration [0, 1, 2]))))))"

text \<open>\<open>[np.sum([s[m] for s in sigmas]) for m in [0, 1, 2]]\<close>.\<close>

definition sum_orders :: "real list list \<Rightarrow> real list" where
  "sum_orders sigmas = map (\<lambda>m. sum_list (map (\<lambda>s. s ! m) sigmas)) [0, 1, 2]"

definition integral_coefficients :: "arrival \<Rightarrow> tau_model \<Rightarrow> exn + real list" where
  "integral_coefficients arrival model =
     bind_exn (split_ray_path arrival model) (\<lambda>segs.
     bind_exn (map_exn (\<lambda>(path, wave). segment_integral arrival model path wave) segs)
       (\<lambda>sigmas. Inr (sum_orders sigmas)))"

text \<open>
  \<open>discontinuity_contribution(points, phase, model)\<close> for the boundary point
  \<open>disc_point\<close> and its neighbour inside the segment.
\<close>

definition discontinuity_contribution ::
  "path_point \<Rightarrow> path_point \<Rightarrow> string \<Rightarrow> tau_model \<Rightarrow> exn + real list" where
  "discontinuity_contribution disc_point neighbour_point phase model =
     (let ray_param = pt_p disc_point;
          distance = pt_dist disc_point;
          depth = pt_depth disc_point;
          radius = radius_of_planet model - depth;
          neighbour_depth = pt_depth neighbour_point;
          v = (if neighbour_depth \<ge> depth then evaluate_below model depth phase
               else evaluate_above model depth phase);
          eta = radius / v;
          vs = vertical_slowness_val eta ray_param;
          vs = (if neighbour_depth = depth then 0 else vs);
          sign = sgn (depth - neighbour_depth)
      in bind_exn (get_epsilon model depth) (\<lambda>epsilon.
         bind_exn (map_exn (\<lambda>m. lambda_m m distance) [0, 1, 2]) (\<lambda>lam.
           Inr (map (\<lambda>m. - sign * vs * epsilon * (lam ! m)) [0, 1, 2]))))"

text \<open>The body of the loop of \<open>discontinuity_coefficients\<close>: \<open>start + end\<close> of one segment.\<close>

definition segment_boundaries ::
  "tau_model \<Rightarrow> path_point list \<Rightarrow> string \<Rightarrow> exn + real list" where
  "segment_boundaries model path wave =
     (if length path < 2 then Inl IndexError
      else
        bind_exn (discontinuity_contribution (path ! 0) (path ! 1) wave model) (\<lambda>start.
        bind_exn (discontinuity_contribution (path ! (length path - 1))
                    (path ! (length path - 2)) wave model) (\<lambda>finish.
          Inr (map2 (+) start finish))))"

definition discontinuity_coefficients :: "arrival \<Rightarrow> tau_model \<Rightarrow> exn + real list" where
  "discontinuity_coefficients arrival model =
     bind_exn (split_ray_path arrival model) (\<lambda>segs.
     bind_exn (map_exn (\<lambda>(path, wave). segment_boundaries model path wave) segs)
       (\<lambda>sigmas. Inr (sum_orders sigmas)))"

text \<open>
  \<open>individual_ellipticity_coefficients(arrival, model, lod)\<close>; the model is a TauModel
  by its type. The profile is computed only when the attribute does not exist yet.
\<close>

definition individual_ellipticity_coefficients ::
  "arrival \<Rightarrow> tau_model \<Rightarrow> real \<Rightarrow> exn + real list" where
  "individual_ellipticity_coefficients arrival model lod =
     bind_exn (if top_bot_epsilon model = None then model_epsilon model lod else Inr model)
       (\<lambda>model.
     bind_exn (integral_coefficients arrival model) (\<lambda>ray_sigma.
     bind_exn (discontinuity_coefficients arrival model) (\<lambda>disc_sigma.
       Inr (map (\<lambda>m. ray_sigma ! m + disc_sigma ! m) [0, 1, 2]))))"

section \<open>Older variant (ellipticity): helpers\<close>

text \<open>
  The functions of the older module \<open>ellipticity/tools.py\<close> whose names also occur in the
  newer module carry the suffix \<open>_old\<close>.
\<close>

text \<open>\<open>int(x)\<close> on a float: truncation towards zero.\<close>

definition py_int :: "real \<Rightarrow> int" where
  "py_int x = (if x \<ge> 0 then \<lfloor>x\<rfloor> else \<lceil>x\<rceil>)"

text \<open>\<open>np.linspace(0, a, num)\<close> for \<open>num \<ge> 0\<close>.\<close>

definition linspace0 :: "real \<Rightarrow> nat \<Rightarrow> real list" where
  "linspace0 a num = map (\<lambda>i. real i * (a / real (num - 1))) [0..<num]"

text \<open>
  \<open>np.searchsorted(radii, radius, side="left")\<close> on a sorted array: the number of
  entries below \<open>radius\<close>.
\<close>

definition searchsorted_left :: "real list \<Rightarrow> real \<Rightarrow> nat" where
  "searchsorted_left radii radius = length (takeWhile (\<lambda>x. x < radius) radii)"

text \<open>Rounding to the nearest integer, ties to even, and \<open>round(x, ndigits)\<close>.\<close>

definition rint :: "real \<Rightarrow> int" where
  "rint x =
     (let f = \<lfloor>x\<rfloor>; d = x - of_int f
      in if d < 1 / 2 then f else if d > 1 / 2 then f + 1 else if even f then f else f + 1)"

definition py_round :: "real \<Rightarrow> nat \<Rightarrow> real" where
  "py_round x ndigits = of_int (rint (x * 10 ^ ndigits)) / 10 ^ ndigits"

text \<open>\<open>np.array(xs).argmin()\<close>: the first index of the least entry of a non-empty list.\<close>

fun argmin_from :: "nat \<Rightarrow> real \<Rightarrow> nat \<Rightarrow> real list \<Rightarrow> nat" where
  "argmin_from best bv i [] = best"
| "argmin_from best bv i (x # xs) =
     (if x < bv then argmin_from i x (Suc i) xs else argmin_from best bv (Suc i) xs)"

definition argmin :: "real list \<Rightarrow> exn + nat" where
  "argmin xs = (case xs of [] \<Rightarrow> Inl ValueError | x # rest \<Rightarrow> Inr (argmin_from 0 x 1 rest))"

text \<open>\<open>s.index(sub)\<close>, for a string that contains \<open>sub\<close>.\<close>

fun py_str_index :: "string \<Rightarrow> string \<Rightarrow> nat" where
  "py_str_index sub [] = 0"
| "py_str_index sub (c # cs) =
     (if take (length sub) (c # cs) = sub then 0 else Suc (py_str_index sub cs))"

text \<open>\<open>s.replace(old, new)\<close> for the four-letter pattern \<open>"diff"\<close>.\<close>

fun replace_diff :: "string \<Rightarrow> string \<Rightarrow> string" where
  "replace_diff new (a # b # c # d # rest) =
     (if [a, b, c, d] = ''diff'' then new @ replace_diff new rest
      else a # replace_diff new (b # c # d # rest))"
| "replace_diff new s = s"

text \<open>\<open>s.replace(old, new)\<close> for a single character, and its removal.\<close>

definition replace_char :: "char \<Rightarrow> char \<Rightarrow> string \<Rightarrow> string" where
  "replace_char old new s = map (\<lambda>c. if c = old then new else c) s"

definition remove_char :: "char \<Rightarrow> string \<Rightarrow> string" where
  "remove_char old s = filter (\<lambda>c. c \<noteq> old) s"

text \<open>\<open>xss[-1]\<close>\<open>.append(x)\<close> on a non-empty list of lists.\<close>

definition append_to_last :: "'a list list \<Rightarrow> 'a \<Rightarrow> 'a list list" where
  "append_to_last xss x = butlast xss @ [last xss @ [x]]"

section \<open>Older variant: profile, sampler and ray-tracer access\<close>

text \<open>
  \<open>model_epsilon(model, lod, taper, dr)\<close> of the older variant. Its arrays \<open>r\<close>, \<open>rho\<close>,
  \<open>Mr\<close> and \<open>eta\<close> are defined on their own, for a sample count \<open>num\<close> that is not
  negative.
\<close>

definition radii_of :: "tau_model \<Rightarrow> real \<Rightarrow> real list" where
  "radii_of model dr =
     (let a = radius_of_planet model * 1000 in linspace0 a (nat (1 + py_int (a / dr))))"

definition rho_of :: "tau_model \<Rightarrow> real \<Rightarrow> real list" where
  "rho_of model dr =
     (let a = radius_of_planet model * 1000;
          r = radii_of model dr
      in map (\<lambda>ri. evaluate_above model ((a - ri) / 1000) ''d'' * 1000) (butlast r)
         @ [evaluate_below model 0 ''d'' * 1000])"

definition Mr_of :: "tau_model \<Rightarrow> real \<Rightarrow> real list" where
  "Mr_of model dr =
     map (\<lambda>x. 4 * pi * x)
       (cumtrapz (map2 (\<lambda>rh ri. rh * ri ^ 2 * dr) (rho_of model dr) (radii_of model dr)))"

definition eta_of :: "tau_model \<Rightarrow> bool \<Rightarrow> real \<Rightarrow> real list" where
  "eta_of model taper dr =
     (let r = radii_of model dr;
          rho = rho_of model dr;
          Mr = Mr_of model dr;
          Ir = map (\<lambda>x. (8 / 3) * pi * x) (cumtrapz (map2 (\<lambda>rh ri. rh * ri ^ 4 * dr) rho r));
          y = map2 (\<lambda>i (m, ri). i / (m * ri ^ 2)) Ir (zip Mr (tl r));
          y = (if taper then map (\<lambda>yi. if yi > 0.4 then 0.4 else yi) y else y)
      in map (\<lambda>yi. 6.25 * (1 - 3 * yi / 2) ^ 2 - 1) y)"

text \<open>
  \<open>2 * np.pi / lod\<close> and \<open>a / dr\<close> divide Python numbers and raise on zero. With a
  negative sample count \<open>np.linspace\<close> raises ValueError; with fewer than two samples
  \<open>Mr\<close> is empty and \<open>Mr[-1]\<close> raises IndexError.
\<close>

definition model_epsilon_old :: "tau_model \<Rightarrow> real \<Rightarrow> bool \<Rightarrow> real \<Rightarrow> exn + tau_model" where
  "model_epsilon_old model lod taper dr =
     (if lod = 0 then Inl ZeroDivisionError
      else
        let Omega = 2 * pi / lod;
            a = radius_of_planet model * 1000
        in if dr = 0 then Inl ZeroDivisionError
           else
             let num = 1 + py_int (a / dr)
             in if num < 0 then Inl ValueError
                else
                  let r = radii_of model dr;
                      Mr = Mr_of model dr
                  in bind_exn (py_last Mr) (\<lambda>M.
                       let eta = eta_of model taper dr;
                           ha = (a ^ 3 * Omega ^ 2) / (G * M)
                       in bind_exn (py_last eta) (\<lambda>eta_a.
                            let epsilona = (5 * ha) / (2 * eta_a + 4);
                                epsilon = map exp
                                  (0 # cumtrapz (map2 (\<lambda>e ri. dr * e / ri) eta (tl r)))
                            in bind_exn (py_last epsilon) (\<lambda>epsilon_last.
                                 let epsilon = map (\<lambda>e. epsilona * e / epsilon_last) epsilon
                                 in bind_exn (py_index epsilon 0) (\<lambda>epsilon_0.
                                      let epsilon = epsilon_0 # epsilon
                                      in Inr (model\<lparr>epsilon_profile := Some (r, epsilon)\<rparr>))))))"

text \<open>\<open>get_epsilon(model, radius)\<close>: the stored value at the nearest stored radius.\<close>

definition get_epsilon_old :: "tau_model \<Rightarrow> real \<Rightarrow> exn + real" where
  "get_epsilon_old model radius =
     (case epsilon_profile model of
        None \<Rightarrow> Inl AttributeError
      | Some (radii, epsilon) \<Rightarrow>
          let idx = searchsorted_left radii radius
          in if idx > 0 \<and>
                (idx = length radii
                 \<or> \<bar>radius - radii ! (idx - 1)\<bar> < \<bar>radius - radii ! idx\<bar>)
             then py_index epsilon (idx - 1)
             else py_index epsilon idx)"

text \<open>
  \<open>get_taup_arrival\<close>. The name of the velocity model inside the exception is the text
  between the first two apostrophes of the model name, when it has an apostrophe.
\<close>

definition quoted_part :: "string \<Rightarrow> string" where
  "quoted_part s =
     takeWhile (\<lambda>c. c \<noteq> CHR 0x27) (tl (dropWhile (\<lambda>c. c \<noteq> CHR 0x27) s))"

definition get_taup_arrival ::
  "string \<Rightarrow> real \<Rightarrow> real \<Rightarrow> int \<Rightarrow> tau_model \<Rightarrow> exn + arrival" where
  "get_taup_arrival phase distance source_depth arrival_index model =
     (let arrivals = get_ray_paths model source_depth distance phase;
          arrivals = filter (\<lambda>x. \<bar>arr_purist_distance x - distance\<bar> < 0.0001) arrivals
      in if length arrivals = 0 then
           (let vel_model_name = model_name model;
                vel_model = (if CHR 0x27 \<in> set vel_model_name then quoted_part vel_model_name
                             else vel_model_name)
            in Inl (PhaseError phase vel_model))
         else py_index_int arrivals arrival_index)"

definition get_correct_taup_arrival :: "arrival \<Rightarrow> tau_model \<Rightarrow> real \<Rightarrow> exn + arrival" where
  "get_correct_taup_arrival arrival model extra_distance =
     (let new_arrivals = get_ray_paths model (arr_source_depth arrival)
                           (arr_distance arrival + extra_distance) (arr_name arrival)
      in bind_exn (argmin (map (\<lambda>x. \<bar>arr_ray_param x - arr_ray_param arrival\<bar>) new_arrivals))
           (\<lambda>index. Inr (new_arrivals ! index)))"

text \<open>
  \<open>centre_of_planet_coefficients\<close>. The recursive call of \<open>ellipticity_coefficients\<close> is the
  parameter \<open>coefficients_of\<close>. The quotient of the distances divides Python floats and
  raises when the two auxiliary arrivals have the same distance.
\<close>

definition centre_of_planet_coefficients ::
  "(arrival \<Rightarrow> exn + npfloat list) \<Rightarrow> arrival \<Rightarrow> tau_model \<Rightarrow> exn + npfloat list" where
  "centre_of_planet_coefficients coefficients_of arrival model =
     bind_exn (get_correct_taup_arrival arrival model (- 0.05)) (\<lambda>arrival1.
     bind_exn (get_correct_taup_arrival arrival model (- 0.10)) (\<lambda>arrival2.
     bind_exn (coefficients_of arrival1) (\<lambda>coeffs1.
     bind_exn (coefficients_of arrival2) (\<lambda>coeffs2.
       map_exn (\<lambda>i.
           if arr_distance arrival2 - arr_distance arrival1 = 0 then Inl ZeroDivisionError
           else bind_exn (py_index coeffs2 i) (\<lambda>c2.
                  Inr (np_add (coeffs1 ! i)
                         (np_mul (Num ((arr_distance arrival - arr_distance arrival1)
                                       / (arr_distance arrival2 - arr_distance arrival1)))
                            (np_sub c2 (coeffs1 ! i))))))
         [0..<length coeffs1]))))"

definition get_dvdr_below :: "tau_model \<Rightarrow> real \<Rightarrow> string \<Rightarrow> exn + real" where
  "get_dvdr_below model radius wave =
     bind_exn (evaluate_derivative_below model (radius_of_planet model - radius / 1000) wave)
       (\<lambda>s. Inr (- s))"

definition get_dvdr_above :: "tau_model \<Rightarrow> real \<Rightarrow> string \<Rightarrow> exn + real" where
  "get_dvdr_above model radius wave =
     bind_exn (evaluate_derivative_above model (radius_of_planet model - radius / 1000) wave)
       (\<lambda>s. Inr (- s))"

section \<open>Older variant: segmenter by phase name\<close>

text \<open>The letters of the phase name, one per leg of the ray.\<close>

definition phase_segments :: "string \<Rightarrow> string" where
  "phase_segments phase_name =
     (let segments =
            (if py_in_str ''diff'' phase_name then
               (let k = py_str_index ''diff'' phase_name;
                    before = (if k = 0 then last phase_name else phase_name ! (k - 1))
                in replace_diff [before] phase_name)
             else phase_name)
      in replace_char CHR ''J'' CHR ''S''
           (replace_char CHR ''I'' CHR ''P''
              (replace_char CHR ''K'' CHR ''P''
                 (remove_char CHR ''i'' (remove_char CHR ''c'' segments)))))"

text \<open>The first loop of \<open>ray_path\<close>: the wave letter of every path point.\<close>

fun waves_loop ::
  "tau_model \<Rightarrow> string \<Rightarrow> path_point list \<Rightarrow> nat list \<Rightarrow> nat \<Rightarrow> exn + string list" where
  "waves_loop model segments path [] letter = Inr []"
| "waves_loop model segments path (i # rest) letter =
     (let pathi = path ! i;
          letter = (if i \<noteq> 0 \<and> i \<noteq> length path - 1
                       \<and> pt_depth pathi \<in> set [0, cmb_depth model, iocb_depth model]
                       \<and> pt_depth pathi \<noteq> pt_depth (path ! (i - 1))
                    then letter + 1 else letter)
      in bind_exn (py_index segments letter) (\<lambda>c.
         bind_exn (waves_loop model segments path rest letter) (\<lambda>ws.
           Inr (py_lower [c] # ws))))"

text \<open>
  The second loop of \<open>ray_path\<close>. The dictionaries \<open>paths\<close> and \<open>wave\<close> have the keys
  \<open>0 .. count\<close>; they are the lists of their values, and \<open>count\<close> is their length minus
  one. Appending to \<open>paths[count]\<close> before any segment was opened is a KeyError.
\<close>

fun split_loop ::
  "real list \<Rightarrow> real \<Rightarrow> path_point list \<Rightarrow> string list \<Rightarrow> nat list
   \<Rightarrow> path_point list list \<times> string list list
   \<Rightarrow> exn + (path_point list list \<times> string list list)" where
  "split_loop discs bot_dep path waves [] (paths, wave) = Inr (paths, wave)"
| "split_loop discs bot_dep path waves (i # rest) (paths, wave) =
     (let pathi = path ! i;
          opens = ((i = 0 \<or> pt_depth pathi \<in> set discs \<or> pt_depth pathi = bot_dep)
                   \<and> i \<noteq> length path - 1);
          paths1 = (if opens then
                      (if paths \<noteq> [] then append_to_last paths pathi else paths) @ [[]]
                    else paths);
          wave1 = (if opens then
                     (if wave \<noteq> [] then append_to_last wave (waves ! (i - 1)) else wave) @ [[]]
                   else wave)
      in if paths1 = [] then Inl KeyError
         else split_loop discs bot_dep path waves rest
                (append_to_last paths1 pathi, append_to_last wave1 (waves ! i)))"

definition ray_path ::
  "arrival \<Rightarrow> tau_model \<Rightarrow> exn + (path_point list list \<times> string list list)" where
  "ray_path arrival model =
     (case arr_path arrival of
        None \<Rightarrow> Inl TypeError
      | Some path \<Rightarrow>
          bind_exn (py_max (map pt_depth path)) (\<lambda>bot_dep.
            let discs = butlast (get_discontinuity_depths model);
                segments = phase_segments (arr_name arrival)
            in bind_exn (waves_loop model segments path [0..<length path] 0) (\<lambda>waves.
                 split_loop discs bot_dep path waves [0..<length path] ([], []))))"

section \<open>Older variant: integral and discontinuity contributions, aggregation\<close>

text \<open>\<open>(-1.0) * (2.0 / 3.0) * weighted_alp2(x, dist)\<close>, the factor lambda of the older variant.\<close>

definition lamda_m :: "nat \<Rightarrow> real \<Rightarrow> exn + real" where
  "lamda_m x distance = bind_exn (weighted_alp2 (int x) distance) (\<lambda>w. Inr ((- 1) * (2 / 3) * w))"

text \<open>\<open>np.trapz(y, x=x)\<close>.\<close>

definition trapz :: "real list \<Rightarrow> real list \<Rightarrow> real" where
  "trapz y x = sum_list (map2 (\<lambda>d s. d * s / 2) (diff_list x) (map2 (+) (tl y) (butlast y)))"

text \<open>
  The body of the loop of \<open>integral_coefficients\<close> for one segment and the wave letters
  of its points. The quotient by the ray parameter is numpy's: it does not raise.
\<close>

definition segment_integral_old ::
  "arrival \<Rightarrow> tau_model \<Rightarrow> path_point list \<Rightarrow> string list \<Rightarrow> exn + real list" where
  "segment_integral_old arrival model path wave_path =
     (let Re = radius_of_planet model;
          p = arr_ray_param arrival;
          dep = map (\<lambda>x. pt_depth x * 1000) path;
          dep = map (\<lambda>d. if d = Re * 1000 then Re * 1000 - 1 else d) dep;
          r = map (\<lambda>d. Re * 1000 - d) dep
      in bind_exn (map_exn (\<lambda>i.
             bind_exn (py_max dep) (\<lambda>deepest.
             bind_exn (py_index wave_path i) (\<lambda>w.
               Inr (if dep ! i \<noteq> deepest then evaluate_below model (dep ! i / 1000) w * 1000
                    else evaluate_above model (dep ! i / 1000) w * 1000))))
           [0..<length path]) (\<lambda>v.
         bind_exn (map_exn (\<lambda>i.
             bind_exn (py_max dep) (\<lambda>deepest.
             bind_exn (py_index wave_path 0) (\<lambda>w.
               if dep ! i \<noteq> deepest then get_dvdr_below model (r ! i) w
               else get_dvdr_above model (r ! i) w)))
           [0..<length path]) (\<lambda>dvdr.
         let eta = map2 (/) r v
         in bind_exn (map_exn (\<lambda>i. get_epsilon_old model (r ! i)) [0..<length path]) (\<lambda>epsilon.
            let dist = map pt_dist path
            in bind_exn (map_exn (\<lambda>x. map_exn (lamda_m x) dist) [0, 1, 2]) (\<lambda>lamda.
               Inr (map (\<lambda>m. trapz (map2 (\<lambda>(e, dv) (ep, l). e ^ 3 * dv * ep * l)
                                      (zip eta dvdr) (zip epsilon (lamda ! m))) dist / p)
                      [0, 1, 2]))))))"

definition integral_coefficients_old ::
  "arrival \<Rightarrow> tau_model \<Rightarrow> path_point list list \<Rightarrow> string list list \<Rightarrow> exn + real list" where
  "integral_coefficients_old arrival model paths wave_paths =
     bind_exn (map_exn (\<lambda>(path, wave_path). segment_integral_old arrival model path wave_path)
                 (zip paths wave_paths)) (\<lambda>seg_ray_sigma.
       map_exn (\<lambda>m.
           bind_exn (map_exn (\<lambda>x. bind_exn (py_index seg_ray_sigma x) (\<lambda>s. Inr (s ! m)))
                       [0..<length paths])
             (\<lambda>vals. Inr (sum_list vals)))
         [0, 1, 2])"

text \<open>
  The dictionaries \<open>idiscs\<close> of \<open>discontinuity_coefficients\<close> at their creation. The keys
  that the loop adds later are results of the functions below.
\<close>

record idisc =
  id_ind :: nat
  id_order :: nat
  id_dep :: real
  id_r :: real
  id_dist :: real
  id_p :: real

datatype direction = DOWN | DIFF | UP

datatype interaction = TRANS | DIFFRACTED | REFL

definition direction_of :: "real \<Rightarrow> real \<Rightarrow> direction" where
  "direction_of d0 d1 = (if d0 < d1 then DOWN else if d0 = d1 then DIFF else UP)"

text \<open>
  The square root \<open>np.sqrt(eta ** 2 - p ** 2)\<close> of the older variant, written without a
  clamp at every boundary interaction.
\<close>

definition sqrt_eta_p :: "real \<Rightarrow> real \<Rightarrow> npfloat" where
  "sqrt_eta_p eta p = np_sqrt (eta ^ 2 - p ^ 2)"

definition make_idiscs :: "arrival \<Rightarrow> tau_model \<Rightarrow> path_point list \<Rightarrow> exn + idisc list" where
  "make_idiscs arrival model path =
     (let Re = radius_of_planet model
      in bind_exn (py_max (map pt_depth path)) (\<lambda>bot_dep.
           let discs = butlast (get_discontinuity_depths model);
               assess_discs = (if bot_dep = pt_depth (path ! 0) then discs
                               else discs @ [bot_dep]);
               ids = map (\<lambda>i. (i, pt_depth (path ! i), pt_dist (path ! i)))
                       (filter (\<lambda>i. pt_depth (path ! i) \<in> set assess_discs) [0..<length path])
           in bind_exn (py_index ids 0) (\<lambda>first.
                let ids = (if arr_source_depth arrival \<notin> set [0, fst (snd first)]
                           then (0, arr_source_depth arrival, 0) # ids else ids)
                in Inr (map (\<lambda>i.
                       \<lparr>id_ind = fst (ids ! i), id_order = i,
                        id_dep = fst (snd (ids ! i)) * 1000,
                        id_r = (Re - fst (snd (ids ! i))) * 1000,
                        id_dist = snd (snd (ids ! i)),
                        id_p = pt_p (path ! 0)\<rparr>)
                     [0..<length ids]))))"

text \<open>The test that sets \<open>idisc["yn"]\<close>.\<close>

definition disc_yn :: "arrival \<Rightarrow> tau_model \<Rightarrow> nat \<Rightarrow> idisc \<Rightarrow> bool" where
  "disc_yn arrival model d idisc =
     (let discs = butlast (get_discontinuity_depths model)
      in if py_in_str ''diff'' (arr_name arrival) \<and> id_dep idisc = cmb_depth model * 1000
         then False
         else if py_round (id_dep idisc * (1 / 1000)) 5 \<in> set discs \<or> d = 0 then True
         else False)"

text \<open>
  The three parts of the body that assign \<open>eva\<close>. The variable keeps its value from the
  previous boundary point when no part assigns it; \<open>None\<close> stands for a variable that
  was never assigned.
\<close>

definition interior_eva ::
  "tau_model \<Rightarrow> path_point list \<Rightarrow> string list list \<Rightarrow> nat \<Rightarrow> idisc \<Rightarrow> npfloat option
   \<Rightarrow> exn + npfloat option" where
  "interior_eva model path wave_paths d idisc eva =
     bind_exn (py_index path (id_ind idisc - 1)) (\<lambda>pt0.
     bind_exn (py_index path (id_ind idisc)) (\<lambda>pt1.
     bind_exn (py_index path (id_ind idisc + 1)) (\<lambda>pt2.
       let pre = direction_of (pt_depth pt0) (pt_depth pt1);
           post = direction_of (pt_depth pt1) (pt_depth pt2);
           kind = (if pre = post then TRANS
                   else if pre = DIFF \<or> post = DIFF then DIFFRACTED else REFL)
       in bind_exn (bind_exn (py_index_int wave_paths (int d - 1)) py_last) (\<lambda>ph_pre.
          bind_exn (bind_exn (py_index wave_paths d) (\<lambda>w. py_index w 0)) (\<lambda>ph_post.
          bind_exn
            (if kind = TRANS then
               (if pre = DIFF then Inl KeyError
                else
                  let ph_above = (if pre = DOWN then ph_pre else ph_post);
                      ph_below = (if pre = DOWN then ph_post else ph_pre);
                      v0 = evaluate_above model (id_dep idisc / 1000) ph_above * 1000;
                      v1 = evaluate_below model (id_dep idisc / 1000) ph_below * 1000;
                      eta0 = id_r idisc / v0;
                      eta1 = id_r idisc / v1
                  in Inr (Some (np_mul (Num (- 1))
                                  (np_sub (sqrt_eta_p eta0 (id_p idisc))
                                          (sqrt_eta_p eta1 (id_p idisc))))))
             else Inr eva) (\<lambda>eva.
            let eva =
                  (if kind = REFL \<and> pre = UP then
                     (let v0 = evaluate_below model (id_dep idisc / 1000) ph_pre * 1000;
                          v1 = evaluate_below model (id_dep idisc / 1000) ph_post * 1000;
                          eta0 = id_r idisc / v0;
                          eta1 = id_r idisc / v1
                      in Some (np_add (sqrt_eta_p eta0 (id_p idisc))
                                      (sqrt_eta_p eta1 (id_p idisc))))
                   else eva);
                eva =
                  (if kind = REFL \<and> pre = DOWN then
                     (let v0 = evaluate_above model (id_dep idisc / 1000) ph_pre * 1000;
                          v1 = evaluate_above model (id_dep idisc / 1000) ph_post * 1000;
                          eta0 = id_r idisc / v0;
                          eta1 = id_r idisc / v1
                      in Some (np_mul (Num (- 1))
                                 (np_add (sqrt_eta_p eta0 (id_p idisc))
                                         (sqrt_eta_p eta1 (id_p idisc)))))
                   else eva)
            in Inr eva))))))"

definition endpoint_eva ::
  "arrival \<Rightarrow> tau_model \<Rightarrow> string list list \<Rightarrow> idisc \<Rightarrow> exn + npfloat option" where
  "endpoint_eva arrival model wave_paths idisc =
     bind_exn (if id_ind idisc = 0 then bind_exn (py_index wave_paths 0) (\<lambda>w. py_index w 0)
               else bind_exn (py_last wave_paths) py_last) (\<lambda>wave.
     bind_exn (py_index (arr_name arrival) 0) (\<lambda>c.
       if c \<in> set ''ps'' \<and> id_ind idisc = 0 then
         (let v1 = evaluate_above model (id_dep idisc / 1000) wave * 1000;
              eta1 = id_r idisc / v1
          in Inr (Some (np_mul (Num (- 1)) (sqrt_eta_p eta1 (id_p idisc)))))
       else
         (let v1 = evaluate_below model (id_dep idisc / 1000) wave * 1000;
              eta1 = id_r idisc / v1
          in Inr (Some (np_mul (Num (- 1))
                          (np_sub (Num 0) (sqrt_eta_p eta1 (id_p idisc))))))))"

definition surface_eva ::
  "tau_model \<Rightarrow> string list list \<Rightarrow> nat \<Rightarrow> idisc \<Rightarrow> exn + npfloat option" where
  "surface_eva model wave_paths d idisc =
     bind_exn (bind_exn (py_index_int wave_paths (int d - 1)) py_last) (\<lambda>ph_pre.
     bind_exn (bind_exn (py_index wave_paths d) (\<lambda>w. py_index w 0)) (\<lambda>ph_post.
       let v0 = evaluate_below model (id_dep idisc / 1000) ph_pre * 1000;
           v1 = evaluate_below model (id_dep idisc / 1000) ph_post * 1000;
           eta0 = id_r idisc / v0;
           eta1 = id_r idisc / v1
       in Inr (Some (np_add (sqrt_eta_p eta0 (id_p idisc)) (sqrt_eta_p eta1 (id_p idisc))))))"

text \<open>
  The body of the loop for a boundary point that is summed: its \<open>sigma\<close> and the value
  of \<open>eva\<close> afterwards. Reading \<open>eva\<close> before any assignment is an UnboundLocalError.
\<close>

definition disc_step ::
  "arrival \<Rightarrow> tau_model \<Rightarrow> path_point list \<Rightarrow> string list list \<Rightarrow> nat \<Rightarrow> idisc
   \<Rightarrow> npfloat option \<Rightarrow> exn + (npfloat list \<times> npfloat option)" where
  "disc_step arrival model path wave_paths d idisc eva =
     bind_exn (get_epsilon_old model (id_r idisc)) (\<lambda>epsilon.
     bind_exn (map_exn (\<lambda>x. lamda_m x (id_dist idisc)) [0, 1, 2]) (\<lambda>lam.
       let extra = map (\<lambda>x. epsilon * (lam ! x)) [0, 1, 2]
       in bind_exn
            (if id_dep idisc \<noteq> 0 \<and> id_ind idisc \<noteq> 0
             then interior_eva model path wave_paths d idisc eva
             else if id_ind idisc = 0 \<or> id_ind idisc = length path - 1
             then endpoint_eva arrival model wave_paths idisc
             else if id_dep idisc = 0 then surface_eva model wave_paths d idisc
             else Inr eva) (\<lambda>eva.
            case eva of
              None \<Rightarrow> Inl UnboundLocalError
            | Some e \<Rightarrow> Inr (map (\<lambda>x. np_mul (Num (extra ! x)) e) [0, 1, 2], eva))))"

text \<open>
  The loop over the boundary points. Its result lists, for every boundary point in
  order, the flag \<open>yn\<close> and the \<open>sigma\<close> that was stored when the flag is set.
\<close>

fun disc_loop ::
  "arrival \<Rightarrow> tau_model \<Rightarrow> path_point list \<Rightarrow> string list list \<Rightarrow> (nat \<times> idisc) list
   \<Rightarrow> npfloat option \<Rightarrow> exn + (bool \<times> npfloat list option) list" where
  "disc_loop arrival model path wave_paths [] eva = Inr []"
| "disc_loop arrival model path wave_paths ((d, idisc) # rest) eva =
     (if disc_yn arrival model d idisc then
        bind_exn (disc_step arrival model path wave_paths d idisc eva) (\<lambda>(sigma, eva).
        bind_exn (disc_loop arrival model path wave_paths rest eva) (\<lambda>out.
          Inr ((True, Some sigma) # out)))
      else
        bind_exn (disc_loop arrival model path wave_paths rest eva) (\<lambda>out.
          Inr ((False, None) # out)))"

text \<open>
  \<open>[idisc["sigma"][x] for idisc in idiscs if idisc["yn"]]\<close>: the summands of order \<open>x\<close>.
\<close>

definition summed_sigmas :: "(bool \<times> npfloat list option) list \<Rightarrow> nat \<Rightarrow> npfloat list" where
  "summed_sigmas out x =
     concat (map (\<lambda>(yn, s). if yn then (case s of Some sg \<Rightarrow> [sg ! x] | None \<Rightarrow> []) else [])
               out)"

definition discontinuity_coefficients_old ::
  "arrival \<Rightarrow> tau_model \<Rightarrow> path_point list list \<Rightarrow> string list list \<Rightarrow> exn + npfloat list" where
  "discontinuity_coefficients_old arrival model paths wave_paths =
     (case arr_path arrival of
        None \<Rightarrow> Inl TypeError
      | Some path \<Rightarrow>
          bind_exn (make_idiscs arrival model path) (\<lambda>idiscs.
          bind_exn (disc_loop arrival model path wave_paths
                      (zip [0..<length idiscs] idiscs) None) (\<lambda>out.
            Inr (map (\<lambda>x. np_sum (summed_sigmas out x)) [0, 1, 2]))))"

text \<open>
  The argument \<open>arrival\<close> of \<open>ellipticity_coefficients\<close>: a list
  \<open>[phase, distance, source_depth, index]\<close> or an arrival of the ray tracer.
\<close>

datatype arrival_arg =
    ArrivalList string real real int
  | ArrivalObject arrival

text \<open>
  \<open>ellipticity_coefficients(arrival, model, lod)\<close> of the older variant, for a model that
  is a TauPyModel. The function calls itself through \<open>centre_of_planet_coefficients\<close>;
  the first argument bounds the depth of these calls, as the interpreter's recursion
  limit does, and the call beyond it raises RecursionError.
\<close>

fun ellipticity_coefficients_old ::
  "nat \<Rightarrow> arrival_arg \<Rightarrow> tau_model \<Rightarrow> real \<Rightarrow> exn + npfloat list" where
  "ellipticity_coefficients_old 0 arg model lod = Inl RecursionError"
| "ellipticity_coefficients_old (Suc limit) arg model lod =
     bind_exn (if epsilon_profile model = None then model_epsilon_old model lod True 100
               else Inr model) (\<lambda>model.
     bind_exn (case arg of
                 ArrivalList phase distance source_depth index \<Rightarrow>
                   get_taup_arrival phase distance source_depth index model
               | ArrivalObject a \<Rightarrow>
                   if arr_path a = None then get_correct_taup_arrival a model 0 else Inr a)
       (\<lambda>arrival.
     bind_exn (if arr_distance arrival = 0
               then get_correct_taup_arrival arrival model (1 / 10 ^ 10) else Inr arrival)
       (\<lambda>arrival.
       case arr_path arrival of
         None \<Rightarrow> Inl TypeError
       | Some path \<Rightarrow>
           bind_exn (py_max (map pt_depth path)) (\<lambda>bot_dep.
             if (radius_of_planet model - bot_dep) * 1000 < 50 then
               centre_of_planet_coefficients
                 (\<lambda>a. ellipticity_coefficients_old limit (ArrivalObject a) model EARTH_LOD)
                 arrival model
             else
               bind_exn (ray_path arrival model) (\<lambda>(paths, wave_paths).
               bind_exn (integral_coefficients_old arrival model paths wave_paths) (\<lambda>ray_sigma.
               bind_exn (discontinuity_coefficients_old arrival model paths wave_paths)
                 (\<lambda>disc_sigma.
                 Inr (map (\<lambda>x. np_add (Num (ray_sigma ! x)) (disc_sigma ! x)) [0, 1, 2]))))))))"

text \<open>
  The value \<open>weighted_alp2\<close> returns for the orders 0, 1 and 2, with the normalisation
  \<open>sqrt ((2 - kronecker_0m) * ((2 - m)! / (2 + m)!))\<close> of the source written out.
\<close>

definition alp2_value :: "nat \<Rightarrow> real \<Rightarrow> real" where
  "alp2_value m theta =
     (if m = 0 then sqrt (1 * (fact 2 / fact 2)) * 0.5 * (3 * (cos theta)\<^sup>2 - 1)
      else if m = 1 then sqrt (2 * (fact 1 / fact 3)) * 3 * cos theta * sin theta
      else sqrt (2 * (fact 0 / fact 4)) * 3 * (sin theta)\<^sup>2)"

text \<open>
  The polynomial of the specification, written from its words: the three orders with
  the normalisation constants \<open>1\<close>, \<open>sqrt (2 * 1! / 3!)\<close> and \<open>sqrt (2 * 2! / 4!)\<close>.
\<close>

definition spec_alp2 :: "nat \<Rightarrow> real \<Rightarrow> real" where
  "spec_alp2 m theta =
     (if m = 0 then 1 * 0.5 * (3 * (cos theta)\<^sup>2 - 1)
      else if m = 1 then sqrt (2 * fact 1 / fact 3) * 3 * cos theta * sin theta
      else sqrt (2 * fact 2 / fact 4) * 3 * (sin theta)\<^sup>2)"

section \<open>Notions of the specification\<close>

text \<open>
  The two points that the kinematic classifier compares: the first two points of the
  segment when it starts shallower than it ends, the last two otherwise.
\<close>

definition compared_points :: "path_point list \<Rightarrow> path_point \<times> path_point" where
  "compared_points path =
     (if pt_depth (path ! 0) < pt_depth (path ! (length path - 1))
      then (path ! 0, path ! 1)
      else (path ! (length path - 2), path ! (length path - 1)))"

text \<open>The observed delay: travel time minus ray parameter times distance.\<close>

definition observed_delay :: "path_point \<Rightarrow> path_point \<Rightarrow> real" where
  "observed_delay point0 point1 =
     (pt_time point1 - pt_time point0) - pt_p point0 * \<bar>pt_dist point0 - pt_dist point1\<bar>"




section \<open>Concrete inputs\<close>

text \<open>
  A planet of radius 10 km with one discontinuity, the core-mantle boundary at 5 km
  depth: the mantle has P velocity 2 and S velocity 1, the core P velocity 3 and no S
  wave. The profile of the newer variant is already attached, with epsilon 4 at the
  surface, 3 at the core-mantle boundary and 2 at the centre.
\<close>

definition demo_layers :: "layer list" where
  "demo_layers =
     [\<lparr>top_depth = 0, bot_depth = 5, top_p_velocity = 2, bot_p_velocity = 2,
       top_s_velocity = 1, bot_s_velocity = 1, top_density = 3, bot_density = 3\<rparr>,
      \<lparr>top_depth = 5, bot_depth = 10, top_p_velocity = 3, bot_p_velocity = 3,
       top_s_velocity = 0, bot_s_velocity = 0, top_density = 6, bot_density = 6\<rparr>]"

definition demo_velocity_above :: "real \<Rightarrow> string \<Rightarrow> real" where
  "demo_velocity_above d w =
     (if d \<le> 5 then (if w = ''p'' then 2 else if w = ''s'' then 1 else 3)
      else (if w = ''p'' then 3 else if w = ''s'' then 0 else 6))"

definition demo_velocity_below :: "real \<Rightarrow> string \<Rightarrow> real" where
  "demo_velocity_below d w =
     (if d < 5 then (if w = ''p'' then 2 else if w = ''s'' then 1 else 3)
      else (if w = ''p'' then 3 else if w = ''s'' then 0 else 6))"

definition demo_model :: tau_model where
  "demo_model =
     \<lparr>radius_of_planet = 10, cmb_depth = 5, iocb_depth = 8, model_name = ''demo'',
      layers = demo_layers,
      get_discontinuity_depths = [0, 5, 10],
      evaluate_above = demo_velocity_above,
      evaluate_below = demo_velocity_below,
      layer_number_above = (\<lambda>d. if d \<le> 5 then 0 else 1),
      layer_number_below = (\<lambda>d. if d < 5 then 0 else 1),
      get_ray_paths = (\<lambda>source_depth distance phase. []),
      top_bot_epsilon = Some ([4, 3], [3, 2]),
      epsilon_profile = None\<rparr>"

text \<open>
  A vertical P ray from the surface down to the core-mantle boundary and back, with
  ray parameter 0: 2.5 s each way.
\<close>

definition demo_down :: path_point where
  "demo_down = \<lparr>pt_p = 0, pt_time = 0, pt_dist = 0, pt_depth = 0\<rparr>"

definition demo_turn :: path_point where
  "demo_turn = \<lparr>pt_p = 0, pt_time = 5 / 2, pt_dist = 0, pt_depth = 5\<rparr>"

definition demo_up :: path_point where
  "demo_up = \<lparr>pt_p = 0, pt_time = 5, pt_dist = 0, pt_depth = 0\<rparr>"

definition demo_arrival :: arrival where
  "demo_arrival =
     \<lparr>arr_name = ''PcP'', arr_distance = 0, arr_purist_distance = 0, arr_ray_param = 0,
      arr_source_depth = 0, arr_path = Some [demo_down, demo_turn, demo_up]\<rparr>"

text \<open>
  The same planet for the older variant, with a sampled profile already attached
  (epsilon 1 at the radii 0 and 10000 m).
\<close>

definition demo_model_old :: tau_model where
  "demo_model_old = demo_model\<lparr>epsilon_profile := Some ([0, 10000], [1, 1])\<rparr>"

text \<open>
  A P ray reflected at the core-mantle boundary whose ray parameter 3 exceeds
  \<open>r / v = 5000 / 2000\<close> on the mantle side of the boundary.
\<close>

definition graze_src :: path_point where
  "graze_src = \<lparr>pt_p = 3, pt_time = 0, pt_dist = 0, pt_depth = 0\<rparr>"

definition graze_cmb :: path_point where
  "graze_cmb = \<lparr>pt_p = 3, pt_time = 4, pt_dist = 1 / 2, pt_depth = 5\<rparr>"

definition graze_rcv :: path_point where
  "graze_rcv = \<lparr>pt_p = 3, pt_time = 8, pt_dist = 1, pt_depth = 0\<rparr>"

definition grazing_path :: "path_point list" where
  "grazing_path = [graze_src, graze_cmb, graze_rcv]"

definition grazing_arrival :: arrival where
  "grazing_arrival =
     \<lparr>arr_name = ''PcP'', arr_distance = 57, arr_purist_distance = 57, arr_ray_param = 3,
      arr_source_depth = 0, arr_path = Some grazing_path\<rparr>"

text \<open>The boundary points of the grazing ray, as \<open>discontinuity_coefficients\<close> lists them.\<close>

definition graze_id0 :: idisc where
  "graze_id0 = \<lparr>id_ind = 0, id_order = 0, id_dep = 0, id_r = 10000, id_dist = 0, id_p = 3\<rparr>"

definition graze_id1 :: idisc where
  "graze_id1 =
     \<lparr>id_ind = 1, id_order = 1, id_dep = 5000, id_r = 5000, id_dist = 1 / 2, id_p = 3\<rparr>"

definition graze_id2 :: idisc where
  "graze_id2 = \<lparr>id_ind = 2, id_order = 2, id_dep = 0, id_r = 10000, id_dist = 1, id_p = 3\<rparr>"

text \<open>
  Two P rays between antipodal points that turn at 4 km and at 2 km depth (ray
  parameters 3 and 4), a ray through the centre of the planet, and a ray tracer that
  knows the first two at the distances 179.95 and 179.90 degrees.
\<close>

definition chord_a_src :: path_point where
  "chord_a_src = \<lparr>pt_p = 3, pt_time = 0, pt_dist = 0, pt_depth = 0\<rparr>"

definition chord_a_turn :: path_point where
  "chord_a_turn = \<lparr>pt_p = 3, pt_time = 4, pt_dist = pi / 2, pt_depth = 4\<rparr>"

definition chord_a_rcv :: path_point where
  "chord_a_rcv = \<lparr>pt_p = 3, pt_time = 8, pt_dist = pi, pt_depth = 0\<rparr>"

definition chord_a_path :: "path_point list" where
  "chord_a_path = [chord_a_src, chord_a_turn, chord_a_rcv]"

definition chord_a :: arrival where
  "chord_a =
     \<lparr>arr_name = ''P'', arr_distance = 179.95, arr_purist_distance = 179.95,
      arr_ray_param = 3, arr_source_depth = 0, arr_path = Some chord_a_path\<rparr>"

definition chord_b_src :: path_point where
  "chord_b_src = \<lparr>pt_p = 4, pt_time = 0, pt_dist = 0, pt_depth = 0\<rparr>"

definition chord_b_turn :: path_point where
  "chord_b_turn = \<lparr>pt_p = 4, pt_time = 3, pt_dist = pi / 2, pt_depth = 2\<rparr>"

definition chord_b_rcv :: path_point where
  "chord_b_rcv = \<lparr>pt_p = 4, pt_time = 6, pt_dist = pi, pt_depth = 0\<rparr>"

definition chord_b_path :: "path_point list" where
  "chord_b_path = [chord_b_src, chord_b_turn, chord_b_rcv]"

definition chord_b :: arrival where
  "chord_b =
     \<lparr>arr_name = ''P'', arr_distance = 179.90, arr_purist_distance = 179.90,
      arr_ray_param = 4, arr_source_depth = 0, arr_path = Some chord_b_path\<rparr>"

definition centre_arrival :: arrival where
  "centre_arrival =
     \<lparr>arr_name = ''P'', arr_distance = 180, arr_purist_distance = 180,
      arr_ray_param = 0, arr_source_depth = 0,
      arr_path = Some [\<lparr>pt_p = 0, pt_time = 0, pt_dist = 0, pt_depth = 0\<rparr>,
                       \<lparr>pt_p = 0, pt_time = 5, pt_dist = 0, pt_depth = 10\<rparr>,
                       \<lparr>pt_p = 0, pt_time = 10, pt_dist = pi, pt_depth = 0\<rparr>]\<rparr>"

definition demo_tracer :: "real \<Rightarrow> real \<Rightarrow> string \<Rightarrow> arrival list" where
  "demo_tracer source_depth distance phase =
     (if source_depth = 0 \<and> phase = ''P'' \<and> distance = 179.95 then [chord_a]
      else if source_depth = 0 \<and> phase = ''P'' \<and> distance = 179.90 then [chord_b]
      else [])"

definition demo_model_traced :: tau_model where
  "demo_model_traced = demo_model_old\<lparr>get_ray_paths := demo_tracer\<rparr>"

text \<open>The boundary points of the two chords.\<close>

definition chord_a_ids :: "idisc list" where
  "chord_a_ids =
     [\<lparr>id_ind = 0, id_order = 0, id_dep = 0, id_r = 10000, id_dist = 0, id_p = 3\<rparr>,
      \<lparr>id_ind = 1, id_order = 1, id_dep = 4000, id_r = 6000, id_dist = pi / 2, id_p = 3\<rparr>,
      \<lparr>id_ind = 2, id_order = 2, id_dep = 0, id_r = 10000, id_dist = pi, id_p = 3\<rparr>]"

definition chord_b_ids :: "idisc list" where
  "chord_b_ids =
     [\<lparr>id_ind = 0, id_order = 0, id_dep = 0, id_r = 10000, id_dist = 0, id_p = 4\<rparr>,
      \<lparr>id_ind = 1, id_order = 1, id_dep = 2000, id_r = 8000, id_dist = pi / 2, id_p = 4\<rparr>,
      \<lparr>id_ind = 2, id_order = 2, id_dep = 0, id_r = 10000, id_dist = pi, id_p = 4\<rparr>]"

section \<open>Segment boundaries in the words of the specification\<close>

text \<open>The bottoming depth: the depth of the deepest point of a path.\<close>

definition bottoming_depth :: "path_point list \<Rightarrow> real" where
  "bottoming_depth path = Max (set (map pt_depth path))"

text \<open>
  The segments of a path between consecutive boundary indices: segment \<open>j\<close> runs from the
  point with index \<open>bs ! j\<close> to the point with index \<open>bs ! (j + 1)\<close>, both included, so that
  every interior boundary point ends one segment and starts the next.
\<close>

definition slices :: "'a list \<Rightarrow> nat list \<Rightarrow> 'a list list" where
  "slices path bs =
     map (\<lambda>j. map (\<lambda>k. path ! k) [bs ! j..<Suc (bs ! Suc j)]) [0..<length bs - 1]"

text \<open>
  The boundary indices of the specification: the first and the last point, every point
  at the bottoming depth and every point at a discontinuity depth.
\<close>

definition boundary_indices :: "real list \<Rightarrow> path_point list \<Rightarrow> nat list" where
  "boundary_indices discs path =
     filter (\<lambda>i. i = 0 \<or> i = length path - 1
                 \<or> pt_depth (path ! i) = bottoming_depth path
                 \<or> pt_depth (path ! i) \<in> set discs)
       [0..<length path]"

text \<open>The first point and every point at a discontinuity depth.\<close>

definition disc_indices :: "real list \<Rightarrow> path_point list \<Rightarrow> nat list" where
  "disc_indices discs path =
     filter (\<lambda>i. i = 0 \<or> pt_depth (path ! i) \<in> set discs) [0..<length path]"

text \<open>
  A P wave diffracted along the core-mantle boundary of the concrete planet: its ray
  parameter \<open>5 / 2\<close> is \<open>r / v = 5 / 2\<close> on the mantle side of the boundary, the travel
  time along the boundary is the ray parameter times the distance, and each of the two
  legs in the mantle has the delay \<open>diff_leg_delay\<close> of a P wave.
\<close>

definition diff_leg_delay :: real where
  "diff_leg_delay = (1 / 2) * sqrt (75 / 4) * ln 2"

definition diff_src :: path_point where
  "diff_src = \<lparr>pt_p = 5 / 2, pt_time = 0, pt_dist = 0, pt_depth = 0\<rparr>"

definition diff_in :: path_point where
  "diff_in =
     \<lparr>pt_p = 5 / 2, pt_time = (5 / 2) * (pi / 4) + diff_leg_delay, pt_dist = pi / 4,
      pt_depth = 5\<rparr>"

definition diff_out :: path_point where
  "diff_out =
     \<lparr>pt_p = 5 / 2, pt_time = (5 / 2) * (3 * pi / 4) + diff_leg_delay, pt_dist = 3 * pi / 4,
      pt_depth = 5\<rparr>"

definition diff_rcv :: path_point where
  "diff_rcv =
     \<lparr>pt_p = 5 / 2, pt_time = (5 / 2) * pi + 2 * diff_leg_delay, pt_dist = pi, pt_depth = 0\<rparr>"

definition diff_path :: "path_point list" where
  "diff_path = [diff_src, diff_in, diff_out, diff_rcv]"

definition diff_arrival :: arrival where
  "diff_arrival =
     \<lparr>arr_name = ''Pdiff'', arr_distance = 180, arr_purist_distance = 180,
      arr_ray_param = 5 / 2, arr_source_depth = 0, arr_path = Some diff_path\<rparr>"


section \<open>The ellipticity profile in the words of the specification\<close>

text \<open>
  The surface value \<open>5 h\<^sub>a / (2 \<eta>(a) + 4)\<close> with \<open>h\<^sub>a = a\<^sup>3 \<Omega>\<^sup>2 / (G M)\<close> and \<open>\<Omega> = 2 \<pi> / lod\<close>, for
  the outer radius \<open>a\<close>, the total mass \<open>M\<close> and the surface value of Radau's parameter.
\<close>

definition spec_surface_epsilon :: "real \<Rightarrow> real \<Rightarrow> real \<Rightarrow> real \<Rightarrow> real" where
  "spec_surface_epsilon a lod total_mass eta_surface =
     (let Omega = 2 * pi / lod;
          h_a = a ^ 3 * Omega ^ 2 / (G * total_mass)
      in 5 * h_a / (2 * eta_surface + 4))"

text \<open>
  A layered model with positive densities: a positive outer radius, at least one layer,
  and layers listed by increasing depth whose tops lie inside the planet.
\<close>

definition layered_planet :: "tau_model \<Rightarrow> bool" where
  "layered_planet model =
     (0 < radius_of_planet model \<and> layers model \<noteq> []
      \<and> (\<forall>l\<in>set (layers model).
             0 < top_density l \<and> 0 < bot_density l \<and> top_depth l < radius_of_planet model)
      \<and> sorted (map top_depth (layers model)))"
section \<open>Auxiliary facts\<close>

lemma bind_exn_Inl [simp]: "bind_exn (Inl e) f = Inl e"
  by (simp add: bind_exn_def)

lemma bind_exn_Inr [simp]: "bind_exn (Inr v) f = f v"
  by (simp add: bind_exn_def)

lemma upt_3: "[0..<3] = [0, 1, 2]"
  by (simp add: upt_rec)

lemma upt_2: "[0..<2] = [0, 1]"
  by (simp add: upt_rec)

lemma map_exn_Inr_iff:
  "(map_exn f xs = Inr ys) = (length ys = length xs \<and> (\<forall>i<length xs. f (xs ! i) = Inr (ys ! i)))"
proof (induction xs arbitrary: ys)
  case Nil
  then show ?case by auto
next
  case (Cons x xs)
  show ?case
  proof (cases "f x")
    case (Inl e)
    then show ?thesis by auto
  next
    case fx: (Inr y)
    show ?thesis
    proof (cases "map_exn f xs")
      case (Inl e)
      have "\<not> (length ys = length (x # xs) \<and> (\<forall>i<length (x # xs). f ((x # xs) ! i) = Inr (ys ! i)))"
      proof
        assume a: "length ys = length (x # xs) \<and> (\<forall>i<length (x # xs). f ((x # xs) ! i) = Inr (ys ! i))"
        then obtain z zs where ys: "ys = z # zs" by (cases ys) auto
        from a ys have "length zs = length xs \<and> (\<forall>i<length xs. f (xs ! i) = Inr (zs ! i))"
          by auto
        with Cons.IH [of zs] Inl show False by simp
      qed
      with fx Inl show ?thesis by simp
    next
      case (Inr zs)
      with Cons.IH [of zs] have zs: "length zs = length xs" "\<forall>i<length xs. f (xs ! i) = Inr (zs ! i)"
        by auto
      show ?thesis
      proof
        assume "map_exn f (x # xs) = Inr ys"
        with fx Inr have "ys = y # zs" by simp
        with zs fx show "length ys = length (x # xs) \<and> (\<forall>i<length (x # xs). f ((x # xs) ! i) = Inr (ys ! i))"
          by (auto simp: nth_Cons split: nat.splits)
      next
        assume a: "length ys = length (x # xs) \<and> (\<forall>i<length (x # xs). f ((x # xs) ! i) = Inr (ys ! i))"
        then obtain w ws where ys: "ys = w # ws" by (cases ys) auto
        from a ys have w: "f x = Inr w" by auto
        from a ys have "length ws = length xs \<and> (\<forall>i<length xs. f (xs ! i) = Inr (ws ! i))"
          by auto
        with Cons.IH [of ws] have "map_exn f xs = Inr ws" by simp
        with w ys show "map_exn f (x # xs) = Inr ys" by simp
      qed
    qed
  qed
qed

lemma map_exn_total:
  assumes "\<And>x. x \<in> set xs \<Longrightarrow> f x = Inr (g x)"
  shows "map_exn f xs = Inr (map g xs)"
  using assms by (simp add: map_exn_Inr_iff)

lemma column_sums:
  "map_exn (\<lambda>x. bind_exn (py_index sigmas x) (\<lambda>s. Inr (s ! m))) [0..<length sigmas]
     = Inr (map (\<lambda>s. s ! m) sigmas)"
  by (simp add: map_exn_Inr_iff py_index_def)

section \<open>Properties of the Legendre and the correction evaluator\<close>

lemma weighted_alp2_0: "weighted_alp2 0 theta = Inr (0.5 * (3 * (cos theta)\<^sup>2 - 1))"
  by (simp add: weighted_alp2_def py_factorial_def)

lemma weighted_alp2_1:
  "weighted_alp2 1 theta = Inr (sqrt (2 * fact 1 / fact 3) * 3 * cos theta * sin theta)"
  by (simp add: weighted_alp2_def py_factorial_def fact_numeral)

lemma weighted_alp2_2:
  "weighted_alp2 2 theta = Inr (sqrt (2 * fact 0 / fact 4) * 3 * (sin theta)\<^sup>2)"
  by (simp add: weighted_alp2_def py_factorial_def fact_numeral)

lemma weighted_alp2_invalid:
  assumes "m \<noteq> 0" "m \<noteq> 1" "m \<noteq> 2"
  shows "weighted_alp2 m theta = Inl ValueError"
proof (cases "py_factorial (2 - m)")
  case (Inl e)
  then have "e = ValueError" by (auto simp: py_factorial_def split: if_splits)
  with Inl show ?thesis by (simp add: weighted_alp2_def)
next
  case f1: (Inr a)
  show ?thesis
  proof (cases "py_factorial (2 + m)")
    case (Inl e)
    then have "e = ValueError" by (auto simp: py_factorial_def split: if_splits)
    with Inl f1 show ?thesis by (simp add: weighted_alp2_def)
  next
    case (Inr b)
    with f1 assms show ?thesis by (simp add: weighted_alp2_def)
  qed
qed

lemma weighted_alp2_value:
  assumes "m \<le> 2"
  shows "weighted_alp2 (int m) theta = Inr (alp2_value m theta)"
proof -
  from assms consider "m = 0" | "m = 1" | "m = 2" by linarith
  then show ?thesis
  proof cases
    case 1
    then show ?thesis by (simp add: weighted_alp2_0 alp2_value_def)
  next
    case 2
    then show ?thesis using weighted_alp2_1 [of theta] by (simp add: alp2_value_def)
  next
    case 3
    then show ?thesis using weighted_alp2_2 [of theta] by (simp add: alp2_value_def)
  qed
qed

text \<open>
  Claim C3, as stated: the evaluator agrees with the polynomial of the specification
  on the orders 0, 1, 2. It does not: the source normalises order 2 by
  \<open>sqrt (2 * (2 - 2)! / (2 + 2)!) = sqrt (2 * 0! / 4!)\<close>, the Schmidt semi-normalisation,
  and not by \<open>sqrt (2 * 2! / 4!)\<close>. At \<open>theta = pi / 2\<close> the two differ.
\<close>

theorem weighted_alp2_norm2_counterexample:
  "weighted_alp2 2 (pi / 2) \<noteq> Inr (spec_alp2 2 (pi / 2))"
proof -
  have "sqrt (2 * fact 0 / fact 4) < sqrt (2 * fact 2 / fact 4)"
    by (simp add: fact_numeral)
  then have "sqrt (2 * fact 0 / fact 4) * 3 \<noteq> sqrt (2 * fact 2 / fact 4) * 3"
    by simp
  then show ?thesis
    using weighted_alp2_2 [of "pi / 2"] by (simp add: spec_alp2_def)
qed

text \<open>
  Claim C3, amended. For every angle the evaluator returns
  \<open>1 * 0.5 * (3 cos\<^sup>2 - 1)\<close> for order 0, \<open>sqrt (2 * 1! / 3!) * 3 * cos * sin\<close> for order 1 and
  \<open>sqrt (2 * 0! / 4!) * 3 * sin\<^sup>2\<close> for order 2; at angle 0 the three values are 1, 0 and 0;
  and for every other integer order it fails with ValueError, the invalid-argument error.
\<close>

theorem weighted_alp2_contract:
  "weighted_alp2 0 theta = Inr (1 * 0.5 * (3 * (cos theta)\<^sup>2 - 1))
   \<and> weighted_alp2 1 theta = Inr (sqrt (2 * fact 1 / fact 3) * 3 * cos theta * sin theta)
   \<and> weighted_alp2 2 theta = Inr (sqrt (2 * fact 0 / fact 4) * 3 * (sin theta)\<^sup>2)
   \<and> weighted_alp2 0 0 = Inr 1 \<and> weighted_alp2 1 0 = Inr 0 \<and> weighted_alp2 2 0 = Inr 0
   \<and> (\<forall>m. m \<notin> {0, 1, 2} \<longrightarrow> weighted_alp2 m theta = Inl ValueError)"
proof -
  have a: "weighted_alp2 0 theta = Inr (1 * 0.5 * (3 * (cos theta)\<^sup>2 - 1))"
    by (simp add: weighted_alp2_0)
  have b: "weighted_alp2 0 0 = Inr 1"
    by (simp add: weighted_alp2_0)
  have c: "weighted_alp2 1 0 = Inr 0"
    by (simp add: weighted_alp2_1)
  have d: "weighted_alp2 2 0 = Inr 0"
    by (simp add: weighted_alp2_2)
  have e: "\<forall>m. m \<notin> {0, 1, 2} \<longrightarrow> weighted_alp2 m theta = Inl ValueError"
    by (simp add: weighted_alp2_invalid)
  from a b c d e weighted_alp2_1 [of theta] weighted_alp2_2 [of theta]
  show ?thesis by blast
qed

theorem weighted_alp2_contract_witness:
  "(3::int) \<notin> {0, 1, 2} \<and> weighted_alp2 3 0 = Inl ValueError \<and> weighted_alp2 0 0 = Inr 1"
  using weighted_alp2_contract [of 0] by simp

text \<open>
  Claim C2. For a coefficient triple, an azimuth and a source latitude in degrees, the
  correction is the sum over the orders 0, 1, 2 of the coefficient times the weighted
  Legendre polynomial at the colatitude times the cosine of the order times the azimuth
  in radians, where the colatitude is \<open>pi / 2\<close> minus the latitude in radians.
\<close>

theorem correction_from_coefficients_sum:
  "correction_from_coefficients [c0, c1, c2] azimuth source_latitude =
     Inr (\<Sum>m\<leftarrow>[0, 1, 2].
            [c0, c1, c2] ! m
            * alp2_value m (pi / 2 - radians source_latitude)
            * cos (real m * radians azimuth))
   \<and> (\<forall>m\<in>{0, 1, 2}.
        weighted_alp2 (int m) (pi / 2 - radians source_latitude)
          = Inr (alp2_value m (pi / 2 - radians source_latitude)))"
proof -
  have colat: "radians (90 - source_latitude) = pi / 2 - radians source_latitude"
    by (simp add: radians_def field_simps)
  have w0: "weighted_alp2 0 (pi / 2 - radians source_latitude)
              = Inr (alp2_value 0 (pi / 2 - radians source_latitude))"
    using weighted_alp2_value [of 0] by simp
  have w1: "weighted_alp2 1 (pi / 2 - radians source_latitude)
              = Inr (alp2_value 1 (pi / 2 - radians source_latitude))"
    using weighted_alp2_value [of 1] by simp
  have w2: "weighted_alp2 2 (pi / 2 - radians source_latitude)
              = Inr (alp2_value 2 (pi / 2 - radians source_latitude))"
    using weighted_alp2_value [of 2] by simp
  have "correction_from_coefficients [c0, c1, c2] azimuth source_latitude =
     Inr (\<Sum>m\<leftarrow>[0, 1, 2].
            [c0, c1, c2] ! m
            * alp2_value m (pi / 2 - radians source_latitude)
            * cos (real m * radians azimuth))"
    by (simp add: correction_from_coefficients_def correction_term_def py_index_def
        Let_def colat w0 w1 w2)
  moreover have "\<forall>m\<in>{0, 1, 2}.
        weighted_alp2 (int m) (pi / 2 - radians source_latitude)
          = Inr (alp2_value m (pi / 2 - radians source_latitude))"
    using w0 w1 w2 by simp
  ultimately show ?thesis by blast
qed

theorem correction_from_coefficients_sum_witness:
  "correction_from_coefficients [1, 0, 0] 0 90 = Inr 1"
  using correction_from_coefficients_sum [of 1 0 0 0 90]
  by (simp add: alp2_value_def radians_def)

section \<open>Evaluation of the older variant on the concrete planet\<close>

lemma py_lower_P: "py_lower ''P'' = ''p''"
  by code_simp

lemma py_lower_p: "py_lower ''p'' = ''p''"
  by code_simp

lemma lamda_m_value: "m \<le> 2 \<Longrightarrow> lamda_m m d = Inr (- (2 / 3) * alp2_value m d)"
  by (simp add: lamda_m_def weighted_alp2_value)

lemma rint_of_int: "rint (of_int n) = n"
  by (simp add: rint_def)

lemma py_round_0: "py_round 0 5 = 0"
  by (simp add: py_round_def rint_def)

lemma py_round_5: "py_round 5 5 = 5"
  using rint_of_int [of 500000] by (simp add: py_round_def)

lemma demo_model_old_fields [simp]:
  "radius_of_planet demo_model_old = 10" "cmb_depth demo_model_old = 5"
  "iocb_depth demo_model_old = 8" "get_discontinuity_depths demo_model_old = [0, 5, 10]"
  "evaluate_above demo_model_old = demo_velocity_above"
  "evaluate_below demo_model_old = demo_velocity_below"
  "layers demo_model_old = demo_layers"
  "epsilon_profile demo_model_old = Some ([0, 10000], [1, 1])"
  "layer_number_above demo_model_old = (\<lambda>d. if d \<le> 5 then 0 else 1)"
  "layer_number_below demo_model_old = (\<lambda>d. if d < 5 then 0 else 1)"
  "model_name demo_model_old = ''demo''"
  "get_ray_paths demo_model_old = (\<lambda>source_depth distance phase. [])"
  by (simp_all add: demo_model_old_def demo_model_def)

lemma graze_fields [simp]:
  "pt_depth graze_src = 0" "pt_depth graze_cmb = 5" "pt_depth graze_rcv = 0"
  "pt_dist graze_src = 0" "pt_dist graze_cmb = 1 / 2" "pt_dist graze_rcv = 1"
  "pt_p graze_src = 3" "pt_p graze_cmb = 3" "pt_p graze_rcv = 3"
  by (simp_all add: graze_src_def graze_cmb_def graze_rcv_def)

lemma grazing_arrival_fields [simp]:
  "arr_name grazing_arrival = ''PcP''" "arr_path grazing_arrival = Some grazing_path"
  "arr_source_depth grazing_arrival = 0" "arr_ray_param grazing_arrival = 3"
  "arr_distance grazing_arrival = 57"
  by (simp_all add: grazing_arrival_def)

lemma phase_segments_PcP: "phase_segments ''PcP'' = ''PP''"
  by (simp add: phase_segments_def replace_char_def remove_char_def)

lemma grazing_ray_path:
  "ray_path grazing_arrival demo_model_old =
     Inr ([[graze_src, graze_cmb], [graze_cmb, graze_rcv]], [[''p'', ''p''], [''p'', ''p'']])"
  by (simp add: ray_path_def grazing_path_def py_max_def phase_segments_PcP upt_3
      py_index_def py_lower_P append_to_last_def Let_def)

lemma demo_epsilon_old:
  "get_epsilon_old demo_model_old 10000 = Inr 1" "get_epsilon_old demo_model_old 5000 = Inr 1"
  by (simp_all add: get_epsilon_old_def searchsorted_left_def py_index_def)

lemma grazing_idiscs:
  "make_idiscs grazing_arrival demo_model_old grazing_path
     = Inr [graze_id0, graze_id1, graze_id2]"
  by (simp add: make_idiscs_def grazing_path_def py_max_def upt_3 py_index_def Let_def
      graze_id0_def graze_id1_def graze_id2_def)

lemma grazing_yn:
  "disc_yn grazing_arrival demo_model_old 0 graze_id0"
  "disc_yn grazing_arrival demo_model_old (Suc 0) graze_id1"
  "disc_yn grazing_arrival demo_model_old (Suc (Suc 0)) graze_id2"
  by (simp_all add: disc_yn_def graze_id0_def graze_id1_def graze_id2_def py_round_0 py_round_5)

lemma sqrt_eta_p_grazing: "sqrt_eta_p (5 / 2) 3 = NaN"
  by (simp add: sqrt_eta_p_def np_sqrt_def power2_eq_square)

lemma sqrt_eta_p_5_3: "sqrt_eta_p 5 3 = Num 4"
  by (simp add: sqrt_eta_p_def np_sqrt_def power2_eq_square real_sqrt_unique)

lemma grazing_step0:
  "disc_step grazing_arrival demo_model_old grazing_path [[''p'', ''p''], [''p'', ''p'']]
     0 graze_id0 None
   = Inr ([Num (- (8 / 3) * alp2_value 0 0), Num (- (8 / 3) * alp2_value 1 0),
           Num (- (8 / 3) * alp2_value 2 0)], Some (Num 4))"
  by (simp add: disc_step_def graze_id0_def demo_epsilon_old lamda_m_value endpoint_eva_def
      py_index_def demo_velocity_below_def sqrt_eta_p_5_3 np_mul_def np_sub_def)

lemma grazing_step1:
  "disc_step grazing_arrival demo_model_old grazing_path [[''p'', ''p''], [''p'', ''p'']]
     (Suc 0) graze_id1 (Some (Num 4))
   = Inr ([NaN, NaN, NaN], Some NaN)"
  by (simp add: disc_step_def graze_id1_def demo_epsilon_old lamda_m_value interior_eva_def
      py_index_def py_index_int_def py_last_def grazing_path_def direction_of_def Let_def
      demo_velocity_above_def sqrt_eta_p_grazing np_mul_def np_add_def)

lemma grazing_step2:
  "disc_step grazing_arrival demo_model_old grazing_path [[''p'', ''p''], [''p'', ''p'']]
     (Suc (Suc 0)) graze_id2 (Some NaN)
   = Inr ([Num (- (8 / 3) * alp2_value 0 1), Num (- (8 / 3) * alp2_value 1 1),
           Num (- (8 / 3) * alp2_value 2 1)], Some (Num 4))"
  by (simp add: disc_step_def graze_id2_def demo_epsilon_old lamda_m_value endpoint_eva_def
      py_index_def py_last_def grazing_path_def demo_velocity_below_def sqrt_eta_p_5_3
      np_mul_def np_sub_def)

lemma grazing_discontinuity:
  "discontinuity_coefficients_old grazing_arrival demo_model_old
     [[graze_src, graze_cmb], [graze_cmb, graze_rcv]] [[''p'', ''p''], [''p'', ''p'']]
   = Inr [NaN, NaN, NaN]"
  by (simp add: discontinuity_coefficients_old_def grazing_idiscs grazing_yn
      grazing_step0 grazing_step1 grazing_step2 summed_sigmas_def np_sum_def np_add_def)

lemma demo_dvdr:
  "get_dvdr_below demo_model_old 10000 ''p'' = Inr 0"
  "get_dvdr_above demo_model_old 5000 ''p'' = Inr 0"
  "get_dvdr_below demo_model_old 5000 ''p'' = Inr 0"
  by (simp_all add: get_dvdr_below_def get_dvdr_above_def evaluate_derivative_below_def
      evaluate_derivative_above_def evaluate_derivative_at_def py_index_def demo_layers_def
      py_lower_p Let_def)

lemma grazing_segment_down:
  "segment_integral_old grazing_arrival demo_model_old [graze_src, graze_cmb] [''p'', ''p'']
     = Inr [0, 0, 0]"
  by (simp add: segment_integral_old_def Let_def py_max_def upt_2 py_index_def demo_dvdr
      demo_epsilon_old lamda_m_value trapz_def diff_list_def)

lemma grazing_segment_up:
  "segment_integral_old grazing_arrival demo_model_old [graze_cmb, graze_rcv] [''p'', ''p'']
     = Inr [0, 0, 0]"
  by (simp add: segment_integral_old_def Let_def py_max_def upt_2 py_index_def demo_dvdr
      demo_epsilon_old lamda_m_value trapz_def diff_list_def)

lemma grazing_integral:
  "integral_coefficients_old grazing_arrival demo_model_old
     [[graze_src, graze_cmb], [graze_cmb, graze_rcv]] [[''p'', ''p''], [''p'', ''p'']]
   = Inr [0, 0, 0]"
  by (simp add: integral_coefficients_old_def grazing_segment_down grazing_segment_up upt_2
      py_index_def)

lemma demo_model_traced_fields [simp]:
  "radius_of_planet demo_model_traced = 10" "cmb_depth demo_model_traced = 5"
  "iocb_depth demo_model_traced = 8" "get_discontinuity_depths demo_model_traced = [0, 5, 10]"
  "evaluate_above demo_model_traced = demo_velocity_above"
  "evaluate_below demo_model_traced = demo_velocity_below"
  "layers demo_model_traced = demo_layers"
  "epsilon_profile demo_model_traced = Some ([0, 10000], [1, 1])"
  "layer_number_above demo_model_traced = (\<lambda>d. if d \<le> 5 then 0 else 1)"
  "layer_number_below demo_model_traced = (\<lambda>d. if d < 5 then 0 else 1)"
  "model_name demo_model_traced = ''demo''"
  "get_ray_paths demo_model_traced = demo_tracer"
  by (simp_all add: demo_model_traced_def)

lemma phase_segments_P: "phase_segments ''P'' = ''P''"
  by (simp add: phase_segments_def replace_char_def remove_char_def)

lemma alp2_value_at_0: "alp2_value 0 0 = 1" "alp2_value (Suc 0) 0 = 0" "alp2_value 2 0 = 0"
  by (simp_all add: alp2_value_def)

lemma alp2_value_at_pi: "alp2_value 0 pi = 1" "alp2_value (Suc 0) pi = 0" "alp2_value 2 pi = 0"
  by (simp_all add: alp2_value_def)

lemma traced_epsilon:
  "get_epsilon_old demo_model_traced 10000 = Inr 1"
  "get_epsilon_old demo_model_traced 6000 = Inr 1"
  "get_epsilon_old demo_model_traced 8000 = Inr 1"
  by (simp_all add: get_epsilon_old_def searchsorted_left_def py_index_def)

lemma traced_dvdr:
  "get_dvdr_below demo_model_traced 10000 ''p'' = Inr 0"
  "get_dvdr_above demo_model_traced 6000 ''p'' = Inr 0"
  "get_dvdr_below demo_model_traced 6000 ''p'' = Inr 0"
  "get_dvdr_above demo_model_traced 8000 ''p'' = Inr 0"
  "get_dvdr_below demo_model_traced 8000 ''p'' = Inr 0"
  by (simp_all add: get_dvdr_below_def get_dvdr_above_def evaluate_derivative_below_def
      evaluate_derivative_above_def evaluate_derivative_at_def py_index_def demo_layers_def
      py_lower_p Let_def)

lemma sqrt_eta_p_5_4: "sqrt_eta_p 5 4 = Num 3"
  by (simp add: sqrt_eta_p_def np_sqrt_def power2_eq_square real_sqrt_unique)

lemma py_round_4: "py_round 4 5 = 4"
  using rint_of_int [of 400000] by (simp add: py_round_def)

lemma py_round_2: "py_round 2 5 = 2"
  using rint_of_int [of 200000] by (simp add: py_round_def)

lemma chord_fields [simp]:
  "pt_depth chord_a_src = 0" "pt_depth chord_a_turn = 4" "pt_depth chord_a_rcv = 0"
  "pt_dist chord_a_src = 0" "pt_dist chord_a_turn = pi / 2" "pt_dist chord_a_rcv = pi"
  "pt_p chord_a_src = 3" "pt_p chord_a_turn = 3" "pt_p chord_a_rcv = 3"
  "pt_depth chord_b_src = 0" "pt_depth chord_b_turn = 2" "pt_depth chord_b_rcv = 0"
  "pt_dist chord_b_src = 0" "pt_dist chord_b_turn = pi / 2" "pt_dist chord_b_rcv = pi"
  "pt_p chord_b_src = 4" "pt_p chord_b_turn = 4" "pt_p chord_b_rcv = 4"
  by (simp_all add: chord_a_src_def chord_a_turn_def chord_a_rcv_def
      chord_b_src_def chord_b_turn_def chord_b_rcv_def)

lemma chord_arrival_fields [simp]:
  "arr_name chord_a = ''P''" "arr_path chord_a = Some chord_a_path"
  "arr_source_depth chord_a = 0" "arr_ray_param chord_a = 3" "arr_distance chord_a = 179.95"
  "arr_name chord_b = ''P''" "arr_path chord_b = Some chord_b_path"
  "arr_source_depth chord_b = 0" "arr_ray_param chord_b = 4" "arr_distance chord_b = 179.90"
  by (simp_all add: chord_a_def chord_b_def)

lemma chord_a_ray_path:
  "ray_path chord_a demo_model_traced =
     Inr ([[chord_a_src, chord_a_turn], [chord_a_turn, chord_a_rcv]],
          [[''p'', ''p''], [''p'', ''p'']])"
  by (simp add: ray_path_def chord_a_path_def py_max_def phase_segments_P upt_3
      py_index_def py_lower_P append_to_last_def Let_def)

lemma chord_b_ray_path:
  "ray_path chord_b demo_model_traced =
     Inr ([[chord_b_src, chord_b_turn], [chord_b_turn, chord_b_rcv]],
          [[''p'', ''p''], [''p'', ''p'']])"
  by (simp add: ray_path_def chord_b_path_def py_max_def phase_segments_P upt_3
      py_index_def py_lower_P append_to_last_def Let_def)

lemma chord_a_segment_integrals:
  "map_exn (\<lambda>(path, wave_path). segment_integral_old chord_a demo_model_traced path wave_path)
     (zip [[chord_a_src, chord_a_turn], [chord_a_turn, chord_a_rcv]]
          [[''p'', ''p''], [''p'', ''p'']])
   = Inr [[0, 0, 0], [0, 0, 0]]"
  by (simp add: segment_integral_old_def Let_def py_max_def upt_2 py_index_def traced_dvdr
      traced_epsilon lamda_m_value trapz_def diff_list_def)

lemma chord_b_segment_integrals:
  "map_exn (\<lambda>(path, wave_path). segment_integral_old chord_b demo_model_traced path wave_path)
     (zip [[chord_b_src, chord_b_turn], [chord_b_turn, chord_b_rcv]]
          [[''p'', ''p''], [''p'', ''p'']])
   = Inr [[0, 0, 0], [0, 0, 0]]"
  by (simp add: segment_integral_old_def Let_def py_max_def upt_2 py_index_def traced_dvdr
      traced_epsilon lamda_m_value trapz_def diff_list_def)

lemma chord_a_idiscs: "make_idiscs chord_a demo_model_traced chord_a_path = Inr chord_a_ids"
  by (simp add: make_idiscs_def chord_a_path_def py_max_def upt_3 py_index_def Let_def
      chord_a_ids_def)

lemma chord_b_idiscs: "make_idiscs chord_b demo_model_traced chord_b_path = Inr chord_b_ids"
  by (simp add: make_idiscs_def chord_b_path_def py_max_def upt_3 py_index_def Let_def
      chord_b_ids_def)

lemma chord_a_loop:
  "disc_loop chord_a demo_model_traced chord_a_path [[''p'', ''p''], [''p'', ''p'']]
     (zip [0..<length chord_a_ids] chord_a_ids) None
   = Inr [(True, Some [Num (- (8 / 3)), Num 0, Num 0]), (False, None),
          (True, Some [Num (- (8 / 3)), Num 0, Num 0])]"
  apply (simp add: chord_a_ids_def upt_3)
  apply (simp add: disc_yn_def py_round_0 py_round_4)
  apply (simp add: disc_step_def traced_epsilon lamda_m_value endpoint_eva_def py_index_def
      py_last_def chord_a_path_def demo_velocity_below_def sqrt_eta_p_5_3 np_mul_def np_sub_def
      alp2_value_at_0 alp2_value_at_pi)
  done

lemma chord_b_loop:
  "disc_loop chord_b demo_model_traced chord_b_path [[''p'', ''p''], [''p'', ''p'']]
     (zip [0..<length chord_b_ids] chord_b_ids) None
   = Inr [(True, Some [Num (- 2), Num 0, Num 0]), (False, None),
          (True, Some [Num (- 2), Num 0, Num 0])]"
  apply (simp add: chord_b_ids_def upt_3)
  apply (simp add: disc_yn_def py_round_0 py_round_2)
  apply (simp add: disc_step_def traced_epsilon lamda_m_value endpoint_eva_def py_index_def
      py_last_def chord_b_path_def demo_velocity_below_def sqrt_eta_p_5_4 np_mul_def np_sub_def
      alp2_value_at_0 alp2_value_at_pi)
  done

section \<open>Evaluation of the newer variant on the concrete planet\<close>

lemma demo_model_fields [simp]:
  "radius_of_planet demo_model = 10" "cmb_depth demo_model = 5"
  "iocb_depth demo_model = 8" "get_discontinuity_depths demo_model = [0, 5, 10]"
  "evaluate_above demo_model = demo_velocity_above"
  "evaluate_below demo_model = demo_velocity_below"
  "layers demo_model = demo_layers"
  "top_bot_epsilon demo_model = Some ([4, 3], [3, 2])"
  "layer_number_above demo_model = (\<lambda>d. if d \<le> 5 then 0 else 1)"
  "layer_number_below demo_model = (\<lambda>d. if d < 5 then 0 else 1)"
  by (simp_all add: demo_model_def)

lemma demo_point_fields [simp]:
  "pt_depth demo_down = 0" "pt_depth demo_turn = 5" "pt_depth demo_up = 0"
  "pt_dist demo_down = 0" "pt_dist demo_turn = 0" "pt_dist demo_up = 0"
  "pt_p demo_down = 0" "pt_p demo_turn = 0" "pt_p demo_up = 0"
  by (simp_all add: demo_down_def demo_turn_def demo_up_def)

lemma demo_epsilon: "get_epsilon demo_model 0 = Inr 4" "get_epsilon demo_model 5 = Inr 3"
  by (simp_all add: get_epsilon_def demo_layers_def py_index_def Let_def)

lemma lambda_m_value: "m \<le> 2 \<Longrightarrow> lambda_m m d = Inr (- (2 / 3) * alp2_value m d)"
  by (simp add: lambda_m_def weighted_alp2_value)

lemma demo_derivatives:
  "evaluate_derivative_below demo_model 0 ''p'' = Inr 0"
  "evaluate_derivative_above demo_model 5 ''p'' = Inr 0"
  by (simp_all add: evaluate_derivative_below_def evaluate_derivative_above_def
      evaluate_derivative_at_def py_index_def demo_layers_def py_lower_p Let_def)

lemma demo_segment_integrals:
  "map_exn (\<lambda>(path, wave). segment_integral demo_arrival demo_model path wave)
     [([demo_down, demo_turn], ''p''), ([demo_turn, demo_up], ''p'')]
   = Inr [[0, 0, 0], [0, 0, 0]]"
  by (simp add: segment_integral_def Let_def py_max_def demo_derivatives demo_epsilon
      lambda_m_value trapezoid_abs_def diff_list_def)

lemma vs0: "vertical_slowness_val x 0 = \<bar>x\<bar>"
  by (simp add: vertical_slowness_val_def Let_def)

lemma demo_segment_boundaries:
  "map_exn (\<lambda>(path, wave). segment_boundaries demo_model path wave)
     [([demo_down, demo_turn], ''p''), ([demo_turn, demo_up], ''p'')]
   = Inr [[- (25 / 3), 0, 0], [- (25 / 3), 0, 0]]"
  apply (simp add: segment_boundaries_def discontinuity_contribution_def Let_def demo_epsilon
      lambda_m_value alp2_value_at_0 demo_velocity_below_def demo_velocity_above_def vs0)
  done

lemmas demo_defs = demo_model_def demo_arrival_def demo_down_def demo_turn_def demo_up_def
  demo_layers_def demo_velocity_above_def demo_velocity_below_def

lemma demo_split_dpaths:
  "split_dpaths demo_arrival demo_model = Inr [[demo_down, demo_turn], [demo_turn, demo_up]]"
  by (simp add: split_dpaths_def demo_model_def demo_arrival_def demo_down_def demo_turn_def
      demo_up_def np_split_def upt_3)

lemma demo_classify_down: "classify_path [demo_down, demo_turn] demo_model = Inr ''p''"
  by (simp add: classify_path_def expected_delay_time_def demo_defs Let_def)

lemma demo_classify_up: "classify_path [demo_turn, demo_up] demo_model = Inr ''p''"
  by (simp add: classify_path_def expected_delay_time_def demo_defs Let_def)

section \<open>The kinematic classifier\<close>



lemma classify_path_wave:
  assumes "2 \<le> length path"
    and "pt_depth (fst (compared_points path)) \<noteq> pt_depth (snd (compared_points path))"
  shows "classify_path path model =
           Inr (if \<bar>expected_delay_time (pt_p (fst (compared_points path)))
                      (pt_depth (fst (compared_points path)))
                      (pt_depth (snd (compared_points path))) ''p'' model
                    / observed_delay (fst (compared_points path)) (snd (compared_points path)) - 1\<bar>
                   < \<bar>expected_delay_time (pt_p (fst (compared_points path)))
                      (pt_depth (fst (compared_points path)))
                      (pt_depth (snd (compared_points path))) ''s'' model
                    / observed_delay (fst (compared_points path)) (snd (compared_points path)) - 1\<bar>
                then ''p'' else ''s'')"
proof (cases "pt_depth (path ! 0) < pt_depth (path ! (length path - 1))")
  case True
  then have cp: "compared_points path = (path ! 0, path ! 1)"
    by (simp add: compared_points_def)
  from assms True show ?thesis
    unfolding cp by (simp add: classify_path_def observed_delay_def Let_def)
next
  case False
  then have cp: "compared_points path = (path ! (length path - 2), path ! (length path - 1))"
    by (simp add: compared_points_def)
  from assms False show ?thesis
    unfolding cp by (simp add: classify_path_def observed_delay_def Let_def)
qed





section \<open>Vertical slowness\<close>

lemma vertical_slowness_never_nan:
  "vertical_slowness eta p = Num (sqrt (max 0 (eta\<^sup>2 - p\<^sup>2)))"
  by (simp add: vertical_slowness_def np_sqrt_def Let_def max_def)

text \<open>
  Claim C5 says that every evaluation of the vertical slowness clamps a negative
  argument of the square root to zero and never yields NaN. The newer variant does so
  in its three places: \<open>np.sqrt(y * (y > 0))\<close> is \<open>sqrt (max 0 y)\<close>. The older variant
  takes \<open>np.sqrt(eta ** 2 - p ** 2)\<close> unclamped at every boundary interaction: for the ray
  that is reflected at the core-mantle boundary with ray parameter 3 above
  \<open>r / v = 2.5\<close> the square root is NaN, and so are all three coefficients.
\<close>

theorem unclamped_slowness_is_nan:
  "vertical_slowness (5000 / 2000) 3 = Num 0
   \<and> Num (vertical_slowness_val (5000 / 2000) 3) = vertical_slowness (5000 / 2000) 3
   \<and> sqrt_eta_p (5000 / 2000) 3 = NaN
   \<and> ellipticity_coefficients_old (Suc limit) (ArrivalObject grazing_arrival)
        demo_model_old lod = Inr [NaN, NaN, NaN]"
proof -
  have a: "vertical_slowness (5000 / 2000) 3 = Num 0"
    by (simp add: vertical_slowness_never_nan power2_eq_square)
  have b: "Num (vertical_slowness_val (5000 / 2000) 3) = vertical_slowness (5000 / 2000) 3"
    by (simp add: vertical_slowness_def vertical_slowness_val_def np_sqrt_def Let_def)
  have c: "sqrt_eta_p (5000 / 2000) 3 = NaN"
    using sqrt_eta_p_grazing by simp
  have d: "ellipticity_coefficients_old (Suc limit) (ArrivalObject grazing_arrival)
        demo_model_old lod = Inr [NaN, NaN, NaN]"
    by (simp add: grazing_ray_path grazing_integral grazing_discontinuity py_max_def
        grazing_path_def np_add_def)
  from a b c d show ?thesis by blast
qed

section \<open>No arrival\<close>

lemma model_epsilon_old_keeps:
  assumes "model_epsilon_old model lod taper dr = Inr model'"
  shows "get_ray_paths model' = get_ray_paths model \<and> model_name model' = model_name model
         \<and> radius_of_planet model' = radius_of_planet model"
  using assms
  by (auto simp: model_epsilon_old_def Let_def bind_exn_def split: if_splits sum.splits)

lemma get_taup_arrival_none:
  assumes "filter (\<lambda>x. \<bar>arr_purist_distance x - distance\<bar> < 0.0001)
             (get_ray_paths model source_depth distance phase) = []"
  shows "get_taup_arrival phase distance source_depth index model =
           Inl (PhaseError phase
                  (if CHR 0x27 \<in> set (model_name model) then quoted_part (model_name model)
                   else model_name model))"
  using assms by (simp add: get_taup_arrival_def Let_def)

lemma no_arrival_old:
  assumes "filter (\<lambda>x. \<bar>arr_purist_distance x - distance\<bar> < 0.0001)
             (get_ray_paths model source_depth distance phase) = []"
  shows "ellipticity_coefficients_old limit (ArrivalList phase distance source_depth index)
           model lod \<noteq> Inr r"
proof (cases limit)
  case 0
  then show ?thesis by simp
next
  case (Suc n)
  show ?thesis
  proof (cases "epsilon_profile model = None")
    case True
    show ?thesis
    proof (cases "model_epsilon_old model lod True 100")
      case (Inl e)
      with True Suc show ?thesis by simp
    next
      case (Inr m')
      with model_epsilon_old_keeps [OF Inr] assms
      have "get_taup_arrival phase distance source_depth index m' =
           Inl (PhaseError phase
                  (if CHR 0x27 \<in> set (model_name m') then quoted_part (model_name m')
                   else model_name m'))"
        by (intro get_taup_arrival_none) simp
      with True Suc Inr show ?thesis by simp
    qed
  next
    case False
    then obtain pr where "epsilon_profile model = Some pr" by auto
    with Suc get_taup_arrival_none [OF assms] show ?thesis by simp
  qed
qed

lemma no_arrival_phase_error:
  assumes "filter (\<lambda>x. \<bar>arr_purist_distance x - distance\<bar> < 0.0001)
             (get_ray_paths model source_depth distance phase) = []"
    and "(if epsilon_profile model = None then model_epsilon_old model lod True 100
          else Inr model) = Inr model'"
  shows "ellipticity_coefficients_old (Suc limit)
           (ArrivalList phase distance source_depth index) model lod
         = Inl (PhaseError phase
                  (if CHR 0x27 \<in> set (model_name model) then quoted_part (model_name model)
                   else model_name model))"
proof -
  have keep: "get_ray_paths model' = get_ray_paths model \<and> model_name model' = model_name model"
    using assms(2) model_epsilon_old_keeps [of model lod True 100 model']
    by (auto split: if_splits)
  with assms(1) have "get_taup_arrival phase distance source_depth index model' =
           Inl (PhaseError phase
                  (if CHR 0x27 \<in> set (model_name model') then quoted_part (model_name model')
                   else model_name model'))"
    by (intro get_taup_arrival_none) simp
  with assms(2) keep show ?thesis by simp
qed

text \<open>
  Claim C10. When the ray tracer returns no arrival within \<open>0.0001\<close> degrees of the
  requested distance for the requested phase and source depth, \<open>get_taup_arrival\<close> raises
  PhaseError, the coefficients computation called with that request never returns
  coefficients, and it raises that PhaseError whenever the profile exists or can be
  built.
\<close>

theorem no_arrival_raises_phase_error:
  "filter (\<lambda>x. \<bar>arr_purist_distance x - distance\<bar> < 0.0001)
     (get_ray_paths model source_depth distance phase) = []
   \<longrightarrow>
     get_taup_arrival phase distance source_depth index model =
       Inl (PhaseError phase
              (if CHR 0x27 \<in> set (model_name model) then quoted_part (model_name model)
               else model_name model))
     \<and> (\<forall>r. ellipticity_coefficients_old limit
                (ArrivalList phase distance source_depth index) model lod \<noteq> Inr r)
     \<and> ((if epsilon_profile model = None then model_epsilon_old model lod True 100
          else Inr model) = Inr model'
         \<longrightarrow> ellipticity_coefficients_old (Suc limit)
               (ArrivalList phase distance source_depth index) model lod
             = Inl (PhaseError phase
                      (if CHR 0x27 \<in> set (model_name model)
                       then quoted_part (model_name model) else model_name model)))"
  using get_taup_arrival_none [of distance model source_depth phase index]
    no_arrival_old [of distance model source_depth phase limit index lod]
    no_arrival_phase_error [of distance model source_depth phase lod model' limit index]
  by blast

theorem no_arrival_raises_phase_error_witness:
  "filter (\<lambda>x. \<bar>arr_purist_distance x - 1\<bar> < 0.0001)
     (get_ray_paths demo_model_traced 0 1 ''PKIKP'') = []
   \<and> get_taup_arrival ''PKIKP'' 1 0 0 demo_model_traced = Inl (PhaseError ''PKIKP'' ''demo'')
   \<and> ellipticity_coefficients_old (Suc 0) (ArrivalList ''PKIKP'' 1 0 0) demo_model_traced
         EARTH_LOD = Inl (PhaseError ''PKIKP'' ''demo'')"
proof -
  have none: "filter (\<lambda>x. \<bar>arr_purist_distance x - 1\<bar> < 0.0001)
     (get_ray_paths demo_model_traced 0 1 ''PKIKP'') = []"
    by (simp add: demo_tracer_def)
  have cached: "(if epsilon_profile demo_model_traced = None
                 then model_epsilon_old demo_model_traced EARTH_LOD True 100
                 else Inr demo_model_traced) = Inr demo_model_traced"
    by simp
  from no_arrival_raises_phase_error [of 1 demo_model_traced 0 "''PKIKP''" 0 0 EARTH_LOD
      demo_model_traced] none cached
  show ?thesis by simp
qed

section \<open>The segmenters\<close>

lemma slices_Cons2:
  "slices path (a # b # bs) = map (\<lambda>k. path ! k) [a..<Suc b] # slices path (b # bs)"
proof -
  have "[0..<length (a # b # bs) - 1] = 0 # map Suc [0..<length (b # bs) - 1]"
    by (simp add: upt_conv_Cons map_Suc_upt del: upt_Suc)
  then show ?thesis
    by (simp add: slices_def comp_def del: upt_Suc)
qed

lemma slices_single: "slices path [a] = []"
  by (simp add: slices_def)

lemma py_max_bottoming:
  assumes "path \<noteq> []"
  shows "py_max (map pt_depth path) = Inr (bottoming_depth path)"
proof -
  from assms obtain x xs where p: "path = x # xs" by (cases path) auto
  have "foldl max a ys = fold max ys a" for a :: real and ys
    by (induction ys arbitrary: a) (simp_all add: max.commute)
  then have "foldl max (pt_depth x) (map pt_depth xs) = Max (set (pt_depth x # map pt_depth xs))"
    unfolding Max.set_eq_fold by simp
  with p show ?thesis by (simp add: py_max_def bottoming_depth_def del: set_simps)
qed

text \<open>The loop of the older segmenter, started inside a segment.\<close>

lemma split_loop_slices:
  assumes "k < length path" and "a < k"
    and "cur = map (\<lambda>j. path ! j) [a..<k]"
  shows "\<exists>w. split_loop discs bd path waves [k..<length path] (done @ [cur], wave)
           = Inr (done @ slices path
                    (a # filter (\<lambda>i. i = length path - 1 \<or> pt_depth (path ! i) = bd
                                      \<or> pt_depth (path ! i) \<in> set discs)
                           [k..<length path]), w)"
  using assms
proof (induction "length path - k" arbitrary: k a cur "done" wave)
  case 0
  then show ?case by simp
next
  case (Suc m)
  let ?n = "length path"
  let ?B = "\<lambda>i. i = ?n - 1 \<or> pt_depth (path ! i) = bd \<or> pt_depth (path ! i) \<in> set discs"
  have upt: "[k..<?n] = k # [Suc k..<?n]"
    using Suc.prems(1) by (simp add: upt_conv_Cons)
  have cur': "cur @ [path ! k] = map (\<lambda>j. path ! j) [a..<Suc k]"
    using Suc.prems(2,3) by simp
  show ?case
  proof (cases "Suc k = ?n")
    case True
    then have last: "k = ?n - 1" by simp
    have "[Suc k..<?n] = []" using True by simp
    with upt have u: "[k..<?n] = [k]" by simp
    have f: "filter ?B [k..<?n] = [k]"
      unfolding u using last by simp
    have "split_loop discs bd path waves [k] (done @ [cur], wave)
            = Inr (done @ [cur @ [path ! k]], append_to_last wave (waves ! k))"
      using last Suc.prems(1) by (simp add: Let_def append_to_last_def)
    then show ?thesis
      unfolding u [symmetric] f [unfolded u [symmetric]]
      by (simp add: u f slices_Cons2 slices_single cur' [symmetric] del: upt_Suc)
  next
    case False
    with Suc.prems(1) have lt: "Suc k < ?n" by simp
    have ne: "k \<noteq> ?n - 1" using lt by simp
    have k0: "k \<noteq> 0" using Suc.prems(2) by simp
    have m: "m = ?n - Suc k" using Suc.hyps(2) by simp
    show ?thesis
    proof (cases "pt_depth (path ! k) \<in> set discs \<or> pt_depth (path ! k) = bd")
      case True
      then have Bk: "?B k" by auto
      have step: "split_loop discs bd path waves [k..<?n] (done @ [cur], wave)
            = split_loop discs bd path waves [Suc k..<?n]
                ((done @ [cur @ [path ! k]]) @ [[path ! k]],
                 append_to_last ((if wave \<noteq> [] then append_to_last wave (waves ! (k - 1))
                                  else wave) @ [[]]) (waves ! k))"
        unfolding upt using True ne k0 by (auto simp: Let_def append_to_last_def butlast_append)
      have one: "[path ! k] = map (\<lambda>j. path ! j) [k..<Suc k]" by simp
      from Suc.hyps(1) [OF m lt _ one, of "done @ [cur @ [path ! k]]"]
      obtain w where "split_loop discs bd path waves [Suc k..<?n]
                ((done @ [cur @ [path ! k]]) @ [[path ! k]],
                 append_to_last ((if wave \<noteq> [] then append_to_last wave (waves ! (k - 1))
                                  else wave) @ [[]]) (waves ! k))
            = Inr ((done @ [cur @ [path ! k]]) @ slices path (k # filter ?B [Suc k..<?n]), w)"
        by blast
      moreover have "filter ?B [k..<?n] = k # filter ?B [Suc k..<?n]"
        unfolding upt using Bk by simp
      ultimately show ?thesis
        using step by (simp add: slices_Cons2 cur' del: upt_Suc)
    next
      case False
      then have nBk: "\<not> ?B k" using ne by auto
      have step: "split_loop discs bd path waves [k..<?n] (done @ [cur], wave)
            = split_loop discs bd path waves [Suc k..<?n]
                (done @ [cur @ [path ! k]], append_to_last wave (waves ! k))"
        unfolding upt using False ne k0 by (auto simp: Let_def append_to_last_def butlast_append)
      have a': "a < Suc k" using Suc.prems(2) by simp
      from Suc.hyps(1) [OF m lt a' cur', of "done"]
      obtain w where "split_loop discs bd path waves [Suc k..<?n]
                (done @ [cur @ [path ! k]], append_to_last wave (waves ! k))
            = Inr (done @ slices path (a # filter ?B [Suc k..<?n]), w)"
        by blast
      moreover have "filter ?B [k..<?n] = filter ?B [Suc k..<?n]"
        unfolding upt using nBk by simp
      ultimately show ?thesis
        using step by simp
    qed
  qed
qed

lemma ray_path_slices:
  assumes "arr_path a = Some path" and "2 \<le> length path"
    and "ray_path a model = Inr (paths, wave_paths)"
  shows "paths = slices path (boundary_indices (butlast (get_discontinuity_depths model)) path)"
proof -
  let ?n = "length path"
  let ?discs = "butlast (get_discontinuity_depths model)"
  let ?bd = "bottoming_depth path"
  let ?B = "\<lambda>i. i = ?n - 1 \<or> pt_depth (path ! i) = ?bd \<or> pt_depth (path ! i) \<in> set ?discs"
  from assms(2) have ne: "path \<noteq> []" by (cases path) simp_all
  from assms(1,3) py_max_bottoming [OF ne]
  obtain waves where sl: "split_loop ?discs ?bd path waves [0..<?n] ([], []) = Inr (paths, wave_paths)"
    by (cases "waves_loop model (phase_segments (arr_name a)) path [0..<?n] 0")
      (auto simp: ray_path_def Let_def)
  have "0 < ?n" using ne by simp
  then have upt: "[0..<?n] = 0 # [1..<?n]"
    by (subst upt_conv_Cons) simp_all
  have first: "split_loop ?discs ?bd path waves [0..<?n] ([], [])
      = split_loop ?discs ?bd path waves [1..<?n] ([] @ [[path ! 0]], [[waves ! 0]])"
    unfolding upt using assms(2) by (simp add: Let_def append_to_last_def)
  have one: "[path ! 0] = map (\<lambda>j. path ! j) [0..<1]" by simp
  have k1: "1 < ?n" using assms(2) by simp
  have a0: "(0::nat) < 1" by simp
  from split_loop_slices [OF k1 a0 one, of ?discs ?bd waves "[]" "[[waves ! 0]]"]
  obtain w where "split_loop ?discs ?bd path waves [1..<?n] ([] @ [[path ! 0]], [[waves ! 0]])
      = Inr ([] @ slices path (0 # filter ?B [1..<?n]), w)"
    by blast
  with first sl have p: "paths = slices path (0 # filter ?B [1..<?n])" by simp
  have "filter (\<lambda>i. i = 0 \<or> i = ?n - 1 \<or> pt_depth (path ! i) = ?bd
                     \<or> pt_depth (path ! i) \<in> set ?discs) [1..<?n] = filter ?B [1..<?n]"
    by (rule filter_cong) auto
  then have "boundary_indices ?discs path = 0 # filter ?B [1..<?n]"
    unfolding boundary_indices_def upt by simp
  with p show ?thesis by simp
qed

lemma split_loop_lengths:
  assumes "split_loop discs bd path waves idx (paths, wave) = Inr (paths', wave')"
    and "length paths = length wave"
  shows "length paths' = length wave'"
  using assms
proof (induction idx arbitrary: paths wave)
  case Nil
  then show ?case by simp
next
  case (Cons i idx)
  then show ?case
    by (auto simp: Let_def append_to_last_def split: if_splits)
qed

lemma ray_path_lengths:
  assumes "ray_path a model = Inr (paths, wave_paths)"
  shows "length paths = length wave_paths"
  using assms
  by (auto simp: ray_path_def Let_def bind_exn_def split: option.splits sum.splits
      dest: split_loop_lengths)

lemma np_split_from_nonempty: "np_split_from off xs idx \<noteq> []"
  by (cases idx) simp_all

lemma hd_np_split_from:
  assumes "i < length path" and "\<forall>j\<in>set idx. i < j"
  shows "\<exists>rest t. np_split_from i (drop i path) idx = (path ! i # t) # rest"
proof (cases idx)
  case Nil
  with assms(1) show ?thesis by (simp add: Cons_nth_drop_Suc [symmetric])
next
  case (Cons j js)
  with assms have "i < j" by simp
  then have "take (j - i) (drop i path) = path ! i # take (j - i - 1) (drop (Suc i) path)"
    using assms(1) by (cases "j - i") (simp_all add: Cons_nth_drop_Suc [symmetric])
  with Cons show ?thesis by simp
qed

lemma append_next_first_slices:
  assumes "sorted_wrt (<) (off # idx)" and "\<forall>j\<in>set (off # idx). j < length path"
  shows "append_next_first (np_split_from off (drop off path) idx) = Inr (slices path (off # idx))"
  using assms
proof (induction idx arbitrary: off)
  case Nil
  then show ?case by (simp add: slices_single)
next
  case (Cons i idx)
  from Cons.prems have lt: "off < i" and il: "i < length path" and ol: "off < length path"
    by simp_all
  from Cons.prems have srt: "sorted_wrt (<) (i # idx)"
    and bnd: "\<forall>j\<in>set (i # idx). j < length path" and above: "\<forall>j\<in>set idx. i < j"
    by simp_all
  have dd: "drop (i - off) (drop off path) = drop i path"
    using lt by simp
  from hd_np_split_from [OF il above]
  obtain rest t where nx: "np_split_from i (drop i path) idx = (path ! i # t) # rest"
    by blast
  have tk: "take (i - off) (drop off path) @ [path ! i] = map (\<lambda>k. path ! k) [off..<Suc i]"
  proof -
    have "take (i - off) (drop off path) = map (\<lambda>k. path ! k) [off..<i]"
      using lt il by (intro nth_equalityI) auto
    then show ?thesis using lt by simp
  qed
  have "append_next_first (np_split_from off (drop off path) (i # idx))
      = bind_exn (append_next_first (np_split_from i (drop i path) idx))
          (\<lambda>r. Inr ((take (i - off) (drop off path) @ [path ! i]) # r))"
    unfolding np_split_from.simps dd nx by simp
  also have "\<dots> = Inr (map (\<lambda>k. path ! k) [off..<Suc i] # slices path (i # idx))"
    using Cons.IH [OF srt bnd] tk by simp
  finally show ?case by (simp add: slices_Cons2 del: upt_Suc)
qed

lemma split_dpaths_slices:
  assumes "arr_path arrival = Some path" and "path \<noteq> []"
  shows "split_dpaths arrival model
           = Inr (slices path (disc_indices (butlast (get_discontinuity_depths model)) path))"
proof -
  let ?n = "length path"
  let ?discs = "butlast (get_discontinuity_depths model)"
  let ?is_disc = "(map (\<lambda>d. d \<in> set ?discs) (map pt_depth path))[0 := False]"
  let ?D = "\<lambda>i. pt_depth (path ! i) \<in> set ?discs"
  have n0: "0 < ?n" using assms(2) by simp
  then have upt: "[0..<?n] = 0 # [1..<?n]"
    by (subst upt_conv_Cons) simp_all
  have idx: "filter (\<lambda>i. ?is_disc ! i) [0..<length ?is_disc] = filter ?D [1..<?n]"
  proof -
    have "filter (\<lambda>i. ?is_disc ! i) [1..<?n] = filter ?D [1..<?n]"
      by (rule filter_cong) (auto simp: nth_list_update)
    moreover have "\<not> ?is_disc ! 0" using n0 by simp
    ultimately show ?thesis using upt by simp
  qed
  have di: "disc_indices ?discs path = 0 # filter ?D [1..<?n]"
  proof -
    have "filter (\<lambda>i. i = 0 \<or> ?D i) [1..<?n] = filter ?D [1..<?n]"
      by (rule filter_cong) auto
    then show ?thesis unfolding disc_indices_def upt by simp
  qed
  have srt: "sorted_wrt (<) (0 # filter ?D [1..<?n])"
    by (auto simp: sorted_wrt_filter)
  have bnd: "\<forall>j\<in>set (0 # filter ?D [1..<?n]). j < ?n"
    using n0 by auto
  have "split_dpaths arrival model
          = append_next_first (np_split_from 0 (drop 0 path) (filter ?D [1..<?n]))"
    using assms idx by (simp add: split_dpaths_def Let_def np_split_def)
  with append_next_first_slices [OF srt bnd] di show ?thesis by simp
qed

lemma slices_shared_boundary:
  assumes "sorted bs" and "Suc j < length (slices path bs)"
  shows "last (slices path bs ! j) = hd (slices path bs ! Suc j)
         \<and> last (slices path bs ! j) = path ! (bs ! Suc j)"
proof -
  from assms(2) have j2: "Suc (Suc j) < length bs" by (simp add: slices_def)
  with assms(1) have le1: "bs ! j \<le> bs ! Suc j" and le2: "bs ! Suc j \<le> bs ! Suc (Suc j)"
    by (simp_all add: sorted_nth_mono)
  from j2 have ja: "j < length bs - 1" and jb: "Suc j < length bs - 1" by simp_all
  then have na: "[0..<length bs - 1] ! j = j" and nb: "[0..<length bs - 1] ! Suc j = Suc j"
    by simp_all
  have a: "slices path bs ! j = map (\<lambda>k. path ! k) [bs ! j..<Suc (bs ! Suc j)]"
    unfolding slices_def using ja na by (simp del: upt_Suc)
  have b: "slices path bs ! Suc j = map (\<lambda>k. path ! k) [bs ! Suc j..<Suc (bs ! Suc (Suc j))]"
    unfolding slices_def using jb nb by (simp del: upt_Suc)
  have "last (slices path bs ! j) = path ! (bs ! Suc j)"
    unfolding a using le1 by simp
  moreover have "hd (slices path bs ! Suc j) = path ! (bs ! Suc j)"
    unfolding b using le2 by (simp add: upt_conv_Cons hd_map del: upt_Suc)
  ultimately show ?thesis by simp
qed

lemma sorted_boundary_indices: "sorted (boundary_indices discs path)"
  by (simp add: boundary_indices_def sorted_wrt_filter)

lemma chord_a_bottoming: "bottoming_depth chord_a_path = 4"
proof -
  have "py_max (map pt_depth chord_a_path) = Inr 4"
    by (simp add: py_max_def chord_a_path_def)
  moreover have "chord_a_path \<noteq> []" by (simp add: chord_a_path_def)
  ultimately show ?thesis using py_max_bottoming [of chord_a_path] by simp
qed

lemma chord_a_boundary_slices:
  "slices chord_a_path (boundary_indices [0, 5] chord_a_path)
     = [[chord_a_src, chord_a_turn], [chord_a_turn, chord_a_rcv]]"
proof -
  have "boundary_indices [0, 5] chord_a_path = [0, 1, 2]"
    unfolding boundary_indices_def chord_a_bottoming
    by (simp add: chord_a_path_def upt_3)
  then show ?thesis
    by (simp add: slices_Cons2 slices_single chord_a_path_def upt_conv_Cons)
qed

lemma chord_a_disc_slices:
  "slices chord_a_path (disc_indices [0, 5] chord_a_path)
     = [[chord_a_src, chord_a_turn, chord_a_rcv]]"
proof -
  have "disc_indices [0, 5] chord_a_path = [0, 2]"
    unfolding disc_indices_def
    by (simp add: chord_a_path_def upt_3)
  then show ?thesis
    by (simp add: slices_Cons2 slices_single chord_a_path_def upt_conv_Cons)
qed

lemma chord_a_classified:
  "classify_path [chord_a_src, chord_a_turn, chord_a_rcv] demo_model \<in> {Inr ''p'', Inr ''s''}"
proof -
  have cp: "compared_points [chord_a_src, chord_a_turn, chord_a_rcv] = (chord_a_turn, chord_a_rcv)"
    by (simp add: compared_points_def)
  have "2 \<le> length [chord_a_src, chord_a_turn, chord_a_rcv]" by simp
  moreover have "pt_depth (fst (compared_points [chord_a_src, chord_a_turn, chord_a_rcv]))
      \<noteq> pt_depth (snd (compared_points [chord_a_src, chord_a_turn, chord_a_rcv]))"
    unfolding cp by simp
  ultimately show ?thesis
    using classify_path_wave [of "[chord_a_src, chord_a_turn, chord_a_rcv]" demo_model]
    by (auto split: if_splits)
qed

text \<open>
  Claim C6, as stated: the segmenter splits the path at every point at the bottoming
  depth. The segmenter of the newer variant does not: it splits at discontinuity depths
  only. The chord that turns at 4 km depth, which is no discontinuity of the concrete
  planet, stays one segment with its turning point in the interior, where the boundary
  points of the claim give two segments.
\<close>

theorem newer_segmenter_keeps_bottoming_point:
  "arr_path chord_a = Some chord_a_path
   \<and> chord_a_path = [chord_a_src, chord_a_turn, chord_a_rcv]
   \<and> pt_depth chord_a_turn = bottoming_depth chord_a_path
   \<and> slices chord_a_path
         (boundary_indices (butlast (get_discontinuity_depths demo_model)) chord_a_path)
       = [[chord_a_src, chord_a_turn], [chord_a_turn, chord_a_rcv]]
   \<and> split_dpaths chord_a demo_model = Inr [[chord_a_src, chord_a_turn, chord_a_rcv]]
   \<and> split_ray_path chord_a demo_model
       \<in> {Inr [([chord_a_src, chord_a_turn, chord_a_rcv], ''p'')],
           Inr [([chord_a_src, chord_a_turn, chord_a_rcv], ''s'')]}"
proof -
  have ne: "chord_a_path \<noteq> []" by (simp add: chord_a_path_def)
  have d: "split_dpaths chord_a demo_model = Inr [[chord_a_src, chord_a_turn, chord_a_rcv]]"
    using split_dpaths_slices [of chord_a chord_a_path demo_model] ne chord_a_disc_slices
    by simp
  have s: "split_ray_path chord_a demo_model
       \<in> {Inr [([chord_a_src, chord_a_turn, chord_a_rcv], ''p'')],
           Inr [([chord_a_src, chord_a_turn, chord_a_rcv], ''s'')]}"
    using chord_a_classified by (auto simp: split_ray_path_def d)
  have b: "slices chord_a_path
         (boundary_indices (butlast (get_discontinuity_depths demo_model)) chord_a_path)
       = [[chord_a_src, chord_a_turn], [chord_a_turn, chord_a_rcv]]"
    using chord_a_boundary_slices by simp
  have t: "pt_depth chord_a_turn = bottoming_depth chord_a_path"
    by (simp add: chord_a_bottoming)
  from d s b t show ?thesis by (simp add: chord_a_path_def)
qed

text \<open>
  Claim C6, amended. The segmenter of the older variant (\<open>ray_path\<close>) splits a path of
  at least two points exactly at the boundary points of the specification (first and
  last point, points at the bottoming depth, points at a discontinuity depth), and every
  interior boundary point is the last point of one segment and the first point of the
  next. The segmenter of the newer variant (\<open>split_ray_path\<close>) splits at the first point
  and at the points at a discontinuity depth only, in the same overlapping way, drops
  what follows the last such point, and then removes the segments tagged \<open>"diff"\<close>.
\<close>

theorem segmenters_split_at_boundaries:
  "(arr_path a = Some path \<and> 2 \<le> length path \<and> ray_path a model = Inr (paths, wave_paths)
     \<longrightarrow> paths = slices path
                   (boundary_indices (butlast (get_discontinuity_depths model)) path)
         \<and> (\<forall>j. Suc j < length paths \<longrightarrow> last (paths ! j) = hd (paths ! Suc j)))
   \<and> (arr_path b = Some bpath \<and> bpath \<noteq> []
       \<longrightarrow> split_dpaths b model
             = Inr (slices bpath (disc_indices (butlast (get_discontinuity_depths model)) bpath))
           \<and> (map_exn (\<lambda>p. classify_path p model)
                  (slices bpath (disc_indices (butlast (get_discontinuity_depths model)) bpath))
                = Inr dwaves
               \<longrightarrow> split_ray_path b model
                     = Inr (filter (\<lambda>(p, w). w \<noteq> ''diff'')
                              (zip (slices bpath
                                      (disc_indices (butlast (get_discontinuity_depths model))
                                         bpath))
                                   dwaves))))"
proof (intro conjI impI)
  assume h: "arr_path a = Some path \<and> 2 \<le> length path
             \<and> ray_path a model = Inr (paths, wave_paths)"
  then show p: "paths = slices path
                   (boundary_indices (butlast (get_discontinuity_depths model)) path)"
    using ray_path_slices [of a path model paths wave_paths] by blast
  show "\<forall>j. Suc j < length paths \<longrightarrow> last (paths ! j) = hd (paths ! Suc j)"
    unfolding p using slices_shared_boundary [OF sorted_boundary_indices] by blast
next
  assume h: "arr_path b = Some bpath \<and> bpath \<noteq> []"
  then show d: "split_dpaths b model
             = Inr (slices bpath (disc_indices (butlast (get_discontinuity_depths model)) bpath))"
    using split_dpaths_slices [of b bpath model] by blast
  assume "map_exn (\<lambda>p. classify_path p model)
                  (slices bpath (disc_indices (butlast (get_discontinuity_depths model)) bpath))
                = Inr dwaves"
  with d show "split_ray_path b model
                     = Inr (filter (\<lambda>(p, w). w \<noteq> ''diff'')
                              (zip (slices bpath
                                      (disc_indices (butlast (get_discontinuity_depths model))
                                         bpath))
                                   dwaves))"
    by (simp add: split_ray_path_def)
qed

theorem segmenters_split_at_boundaries_witness:
  "arr_path chord_a = Some chord_a_path \<and> 2 \<le> length chord_a_path
   \<and> ray_path chord_a demo_model_traced
       = Inr ([[chord_a_src, chord_a_turn], [chord_a_turn, chord_a_rcv]],
              [[''p'', ''p''], [''p'', ''p'']])
   \<and> slices chord_a_path
         (boundary_indices (butlast (get_discontinuity_depths demo_model_traced)) chord_a_path)
       = [[chord_a_src, chord_a_turn], [chord_a_turn, chord_a_rcv]]
   \<and> last [chord_a_src, chord_a_turn] = hd [chord_a_turn, chord_a_rcv]
   \<and> split_dpaths chord_a demo_model_traced = Inr [[chord_a_src, chord_a_turn, chord_a_rcv]]"
proof -
  have len: "2 \<le> length chord_a_path" "chord_a_path \<noteq> []"
    by (simp_all add: chord_a_path_def)
  note k = segmenters_split_at_boundaries [of chord_a chord_a_path demo_model_traced
      "[[chord_a_src, chord_a_turn], [chord_a_turn, chord_a_rcv]]"
      "[[''p'', ''p''], [''p'', ''p'']]" chord_a chord_a_path]
  from k len chord_a_ray_path
  have b: "slices chord_a_path
         (boundary_indices (butlast (get_discontinuity_depths demo_model_traced)) chord_a_path)
       = [[chord_a_src, chord_a_turn], [chord_a_turn, chord_a_rcv]]"
    by simp
  from k len chord_a_disc_slices
  have d: "split_dpaths chord_a demo_model_traced
             = Inr [[chord_a_src, chord_a_turn, chord_a_rcv]]"
    by simp
  from len chord_a_ray_path b d show ?thesis by simp
qed

section \<open>The coefficient aggregator\<close>

lemma integral_coefficients_old_sums:
  assumes "map_exn (\<lambda>(path, wave_path). segment_integral_old arrival model path wave_path)
             (zip paths wave_paths) = Inr integrals"
    and "length paths = length wave_paths"
  shows "integral_coefficients_old arrival model paths wave_paths
           = Inr (map (\<lambda>m. \<Sum>s\<leftarrow>integrals. s ! m) [0, 1, 2])"
proof -
  from assms have len: "length integrals = length paths"
    by (simp add: map_exn_Inr_iff)
  show ?thesis
    using assms(1) column_sums [of integrals] by (simp add: integral_coefficients_old_def len [symmetric])
qed

lemma ellipticity_coefficients_old_sum:
  assumes "(if epsilon_profile model0 = None then model_epsilon_old model0 lod True 100
            else Inr model0) = Inr model"
    and "arr_path a0 \<noteq> None"
    and "(if arr_distance a0 = 0 then get_correct_taup_arrival a0 model (1 / 10 ^ 10)
          else Inr a0) = Inr a"
    and "arr_path a = Some path"
    and "py_max (map pt_depth path) = Inr bot_dep"
    and "\<not> (radius_of_planet model - bot_dep) * 1000 < 50"
    and "ray_path a model = Inr (paths, wave_paths)"
    and "map_exn (\<lambda>(path, wave_path). segment_integral_old a model path wave_path)
           (zip paths wave_paths) = Inr integrals"
    and "make_idiscs a model path = Inr idiscs"
    and "disc_loop a model path wave_paths (zip [0..<length idiscs] idiscs) None = Inr out"
  shows "ellipticity_coefficients_old (Suc limit) (ArrivalObject a0) model0 lod
           = Inr (map (\<lambda>m. np_add (Num (\<Sum>s\<leftarrow>integrals. s ! m)) (np_sum (summed_sigmas out m)))
                    [0, 1, 2])"
proof -
  have ic: "integral_coefficients_old a model paths wave_paths
           = Inr (map (\<lambda>m. \<Sum>s\<leftarrow>integrals. s ! m) [0, 1, 2])"
    using assms(8) ray_path_lengths [OF assms(7)] by (rule integral_coefficients_old_sums)
  have dc: "discontinuity_coefficients_old a model paths wave_paths
           = Inr (map (\<lambda>x. np_sum (summed_sigmas out x)) [0, 1, 2])"
    using assms(4,9,10) by (simp add: discontinuity_coefficients_old_def)
  from assms(2) obtain p0 where p0: "arr_path a0 = Some p0" by auto
  show ?thesis
    using assms(1,3,4,5,6,7) p0 ic dc by simp
qed

lemma individual_ellipticity_coefficients_sum:
  assumes "(if top_bot_epsilon model0 = None then model_epsilon model0 lod else Inr model0)
             = Inr model"
    and "split_ray_path arrival model = Inr segs"
    and "map_exn (\<lambda>(path, wave). segment_integral arrival model path wave) segs
           = Inr integrals"
    and "map_exn (\<lambda>(path, wave). segment_boundaries model path wave) segs = Inr boundaries"
  shows "individual_ellipticity_coefficients arrival model0 lod
           = Inr (map (\<lambda>m. (\<Sum>s\<leftarrow>integrals. s ! m) + (\<Sum>b\<leftarrow>boundaries. b ! m)) [0, 1, 2])"
  using assms
  by (simp add: individual_ellipticity_coefficients_def integral_coefficients_def
      discontinuity_coefficients_def sum_orders_def)

text \<open>
  Claim C1. In the newer variant, for every arrival, and in the older variant, for every
  arrival with a path that does not bottom within 50 m of the centre, each of the three
  coefficients is the sum of the integral contributions of all segments of the ray path
  and of the boundary contributions of all boundary points that are summed. In the
  older variant the ray path is the one the computation works on: the arrival itself,
  or the arrival traced again at distance \<open>1e-10\<close> when the distance is exactly 0.
\<close>

theorem coefficients_are_sums:
  "((if top_bot_epsilon model0 = None then model_epsilon model0 lod else Inr model0)
       = Inr model
     \<and> split_ray_path arrival model = Inr segs
     \<and> map_exn (\<lambda>(path, wave). segment_integral arrival model path wave) segs
         = Inr integrals
     \<and> map_exn (\<lambda>(path, wave). segment_boundaries model path wave) segs = Inr boundaries
     \<longrightarrow> individual_ellipticity_coefficients arrival model0 lod
           = Inr (map (\<lambda>m. (\<Sum>s\<leftarrow>integrals. s ! m) + (\<Sum>b\<leftarrow>boundaries. b ! m))
                    [0, 1, 2]))
   \<and> ((if epsilon_profile omodel0 = None then model_epsilon_old omodel0 olod True 100
        else Inr omodel0) = Inr omodel
       \<and> arr_path a0 \<noteq> None
       \<and> (if arr_distance a0 = 0 then get_correct_taup_arrival a0 omodel (1 / 10 ^ 10)
           else Inr a0) = Inr a
       \<and> arr_path a = Some path
       \<and> py_max (map pt_depth path) = Inr bot_dep
       \<and> \<not> (radius_of_planet omodel - bot_dep) * 1000 < 50
       \<and> ray_path a omodel = Inr (paths, wave_paths)
       \<and> map_exn (\<lambda>(path, wave_path). segment_integral_old a omodel path wave_path)
             (zip paths wave_paths) = Inr ointegrals
       \<and> make_idiscs a omodel path = Inr idiscs
       \<and> disc_loop a omodel path wave_paths (zip [0..<length idiscs] idiscs) None = Inr out
     \<longrightarrow> ellipticity_coefficients_old (Suc limit) (ArrivalObject a0) omodel0 olod
           = Inr (map (\<lambda>m. np_add (Num (\<Sum>s\<leftarrow>ointegrals. s ! m))
                               (np_sum (summed_sigmas out m)))
                    [0, 1, 2]))"
proof (intro conjI impI)
  assume "(if top_bot_epsilon model0 = None then model_epsilon model0 lod else Inr model0)
       = Inr model
     \<and> split_ray_path arrival model = Inr segs
     \<and> map_exn (\<lambda>(path, wave). segment_integral arrival model path wave) segs
         = Inr integrals
     \<and> map_exn (\<lambda>(path, wave). segment_boundaries model path wave) segs = Inr boundaries"
  then show "individual_ellipticity_coefficients arrival model0 lod
           = Inr (map (\<lambda>m. (\<Sum>s\<leftarrow>integrals. s ! m) + (\<Sum>b\<leftarrow>boundaries. b ! m))
                    [0, 1, 2])"
    using individual_ellipticity_coefficients_sum [of model0 lod model arrival segs
        integrals boundaries]
    by blast
next
  assume "(if epsilon_profile omodel0 = None then model_epsilon_old omodel0 olod True 100
        else Inr omodel0) = Inr omodel
       \<and> arr_path a0 \<noteq> None
       \<and> (if arr_distance a0 = 0 then get_correct_taup_arrival a0 omodel (1 / 10 ^ 10)
           else Inr a0) = Inr a
       \<and> arr_path a = Some path
       \<and> py_max (map pt_depth path) = Inr bot_dep
       \<and> \<not> (radius_of_planet omodel - bot_dep) * 1000 < 50
       \<and> ray_path a omodel = Inr (paths, wave_paths)
       \<and> map_exn (\<lambda>(path, wave_path). segment_integral_old a omodel path wave_path)
             (zip paths wave_paths) = Inr ointegrals
       \<and> make_idiscs a omodel path = Inr idiscs
       \<and> disc_loop a omodel path wave_paths (zip [0..<length idiscs] idiscs) None = Inr out"
  then show "ellipticity_coefficients_old (Suc limit) (ArrivalObject a0) omodel0 olod
           = Inr (map (\<lambda>m. np_add (Num (\<Sum>s\<leftarrow>ointegrals. s ! m))
                               (np_sum (summed_sigmas out m)))
                    [0, 1, 2])"
    using ellipticity_coefficients_old_sum [of omodel0 olod omodel a0 a path bot_dep paths
        wave_paths ointegrals idiscs out limit]
    by blast
qed

theorem coefficients_are_sums_witness:
  "individual_ellipticity_coefficients demo_arrival demo_model EARTH_LOD
     = Inr [- (50 / 3), 0, 0]
   \<and> ellipticity_coefficients_old (Suc 0) (ArrivalObject chord_a) demo_model_traced EARTH_LOD
     = Inr [Num (- (16 / 3)), Num 0, Num 0]"
proof -
  note k = coefficients_are_sums [of demo_model EARTH_LOD demo_model demo_arrival
      "[([demo_down, demo_turn], ''p''), ([demo_turn, demo_up], ''p'')]"
      "[[0, 0, 0], [0, 0, 0]]" "[[- (25 / 3), 0, 0], [- (25 / 3), 0, 0]]"
      demo_model_traced EARTH_LOD demo_model_traced chord_a chord_a chord_a_path 4
      "[[chord_a_src, chord_a_turn], [chord_a_turn, chord_a_rcv]]"
      "[[''p'', ''p''], [''p'', ''p'']]" "[[0, 0, 0], [0, 0, 0]]" chord_a_ids
      "[(True, Some [Num (- (8 / 3)), Num 0, Num 0]), (False, None),
        (True, Some [Num (- (8 / 3)), Num 0, Num 0])]" 0]
  have s: "split_ray_path demo_arrival demo_model
       = Inr [([demo_down, demo_turn], ''p''), ([demo_turn, demo_up], ''p'')]"
    by (simp add: split_ray_path_def demo_split_dpaths demo_classify_down demo_classify_up)
  have n: "individual_ellipticity_coefficients demo_arrival demo_model EARTH_LOD
     = Inr [- (50 / 3), 0, 0]"
    using k s demo_segment_integrals demo_segment_boundaries by simp
  have mx: "py_max (map pt_depth chord_a_path) = Inr 4"
    by (simp add: py_max_def chord_a_path_def)
  have o: "ellipticity_coefficients_old (Suc 0) (ArrivalObject chord_a) demo_model_traced
             EARTH_LOD = Inr [Num (- (16 / 3)), Num 0, Num 0]"
    using k mx chord_a_ray_path chord_a_segment_integrals chord_a_idiscs chord_a_loop
    by (simp add: summed_sigmas_def np_sum_def np_add_def)
  from n o show ?thesis by blast
qed

section \<open>The near-centre fallback\<close>

lemma chord_a_coefficients:
  "ellipticity_coefficients_old (Suc n) (ArrivalObject chord_a) demo_model_traced lod
     = Inr [Num (- (16 / 3)), Num 0, Num 0]"
proof -
  have mx: "py_max (map pt_depth chord_a_path) = Inr 4"
    by (simp add: py_max_def chord_a_path_def)
  show ?thesis
    using ellipticity_coefficients_old_sum [of demo_model_traced lod demo_model_traced
        chord_a chord_a chord_a_path 4 _ _ _ chord_a_ids _ n,
        OF _ _ _ _ mx _ chord_a_ray_path chord_a_segment_integrals chord_a_idiscs chord_a_loop]
    by (simp add: summed_sigmas_def np_sum_def np_add_def)
qed

lemma chord_b_coefficients:
  "ellipticity_coefficients_old (Suc n) (ArrivalObject chord_b) demo_model_traced lod
     = Inr [Num (- 4), Num 0, Num 0]"
proof -
  have mx: "py_max (map pt_depth chord_b_path) = Inr 2"
    by (simp add: py_max_def chord_b_path_def)
  show ?thesis
    using ellipticity_coefficients_old_sum [of demo_model_traced lod demo_model_traced
        chord_b chord_b chord_b_path 2 _ _ _ chord_b_ids _ n,
        OF _ _ _ _ mx _ chord_b_ray_path chord_b_segment_integrals chord_b_idiscs chord_b_loop]
    by (simp add: summed_sigmas_def np_sum_def np_add_def)
qed

lemma centre_aux:
  "get_correct_taup_arrival centre_arrival demo_model_traced (- 0.05) = Inr chord_a"
  "get_correct_taup_arrival centre_arrival demo_model_traced (- 0.10) = Inr chord_b"
  by (simp_all add: get_correct_taup_arrival_def centre_arrival_def demo_tracer_def argmin_def)

lemma centre_coefficients:
  "ellipticity_coefficients_old (Suc (Suc n)) (ArrivalObject centre_arrival) demo_model_traced lod
     = Inr [Num (- (20 / 3)), Num 0, Num 0]"
proof -
  have a: "arr_path centre_arrival = Some [\<lparr>pt_p = 0, pt_time = 0, pt_dist = 0, pt_depth = 0\<rparr>,
                       \<lparr>pt_p = 0, pt_time = 5, pt_dist = 0, pt_depth = 10\<rparr>,
                       \<lparr>pt_p = 0, pt_time = 10, pt_dist = pi, pt_depth = 0\<rparr>]"
    "arr_distance centre_arrival = 180"
    by (simp_all add: centre_arrival_def)
  have c: "centre_of_planet_coefficients
        (\<lambda>a. ellipticity_coefficients_old (Suc n) (ArrivalObject a) demo_model_traced EARTH_LOD)
        centre_arrival demo_model_traced = Inr [Num (- (20 / 3)), Num 0, Num 0]"
    unfolding centre_of_planet_coefficients_def centre_aux bind_exn_Inr
      chord_a_coefficients chord_b_coefficients
    by (simp add: upt_3 py_index_def a np_add_def np_mul_def np_sub_def)
  show ?thesis
    by (subst ellipticity_coefficients_old.simps(2))
      (simp add: a py_max_def c del: ellipticity_coefficients_old.simps)
qed

lemma centre_interpolation:
  assumes "centre_of_planet_coefficients f arrival model = Inr coeffs"
    and "get_correct_taup_arrival arrival model (- 0.05) = Inr a1"
    and "get_correct_taup_arrival arrival model (- 0.10) = Inr a2"
    and "f a1 = Inr c1" and "f a2 = Inr c2"
  shows "length coeffs = length c1
         \<and> (\<forall>i<length c1.
               coeffs ! i =
                 np_add (c1 ! i)
                   (np_mul (Num ((arr_distance arrival - arr_distance a1)
                                 / (arr_distance a2 - arr_distance a1)))
                      (np_sub (c2 ! i) (c1 ! i))))"
proof -
  from assms have m: "map_exn (\<lambda>i.
           if arr_distance a2 - arr_distance a1 = 0 then Inl ZeroDivisionError
           else bind_exn (py_index c2 i) (\<lambda>c. 
                  Inr (np_add (c1 ! i)
                         (np_mul (Num ((arr_distance arrival - arr_distance a1)
                                       / (arr_distance a2 - arr_distance a1)))
                            (np_sub c (c1 ! i))))))
         [0..<length c1] = Inr coeffs"
    by (simp add: centre_of_planet_coefficients_def)
  then have len: "length coeffs = length c1"
    by (simp add: map_exn_Inr_iff)
  have "coeffs ! i = np_add (c1 ! i)
                   (np_mul (Num ((arr_distance arrival - arr_distance a1)
                                 / (arr_distance a2 - arr_distance a1)))
                      (np_sub (c2 ! i) (c1 ! i)))" if "i < length c1" for i
  proof -
    from m that have e: "(if arr_distance a2 - arr_distance a1 = 0 then Inl ZeroDivisionError
           else bind_exn (py_index c2 i) (\<lambda>c. 
                  Inr (np_add (c1 ! i)
                         (np_mul (Num ((arr_distance arrival - arr_distance a1)
                                       / (arr_distance a2 - arr_distance a1)))
                            (np_sub c (c1 ! i)))))) = Inr (coeffs ! i)"
      by (auto simp: map_exn_Inr_iff)
    then show ?thesis
      by (auto simp: py_index_def bind_exn_def split: if_splits)
  qed
  with len show ?thesis by blast
qed

lemma extrapolation_value:
  assumes "d1 = d - 0.05" and "d2 = d - 0.10"
  shows "np_add (Num x) (np_mul (Num ((d - d1) / (d2 - d1))) (np_sub (Num y) (Num x)))
           = Num (2 * x - y)"
proof -
  have "(d - d1) / (d2 - d1) = - 1" using assms by simp
  then show ?thesis by (simp add: np_add_def np_mul_def np_sub_def)
qed

lemma between_iff: "(min x y \<le> 2 * x - y \<and> 2 * x - y \<le> max x y) = (x = (y::real))"
  by (auto simp: min_def max_def)

lemma centre_dispatch:
  assumes "(if epsilon_profile model0 = None then model_epsilon_old model0 lod True 100
            else Inr model0) = Inr model"
    and "arr_path a0 \<noteq> None"
    and "(if arr_distance a0 = 0 then get_correct_taup_arrival a0 model (1 / 10 ^ 10)
          else Inr a0) = Inr a"
    and "arr_path a = Some path"
    and "py_max (map pt_depth path) = Inr bot_dep"
    and "(radius_of_planet model - bot_dep) * 1000 < 50"
  shows "ellipticity_coefficients_old (Suc limit) (ArrivalObject a0) model0 lod
           = centre_of_planet_coefficients
               (\<lambda>x. ellipticity_coefficients_old limit (ArrivalObject x) model EARTH_LOD)
               a model"
proof -
  from assms(2) obtain p0 where p0: "arr_path a0 = Some p0" by auto
  show ?thesis
    by (subst ellipticity_coefficients_old.simps(2))
      (use assms p0 in \<open>simp del: ellipticity_coefficients_old.simps\<close>)
qed

text \<open>
  Claim C9, as stated: the coefficients of the near-centre fallback lie between those of
  the two auxiliary arrivals. They do not: both auxiliary arrivals lie on the same side
  of the original distance (0.05 and 0.10 degrees below it), so the linear formula
  extrapolates. For the ray through the centre of the concrete planet the auxiliary
  coefficients of order 0 are \<open>-16/3\<close> and \<open>-4\<close>, and the fallback returns \<open>-20/3\<close>.
\<close>

theorem centre_fallback_overshoots:
  "get_correct_taup_arrival centre_arrival demo_model_traced (- 0.05) = Inr chord_a
   \<and> get_correct_taup_arrival centre_arrival demo_model_traced (- 0.10) = Inr chord_b
   \<and> ellipticity_coefficients_old (Suc 0) (ArrivalObject chord_a) demo_model_traced EARTH_LOD
       = Inr [Num (- (16 / 3)), Num 0, Num 0]
   \<and> ellipticity_coefficients_old (Suc 0) (ArrivalObject chord_b) demo_model_traced EARTH_LOD
       = Inr [Num (- 4), Num 0, Num 0]
   \<and> ellipticity_coefficients_old (Suc (Suc 0)) (ArrivalObject centre_arrival)
         demo_model_traced EARTH_LOD
       = Inr [Num (- (20 / 3)), Num 0, Num 0]
   \<and> \<not> (min (- (16 / 3)) (- 4) \<le> (- (20 / 3) :: real)
          \<and> (- (20 / 3) :: real) \<le> max (- (16 / 3)) (- 4))"
proof -
  have "\<not> (min (- (16 / 3)) (- 4) \<le> (- (20 / 3) :: real)
          \<and> (- (20 / 3) :: real) \<le> max (- (16 / 3)) (- 4))"
    by simp
  with centre_aux chord_a_coefficients [of 0 EARTH_LOD] chord_b_coefficients [of 0 EARTH_LOD]
    centre_coefficients [of 0 EARTH_LOD]
  show ?thesis by blast
qed

text \<open>
  Claim C9, amended. Every coefficient that the near-centre fallback returns is
  \<open>c1 + ((d - d1) / (d2 - d1)) * (c2 - c1)\<close>, where \<open>c1\<close>, \<open>c2\<close> are the coefficients and
  \<open>d1\<close>, \<open>d2\<close> the distances of the two auxiliary arrivals and \<open>d\<close> is the distance of the
  original arrival. When the auxiliary arrivals have the distances \<open>d - 0.05\<close> and
  \<open>d - 0.10\<close>, this is the extrapolation \<open>2 * c1 - c2\<close>, which lies between \<open>c1\<close> and \<open>c2\<close>
  only when the two are equal. An arrival with a path that bottoms within 50 m of the
  centre is handled by this fallback.
\<close>

theorem centre_fallback_extrapolates:
  "(centre_of_planet_coefficients f arrival model = Inr coeffs
     \<and> get_correct_taup_arrival arrival model (- 0.05) = Inr a1
     \<and> get_correct_taup_arrival arrival model (- 0.10) = Inr a2
     \<and> f a1 = Inr c1 \<and> f a2 = Inr c2
    \<longrightarrow> length coeffs = length c1
        \<and> (\<forall>i<length c1.
              coeffs ! i =
                np_add (c1 ! i)
                  (np_mul (Num ((arr_distance arrival - arr_distance a1)
                                / (arr_distance a2 - arr_distance a1)))
                     (np_sub (c2 ! i) (c1 ! i))))
        \<and> (arr_distance a1 = arr_distance arrival - 0.05
             \<and> arr_distance a2 = arr_distance arrival - 0.10
            \<longrightarrow> (\<forall>i<length c1. \<forall>x y.
                   c1 ! i = Num x \<and> c2 ! i = Num y
                   \<longrightarrow> coeffs ! i = Num (2 * x - y)
                       \<and> ((min x y \<le> 2 * x - y \<and> 2 * x - y \<le> max x y) = (x = y)))))
   \<and> ((if epsilon_profile model0 = None then model_epsilon_old model0 lod True 100
        else Inr model0) = Inr omodel
       \<and> arr_path a0 \<noteq> None
       \<and> (if arr_distance a0 = 0 then get_correct_taup_arrival a0 omodel (1 / 10 ^ 10)
           else Inr a0) = Inr a
       \<and> arr_path a = Some path
       \<and> py_max (map pt_depth path) = Inr bot_dep
       \<and> (radius_of_planet omodel - bot_dep) * 1000 < 50
      \<longrightarrow> ellipticity_coefficients_old (Suc limit) (ArrivalObject a0) model0 lod
            = centre_of_planet_coefficients
                (\<lambda>x. ellipticity_coefficients_old limit (ArrivalObject x) omodel EARTH_LOD)
                a omodel)"
proof (intro conjI impI)
  assume h: "centre_of_planet_coefficients f arrival model = Inr coeffs
     \<and> get_correct_taup_arrival arrival model (- 0.05) = Inr a1
     \<and> get_correct_taup_arrival arrival model (- 0.10) = Inr a2
     \<and> f a1 = Inr c1 \<and> f a2 = Inr c2"
  then have i: "length coeffs = length c1
         \<and> (\<forall>i<length c1.
               coeffs ! i =
                 np_add (c1 ! i)
                   (np_mul (Num ((arr_distance arrival - arr_distance a1)
                                 / (arr_distance a2 - arr_distance a1)))
                      (np_sub (c2 ! i) (c1 ! i))))"
    using centre_interpolation [of f arrival model coeffs a1 a2 c1 c2] by blast
  from i show "length coeffs = length c1" by blast
  from i show "\<forall>i<length c1.
              coeffs ! i =
                np_add (c1 ! i)
                  (np_mul (Num ((arr_distance arrival - arr_distance a1)
                                / (arr_distance a2 - arr_distance a1)))
                     (np_sub (c2 ! i) (c1 ! i)))" by blast
  assume d: "arr_distance a1 = arr_distance arrival - 0.05
             \<and> arr_distance a2 = arr_distance arrival - 0.10"
  show "\<forall>i<length c1. \<forall>x y.
                   c1 ! i = Num x \<and> c2 ! i = Num y
                   \<longrightarrow> coeffs ! i = Num (2 * x - y)
                       \<and> ((min x y \<le> 2 * x - y \<and> 2 * x - y \<le> max x y) = (x = y))"
  proof (intro allI impI)
    fix i x y
    assume lt: "i < length c1" and xy: "c1 ! i = Num x \<and> c2 ! i = Num y"
    from i lt xy have "coeffs ! i = np_add (Num x)
                   (np_mul (Num ((arr_distance arrival - arr_distance a1)
                                 / (arr_distance a2 - arr_distance a1)))
                      (np_sub (Num y) (Num x)))"
      by simp
    also have "\<dots> = Num (2 * x - y)"
      using d by (intro extrapolation_value) auto
    finally show "coeffs ! i = Num (2 * x - y)
                       \<and> ((min x y \<le> 2 * x - y \<and> 2 * x - y \<le> max x y) = (x = y))"
      using between_iff [of x y] by blast
  qed
next
  assume "(if epsilon_profile model0 = None then model_epsilon_old model0 lod True 100
        else Inr model0) = Inr omodel
       \<and> arr_path a0 \<noteq> None
       \<and> (if arr_distance a0 = 0 then get_correct_taup_arrival a0 omodel (1 / 10 ^ 10)
           else Inr a0) = Inr a
       \<and> arr_path a = Some path
       \<and> py_max (map pt_depth path) = Inr bot_dep
       \<and> (radius_of_planet omodel - bot_dep) * 1000 < 50"
  then show "ellipticity_coefficients_old (Suc limit) (ArrivalObject a0) model0 lod
            = centre_of_planet_coefficients
                (\<lambda>x. ellipticity_coefficients_old limit (ArrivalObject x) omodel EARTH_LOD)
                a omodel"
    using centre_dispatch [of model0 lod omodel a0 a path bot_dep limit] by blast
qed

theorem centre_fallback_extrapolates_witness:
  "arr_distance chord_a = arr_distance centre_arrival - 0.05
   \<and> arr_distance chord_b = arr_distance centre_arrival - 0.10
   \<and> (radius_of_planet demo_model_traced - 10) * 1000 < 50
   \<and> ellipticity_coefficients_old (Suc (Suc 0)) (ArrivalObject centre_arrival)
         demo_model_traced EARTH_LOD
       = Inr [Num (2 * (- (16 / 3)) - (- 4)), Num (2 * 0 - 0), Num (2 * 0 - 0)]"
proof -
  have d: "arr_distance chord_a = arr_distance centre_arrival - 0.05"
    "arr_distance chord_b = arr_distance centre_arrival - 0.10"
    by (simp_all add: centre_arrival_def)
  have near: "(radius_of_planet demo_model_traced - 10) * 1000 < 50" by simp
  have r: "ellipticity_coefficients_old (Suc (Suc 0)) (ArrivalObject centre_arrival)
         demo_model_traced EARTH_LOD
       = Inr [Num (- (20 / 3)), Num 0, Num 0]"
    by (rule centre_coefficients)
  have p: "arr_path centre_arrival \<noteq> None" "arr_distance centre_arrival \<noteq> 0"
    by (simp_all add: centre_arrival_def)
  have mx: "py_max (map pt_depth (the (arr_path centre_arrival))) = Inr 10"
    by (simp add: centre_arrival_def py_max_def)
  note k = centre_fallback_extrapolates [of
      "\<lambda>x. ellipticity_coefficients_old (Suc 0) (ArrivalObject x) demo_model_traced EARTH_LOD"
      centre_arrival demo_model_traced "[Num (- (20 / 3)), Num 0, Num 0]" chord_a chord_b
      "[Num (- (16 / 3)), Num 0, Num 0]" "[Num (- 4), Num 0, Num 0]"
      demo_model_traced EARTH_LOD demo_model_traced centre_arrival centre_arrival
      "the (arr_path centre_arrival)" 10 "Suc 0"]
  from k p mx near r have c: "centre_of_planet_coefficients
      (\<lambda>x. ellipticity_coefficients_old (Suc 0) (ArrivalObject x) demo_model_traced EARTH_LOD)
      centre_arrival demo_model_traced = Inr [Num (- (20 / 3)), Num 0, Num 0]"
    by auto
  from k c centre_aux chord_a_coefficients [of 0 EARTH_LOD] chord_b_coefficients [of 0 EARTH_LOD] d
  have "[Num (- (20 / 3)), Num 0, Num 0] ! 0 = Num (2 * (- (16 / 3)) - (- 4))"
    by (auto simp del: ellipticity_coefficients_old.simps)
  with d near r show ?thesis by simp
qed

section \<open>Boundary points that are not summed\<close>








section \<open>A diffracted wave on the concrete planet\<close>

lemma diff_in_name: "py_in_str ''diff'' ''Pdiff''"
  by simp

lemma diff_fields [simp]:
  "pt_depth diff_src = 0" "pt_depth diff_in = 5" "pt_depth diff_out = 5" "pt_depth diff_rcv = 0"
  "pt_dist diff_src = 0" "pt_dist diff_in = pi / 4" "pt_dist diff_out = 3 * pi / 4"
  "pt_dist diff_rcv = pi"
  "pt_p diff_src = 5 / 2" "pt_p diff_in = 5 / 2" "pt_p diff_out = 5 / 2" "pt_p diff_rcv = 5 / 2"
  "pt_time diff_src = 0" "pt_time diff_in = (5 / 2) * (pi / 4) + diff_leg_delay"
  "pt_time diff_out = (5 / 2) * (3 * pi / 4) + diff_leg_delay"
  "pt_time diff_rcv = (5 / 2) * pi + 2 * diff_leg_delay"
  "arr_name diff_arrival = ''Pdiff''" "arr_path diff_arrival = Some diff_path"
  by (simp_all add: diff_src_def diff_in_def diff_out_def diff_rcv_def diff_arrival_def)

lemma diff_split_dpaths:
  "split_dpaths diff_arrival demo_model
     = Inr [[diff_src, diff_in], [diff_in, diff_out], [diff_out, diff_rcv]]"
  by (simp add: split_dpaths_def diff_path_def np_split_def upt_conv_Cons)

lemma flat_segment_is_diff:
  "pt_depth a = pt_depth b \<Longrightarrow> classify_path [a, b] model = Inr ''diff''"
  by (simp add: classify_path_def Let_def)

lemma diff_leg_delay_pos: "0 < diff_leg_delay"
  by (simp add: diff_leg_delay_def)

lemma diff_vs_surface: "vertical_slowness_val (10 / 2) (5 / 2) = sqrt (75 / 4)"
  by (simp add: vertical_slowness_val_def Let_def power2_eq_square)

lemma ln_10_5: "ln (10 :: real) - ln 5 = ln 2"
  using ln_div [of 10 "5 :: real"] by simp

lemma diff_vs_cmb: "vertical_slowness_val (5 / 2) (5 / 2) = 0"
  by (simp add: vertical_slowness_val_def Let_def)

lemma diff_delay_down_p: "expected_delay_time (5 / 2) 0 5 ''p'' demo_model = diff_leg_delay"
  using diff_vs_surface diff_vs_cmb ln_10_5
  by (simp add: expected_delay_time_def Let_def demo_velocity_above_def demo_velocity_below_def
      diff_leg_delay_def ln_div)

lemma diff_delay_up_p: "expected_delay_time (5 / 2) 5 0 ''p'' demo_model = diff_leg_delay"
  using diff_vs_surface diff_vs_cmb
  by (simp add: expected_delay_time_def Let_def demo_velocity_above_def demo_velocity_below_def
      diff_leg_delay_def)

lemma diff_delay_down_s: "diff_leg_delay < expected_delay_time (5 / 2) 0 5 ''s'' demo_model"
proof -
  have a: "vertical_slowness_val (10 / 1) (5 / 2) = sqrt (375 / 4)"
    by (simp add: vertical_slowness_val_def Let_def power2_eq_square)
  have b: "vertical_slowness_val (5 / 1) (5 / 2) = sqrt (75 / 4)"
    by (simp add: vertical_slowness_val_def Let_def power2_eq_square)
  have c: "0 < sqrt (375 / 4 :: real)" by simp
  have d: "0 < ln (2 :: real)" by simp
  have "expected_delay_time (5 / 2) 0 5 ''s'' demo_model
      = (1 / 2) * (sqrt (375 / 4) + sqrt (75 / 4)) * ln 2"
    using a b ln_10_5
    by (simp add: expected_delay_time_def Let_def demo_velocity_above_def
        demo_velocity_below_def ln_div)
  also have "\<dots> = diff_leg_delay + (1 / 2) * sqrt (375 / 4) * ln 2"
    by (simp add: diff_leg_delay_def algebra_simps)
  finally show ?thesis using c d by simp
qed

lemma diff_delay_up_s: "diff_leg_delay < expected_delay_time (5 / 2) 5 0 ''s'' demo_model"
proof -
  have a: "vertical_slowness_val (10 / 1) (5 / 2) = sqrt (375 / 4)"
    by (simp add: vertical_slowness_val_def Let_def power2_eq_square)
  have b: "vertical_slowness_val (5 / 1) (5 / 2) = sqrt (75 / 4)"
    by (simp add: vertical_slowness_val_def Let_def power2_eq_square)
  have c: "0 < sqrt (375 / 4 :: real)" by simp
  have d: "0 < ln (2 :: real)" by simp
  have "expected_delay_time (5 / 2) 5 0 ''s'' demo_model
      = (1 / 2) * (sqrt (375 / 4) + sqrt (75 / 4)) * ln 2"
    using a b
    by (simp add: expected_delay_time_def Let_def demo_velocity_above_def
        demo_velocity_below_def)
  also have "\<dots> = diff_leg_delay + (1 / 2) * sqrt (375 / 4) * ln 2"
    by (simp add: diff_leg_delay_def algebra_simps)
  finally show ?thesis using c d by simp
qed

lemma diff_classify_down: "classify_path [diff_src, diff_in] demo_model = Inr ''p''"
  using diff_delay_down_s diff_leg_delay_pos
  by (simp add: classify_path_def Let_def diff_delay_down_p)

lemma diff_classify_up: "classify_path [diff_out, diff_rcv] demo_model = Inr ''p''"
  using diff_delay_up_s diff_leg_delay_pos
  by (simp add: classify_path_def Let_def diff_delay_up_p)

lemma diff_classify_flat: "classify_path [diff_in, diff_out] demo_model = Inr ''diff''"
  by (simp add: flat_segment_is_diff)

lemma diff_split_ray_path:
  "split_ray_path diff_arrival demo_model
     = Inr [([diff_src, diff_in], ''p''), ([diff_out, diff_rcv], ''p'')]"
  by (simp add: split_ray_path_def diff_split_dpaths diff_classify_down diff_classify_up
      diff_classify_flat)







section \<open>The ellipticity profile\<close>

lemma length_cumsum_from [simp]: "length (cumsum_from acc xs) = length xs"
  by (induction xs arbitrary: acc) simp_all

lemma last_cumsum_from: "xs \<noteq> [] \<Longrightarrow> last (cumsum_from acc xs) = acc + sum_list xs"
proof (induction xs arbitrary: acc)
  case Nil
  then show ?case by simp
next
  case (Cons x xs)
  show ?case
  proof (cases xs)
    case Nil
    then show ?thesis by simp
  next
    case (Cons y ys)
    then have ne: "xs \<noteq> []" by simp
    then have "cumsum_from (acc + x) xs \<noteq> []"
      by (metis length_cumsum_from length_0_conv)
    with Cons.IH [OF ne, of "acc + x"] show ?thesis by simp
  qed
qed

lemma length_cumsum [simp]: "length (cumsum xs) = length xs"
  by (simp add: cumsum_def)

lemma last_cumsum: "xs \<noteq> [] \<Longrightarrow> last (cumsum xs) = sum_list xs"
  by (simp add: cumsum_def last_cumsum_from)

lemma length_diff_list [simp]: "length (diff_list xs) = length xs - 1"
  by (simp add: diff_list_def)

lemma nth_diff_list: "i < length xs - 1 \<Longrightarrow> diff_list xs ! i = xs ! Suc i - xs ! i"
  by (simp add: diff_list_def nth_tl nth_butlast)

lemma sum_list_pos_hd:
  fixes xs :: "real list"
  assumes "xs \<noteq> []" and "0 < hd xs" and "\<forall>x\<in>set xs. 0 \<le> x"
  shows "0 < sum_list xs"
proof (cases xs)
  case Nil
  with assms show ?thesis by simp
next
  case (Cons y ys)
  with assms have "0 < y" "\<forall>x\<in>set ys. 0 \<le> x" by simp_all
  then have "0 \<le> sum_list ys" by (simp add: sum_list_nonneg)
  with \<open>0 < y\<close> Cons show ?thesis by simp
qed

lemma normalise_last:
  fixes e :: "real list"
  assumes "e \<noteq> []" and "last e \<noteq> 0"
  shows "last (map (\<lambda>x. c * x / last e) e) = c"
  using assms by (simp add: last_map)

lemma radau_bound: "0 < 2 * (6.25 * (1 - 3 * (y :: real) / 2) ^ 2 - 1) + 4"
proof -
  define z where "z = (1 - 3 * y / 2) ^ 2"
  have "0 \<le> z" unfolding z_def by simp
  then have "0 < 2 * (6.25 * z - 1) + 4" by (simp add: add_pos_nonneg)
  then show ?thesis unfolding z_def .
qed

lemma G_pos: "0 < G"
  by (simp add: G_def)

lemma spec_surface_epsilon_pos:
  assumes "0 < a" and "lod \<noteq> 0" and "0 < M" and "0 < 2 * eta + 4"
  shows "0 < spec_surface_epsilon a lod M eta"
  using assms G_pos by (simp add: spec_surface_epsilon_def Let_def)

lemma finish_profile:
  fixes e :: "real list" and c :: real
  assumes "e \<noteq> []" and "last e \<noteq> 0"
  defines "eps \<equiv> map (\<lambda>x. c * x / last e) e"
  shows "hd (butlast (rev (eps ! 0 # eps))) = c"
    and "last (tl (rev (eps ! 0 # eps))) = last (butlast (rev (eps ! 0 # eps)))"
    and "length (butlast (rev (eps ! 0 # eps))) = length e"
    and "length (tl (rev (eps ! 0 # eps))) = length e"
    and "last (eps ! 0 # eps) = c"
    and "(eps ! 0 # eps) ! 0 = (eps ! 0 # eps) ! 1"
proof -
  have ne: "eps \<noteq> []" using assms(1) by (simp add: eps_def)
  have l: "last eps = c" unfolding eps_def using assms(1,2) by (rule normalise_last)
  have h: "eps ! 0 = hd eps" using ne by (simp add: hd_conv_nth)
  show "hd (butlast (rev (eps ! 0 # eps))) = c"
    using ne l by (simp add: hd_rev)
  show "last (tl (rev (eps ! 0 # eps))) = last (butlast (rev (eps ! 0 # eps)))"
    using ne h by (simp add: last_rev)
  show "length (butlast (rev (eps ! 0 # eps))) = length e" by (simp add: eps_def)
  show "length (tl (rev (eps ! 0 # eps))) = length e" by (simp add: eps_def)
  show "last (eps ! 0 # eps) = c" using ne l by simp
  show "(eps ! 0 # eps) ! 0 = (eps ! 0 # eps) ! 1" by simp
qed

lemma length_top_radius_of [simp]: "length (top_radius_of model) = length (layers model)"
  by (simp add: top_radius_of_def)

lemma length_mass_of [simp]: "length (mass_of model) = length (layers model)"
  by (simp add: mass_of_def Let_def)

lemma length_radau_of [simp]: "length (radau_of model) = length (layers model)"
  by (simp add: radau_of_def Let_def)

lemma last_radau_of:
  assumes "layers model \<noteq> []"
  shows "0 < 2 * last (radau_of model) + 4"
proof -
  have "radau_of model \<noteq> []" using assms by (metis length_radau_of length_0_conv)
  then obtain ys where ys: "radau_of model = map (\<lambda>y. 6.25 * (1 - 3 * y / 2) ^ 2 - 1) ys"
    and ne: "ys \<noteq> []"
    unfolding radau_of_def Let_def by (metis map_is_Nil_conv)
  show ?thesis unfolding ys using ne radau_bound [of "last ys"] by (simp add: last_map)
qed

lemma py_last_ne: "xs \<noteq> [] \<Longrightarrow> py_last xs = Inr (last xs)"
  by (simp add: py_last_def)

lemma py_index_0_map: "xs \<noteq> [] \<Longrightarrow> py_index (map f xs) 0 = Inr (map f xs ! 0)"
  by (simp add: py_index_def)

lemma model_epsilon_shape:
  assumes "lod \<noteq> 0" and "layers model \<noteq> []"
  shows "\<exists>tops bots.
           model_epsilon model lod = Inr (model\<lparr>top_bot_epsilon := Some (tops, bots)\<rparr>)
           \<and> length tops = length (layers model) \<and> length bots = length (layers model)
           \<and> hd tops = spec_surface_epsilon (radius_of_planet model * 1000) lod
                         (last (mass_of model)) (last (radau_of model))
           \<and> last bots = last tops"
proof -
  define e where "e = map exp (cumtrapz_x (map2 (/) (radau_of model) (top_radius_of model))
                                  (top_radius_of model))"
  define c where "c = spec_surface_epsilon (radius_of_planet model * 1000) lod
                         (last (mass_of model)) (last (radau_of model))"
  define eps where "eps = map (\<lambda>x. c * x / last e) e"
  have ne: "e \<noteq> []" by (simp add: e_def cumtrapz_x_def)
  have le: "length e = length (layers model)"
    using assms(2) by (cases "layers model") (simp_all add: e_def cumtrapz_x_def)
  have "last e = exp (last (cumtrapz_x (map2 (/) (radau_of model) (top_radius_of model))
                                  (top_radius_of model)))"
    unfolding e_def by (rule last_map) (simp add: cumtrapz_x_def)
  then have nz: "last e \<noteq> 0" by simp
  have m: "mass_of model \<noteq> []" using assms(2) by (metis length_mass_of length_0_conv)
  have r: "radau_of model \<noteq> []" using assms(2) by (metis length_radau_of length_0_conv)
  have eq: "model_epsilon model lod
      = Inr (model\<lparr>top_bot_epsilon := Some (butlast (rev (eps ! 0 # eps)),
                                                tl (rev (eps ! 0 # eps)))\<rparr>)"
    unfolding model_epsilon_def Let_def eps_def c_def spec_surface_epsilon_def e_def
    by (simp only: assms(1) if_False py_last_ne [OF m] py_last_ne [OF r]
        py_last_ne [OF ne [unfolded e_def]] py_index_0_map [OF ne [unfolded e_def]]
        bind_exn_Inr)
  note fp = finish_profile [OF ne nz, of c, folded eps_def]
  have "model_epsilon model lod
          = Inr (model\<lparr>top_bot_epsilon := Some (butlast (rev (eps ! 0 # eps)),
                                                    tl (rev (eps ! 0 # eps)))\<rparr>)
        \<and> length (butlast (rev (eps ! 0 # eps))) = length (layers model)
        \<and> length (tl (rev (eps ! 0 # eps))) = length (layers model)
        \<and> hd (butlast (rev (eps ! 0 # eps))) = c
        \<and> last (tl (rev (eps ! 0 # eps))) = last (butlast (rev (eps ! 0 # eps)))"
    using eq fp(1) fp(2) fp(3) fp(4) le by (simp only: simp_thms)
  then show ?thesis unfolding c_def by blast
qed

lemma shell_sum_pos:
  fixes ws :: "(real \<times> real) list" and vs :: "real list"
  assumes "ws \<noteq> []" and "length vs = length ws"
    and "\<forall>w\<in>set ws. 0 < fst w \<and> 0 < snd w"
    and "sorted (0 # vs)" and "0 < hd vs"
  shows "0 < sum_list (map2 (\<lambda>(b, t) dv. 0.5 * (b + t) * dv) ws (diff_list (0 # vs)))"
proof -
  define ds where "ds = diff_list (0 # vs)"
  define xs where "xs = map2 (\<lambda>(b, t) dv. 0.5 * (b + t) * dv) ws ds"
  have lds: "length ds = length ws" using assms(2) by (simp add: ds_def)
  have lxs: "length xs = length ws" using lds by (simp add: xs_def)
  have vne: "vs \<noteq> []" using assms(1,2) by auto
  have dnth: "ds ! i = (0 # vs) ! Suc i - (0 # vs) ! i" if "i < length ws" for i
    using that assms(2) unfolding ds_def by (simp add: nth_diff_list)
  have dpos: "0 \<le> ds ! i" if "i < length ws" for i
  proof -
    have "(0 # vs) ! i \<le> (0 # vs) ! Suc i"
      using assms(4) that assms(2) by (intro sorted_nth_mono) simp_all
    with dnth [OF that] show ?thesis by simp
  qed
  have d0: "0 < ds ! 0"
  proof -
    have "0 < length ws" using assms(1) by simp
    from dnth [OF this] assms(5) vne show ?thesis by (simp add: hd_conv_nth)
  qed
  have xnth: "xs ! i = 0.5 * (fst (ws ! i) + snd (ws ! i)) * ds ! i" if "i < length ws" for i
    using that lds unfolding xs_def by (simp add: case_prod_beta)
  have wpos: "0 < fst (ws ! i) \<and> 0 < snd (ws ! i)" if "i < length ws" for i
    using that assms(3) by simp
  have xpos: "0 \<le> xs ! i" if "i < length ws" for i
  proof -
    have "0 \<le> 0.5 * (fst (ws ! i) + snd (ws ! i)) * ds ! i"
      using wpos [OF that] dpos [OF that] by (intro mult_nonneg_nonneg) auto
    then show ?thesis unfolding xnth [OF that] .
  qed
  have x0: "0 < xs ! 0"
  proof -
    have l: "0 < length ws" using assms(1) by simp
    have "0 < 0.5 * (fst (ws ! 0) + snd (ws ! 0)) * ds ! 0"
      using wpos [OF l] d0 by (intro mult_pos_pos) auto
    then show ?thesis unfolding xnth [OF l] .
  qed
  have xne: "xs \<noteq> []" using lxs assms(1) by auto
  have "\<forall>x\<in>set xs. 0 \<le> x"
    using xpos lxs by (auto simp: in_set_conv_nth)
  moreover have "0 < hd xs" using x0 xne by (simp add: hd_conv_nth)
  ultimately have "0 < sum_list xs" using xne by (intro sum_list_pos_hd) simp_all
  then show ?thesis unfolding xs_def ds_def .
qed

lemma top_radius_sorted:
  assumes "layered_planet model"
  shows "sorted (top_radius_of model)" and "\<forall>r\<in>set (top_radius_of model). 0 < r"
    and "top_radius_of model \<noteq> []"
proof -
  from assms have s: "sorted (map top_depth (layers model))"
    by (simp add: layered_planet_def)
  then have "sorted_wrt (\<lambda>x y. top_depth x \<le> top_depth y) (layers model)"
    by (simp add: sorted_map)
  then have "sorted_wrt (\<lambda>x y. top_depth y \<le> top_depth x) (rev (layers model))"
    by (simp add: sorted_wrt_rev)
  then have "sorted_wrt (\<lambda>x y. radius_of_planet model * 1000 - top_depth x * 1000
                              \<le> radius_of_planet model * 1000 - top_depth y * 1000)
               (rev (layers model))"
    by (rule sorted_wrt_mono_rel [rotated]) simp
  then show "sorted (top_radius_of model)"
    by (simp add: top_radius_of_def Let_def sorted_map o_def)
  from assms show "\<forall>r\<in>set (top_radius_of model). 0 < r"
    by (auto simp: top_radius_of_def Let_def layered_planet_def)
  from assms show "top_radius_of model \<noteq> []"
    by (simp add: top_radius_of_def Let_def layered_planet_def)
qed

lemma total_mass_pos:
  assumes "layered_planet model"
  shows "0 < last (mass_of model)"
proof -
  define rs where "rs = top_radius_of model"
  define vs where "vs = map (\<lambda>r. (4 / 3) * pi * r ^ 3) rs"
  define ws where "ws = zip (map (\<lambda>l. bot_density l * 1000) (rev (layers model)))
                          (map (\<lambda>l. top_density l * 1000) (rev (layers model)))"
  note tr = top_radius_sorted [OF assms, folded rs_def]
  have lne: "layers model \<noteq> []" using assms by (simp add: layered_planet_def)
  have wne: "ws \<noteq> []" using lne by (simp add: ws_def)
  have lw: "length vs = length ws" by (simp add: vs_def ws_def rs_def)
  have wp: "\<forall>w\<in>set ws. 0 < fst w \<and> 0 < snd w"
  proof
    fix w assume w: "w \<in> set ws"
    obtain b t where bt: "w = (b, t)" by (cases w)
    from w bt have "b \<in> set (map (\<lambda>l. bot_density l * 1000) (rev (layers model)))"
      and "t \<in> set (map (\<lambda>l. top_density l * 1000) (rev (layers model)))"
      unfolding ws_def by (auto dest: set_zip_leftD set_zip_rightD)
    with assms bt show "0 < fst w \<and> 0 < snd w"
      by (auto simp: layered_planet_def)
  qed
  have mono: "(4 / 3) * pi * x ^ 3 \<le> (4 / 3) * pi * y ^ 3" if "0 < x" "x \<le> y" for x y :: real
    using that by (simp add: power_mono)
  have "sorted_wrt (\<lambda>x y. x \<le> y) rs" using tr(1) by simp
  then have "sorted_wrt (\<lambda>x y. (4 / 3) * pi * x ^ 3 \<le> (4 / 3) * pi * y ^ 3) rs"
    using tr(2)
  proof (induction rs)
    case Nil
    then show ?case by simp
  next
    case (Cons r rs)
    then show ?case using mono [of r] by auto
  qed
  then have sv: "sorted vs" by (simp add: vs_def sorted_map)
  have vp: "\<forall>v\<in>set vs. 0 < v" using tr(2) by (auto simp: vs_def)
  have s0: "sorted (0 # vs)" using sv vp by (auto simp: less_imp_le)
  have vne: "vs \<noteq> []" using tr(3) by (simp add: vs_def)
  then have "hd vs \<in> set vs" by simp
  with vp have h: "0 < hd vs" by blast
  have m: "mass_of model = cumsum (map2 (\<lambda>(b, t) dv. 0.5 * (b + t) * dv) ws (diff_list (0 # vs)))"
    by (simp add: mass_of_def Let_def ws_def vs_def rs_def)
  have ne: "map2 (\<lambda>(b, t) dv. 0.5 * (b + t) * dv) ws (diff_list (0 # vs)) \<noteq> []"
    using wne lw by (cases ws; cases vs) (simp_all add: diff_list_def)
  show ?thesis unfolding m last_cumsum [OF ne]
    using wne lw wp s0 h by (rule shell_sum_pos)
qed

lemma length_cumtrapz [simp]: "length (cumtrapz y) = length y - 1"
  by (simp add: cumtrapz_def)

lemma cumtrapz_pos:
  assumes "2 \<le> length f" and "\<forall>i<length f. 0 \<le> f ! i"
    and "\<forall>i<length f. 0 < i \<longrightarrow> 0 < f ! i"
  shows "0 < last (cumtrapz f)"
proof -
  define xs where "xs = map (\<lambda>s. 1 * s / 2) (map2 (+) (tl f) (butlast f))"
  have lx: "length xs = length f - 1" by (simp add: xs_def)
  have xne: "xs \<noteq> []" using lx assms(1) by auto
  have xn: "xs ! i = 1 * (f ! Suc i + f ! i) / 2" if "i < length f - 1" for i
    using that unfolding xs_def by (simp add: nth_tl nth_butlast)
  have xp: "0 < xs ! i" if "i < length f - 1" for i
  proof -
    have "0 < f ! Suc i" "0 \<le> f ! i" using that assms(2,3) by auto
    then show ?thesis unfolding xn [OF that] by simp
  qed
  have "\<forall>x\<in>set xs. 0 \<le> x"
    using xp lx by (auto simp: in_set_conv_nth less_imp_le)
  moreover have "0 < hd xs" using xp [of 0] xne lx assms(1) by (simp add: hd_conv_nth)
  ultimately have "0 < sum_list xs" using xne by (intro sum_list_pos_hd) simp_all
  then show ?thesis unfolding cumtrapz_def xs_def [symmetric] last_cumsum [OF xne] .
qed

lemma sample_count:
  assumes "0 < dr" and "dr \<le> a"
  shows "2 \<le> nat (1 + py_int (a / dr))" and "0 \<le> 1 + py_int (a / dr)"
proof -
  from assms have q: "1 \<le> a / dr" by simp
  then have f: "1 \<le> \<lfloor>a / dr\<rfloor>" by simp
  have p: "py_int (a / dr) = \<lfloor>a / dr\<rfloor>" using q by (simp add: py_int_def)
  from f show "2 \<le> nat (1 + py_int (a / dr))" unfolding p by linarith
  from f show "0 \<le> 1 + py_int (a / dr)" unfolding p by linarith
qed

lemma length_linspace0 [simp]: "length (linspace0 a n) = n"
  by (simp add: linspace0_def)

lemma nth_linspace0: "i < n \<Longrightarrow> linspace0 a n ! i = real i * (a / real (n - 1))"
  by (simp add: linspace0_def)

lemma linspace0_ends:
  assumes "2 \<le> n"
  shows "hd (linspace0 a n) = 0" and "last (linspace0 a n) = a"
proof -
  have ne: "linspace0 a n \<noteq> []" using assms by (metis length_linspace0 length_0_conv not_numeral_le_zero)
  show "hd (linspace0 a n) = 0" using ne assms by (simp add: hd_conv_nth nth_linspace0)
  show "last (linspace0 a n) = a" using ne assms by (simp add: last_conv_nth nth_linspace0)
qed

lemma length_radii_of:
  "length (radii_of model dr) = nat (1 + py_int (radius_of_planet model * 1000 / dr))"
  by (simp add: radii_of_def Let_def)

lemma length_rho_of:
  assumes "0 < dr" and "dr \<le> radius_of_planet model * 1000"
  shows "length (rho_of model dr) = length (radii_of model dr)"
  using sample_count(1) [OF assms] by (simp add: rho_of_def Let_def length_radii_of)

lemma rho_of_pos:
  assumes "\<forall>depth. 0 < evaluate_above model depth ''d''" and "0 < evaluate_below model 0 ''d''"
  shows "\<forall>x\<in>set (rho_of model dr). 0 < x"
  using assms by (auto simp: rho_of_def Let_def)

lemma radii_of_nth:
  assumes "0 < dr" and "dr \<le> radius_of_planet model * 1000"
    and "i < length (radii_of model dr)"
  shows "0 \<le> radii_of model dr ! i" and "0 < i \<Longrightarrow> 0 < radii_of model dr ! i"
proof -
  define n where "n = nat (1 + py_int (radius_of_planet model * 1000 / dr))"
  have n2: "2 \<le> n" unfolding n_def using assms(1,2) by (rule sample_count(1))
  have a: "0 < radius_of_planet model * 1000" using assms(1,2) by linarith
  have i: "i < n" using assms(3) by (simp add: length_radii_of n_def)
  have r: "radii_of model dr ! i = real i * (radius_of_planet model * 1000 / real (n - 1))"
    using i by (simp add: radii_of_def Let_def n_def [symmetric] nth_linspace0)
  have h: "0 < radius_of_planet model * 1000 / real (n - 1)" using a n2 by simp
  define hh where "hh = radius_of_planet model * 1000 / real (n - 1)"
  have hp: "0 < hh" using h by (simp add: hh_def)
  have r': "radii_of model dr ! i = real i * hh" using r by (simp add: hh_def)
  show "0 \<le> radii_of model dr ! i" unfolding r' using hp by simp
  show "0 < radii_of model dr ! i" if "0 < i" unfolding r' using hp that by simp
qed

lemma total_mass_old_pos:
  assumes "0 < dr" and "dr \<le> radius_of_planet model * 1000"
    and "\<forall>depth. 0 < evaluate_above model depth ''d''" and "0 < evaluate_below model 0 ''d''"
  shows "0 < last (Mr_of model dr)" and "Mr_of model dr \<noteq> []"
proof -
  define f where "f = map2 (\<lambda>rh ri. rh * ri ^ 2 * dr) (rho_of model dr) (radii_of model dr)"
  have lr: "2 \<le> length (radii_of model dr)"
    unfolding length_radii_of using assms(1,2) by (rule sample_count(1))
  have lf: "length f = length (radii_of model dr)"
    by (simp add: f_def length_rho_of [OF assms(1,2)])
  have fn: "f ! i = rho_of model dr ! i * (radii_of model dr ! i) ^ 2 * dr" if "i < length f" for i
    using that lf length_rho_of [OF assms(1,2)] unfolding f_def by simp
  have rp: "0 < rho_of model dr ! i" if "i < length f" for i
    using rho_of_pos [OF assms(3,4), of dr] that lf length_rho_of [OF assms(1,2)] by simp
  have f0: "\<forall>i<length f. 0 \<le> f ! i"
  proof (intro allI impI)
    fix i assume i: "i < length f"
    have "0 \<le> rho_of model dr ! i * (radii_of model dr ! i) ^ 2 * dr"
      using rp [OF i] assms(1) by (intro mult_nonneg_nonneg) auto
    then show "0 \<le> f ! i" unfolding fn [OF i] .
  qed
  have f1: "\<forall>i<length f. 0 < i \<longrightarrow> 0 < f ! i"
  proof (intro allI impI)
    fix i assume i: "i < length f" and p: "0 < i"
    have "0 < radii_of model dr ! i"
      using radii_of_nth(2) [OF assms(1,2) _ p] i lf by simp
    then have "0 < rho_of model dr ! i * (radii_of model dr ! i) ^ 2 * dr"
      using rp [OF i] assms(1) by (intro mult_pos_pos) auto
    then show "0 < f ! i" unfolding fn [OF i] .
  qed
  have l2: "2 \<le> length f" using lr lf by simp
  have c: "0 < last (cumtrapz f)" using l2 f0 f1 by (rule cumtrapz_pos)
  have cne: "cumtrapz f \<noteq> []" using l2 by (metis length_cumtrapz length_0_conv diff_is_0_eq not_numeral_le_zero one_le_numeral le_trans numeral_le_one_iff semiring_norm(69))
  show "Mr_of model dr \<noteq> []" unfolding Mr_of_def f_def [symmetric] using cne by simp
  have "last (Mr_of model dr) = 4 * pi * last (cumtrapz f)"
    unfolding Mr_of_def f_def [symmetric] using cne by (simp add: last_map)
  with c show "0 < last (Mr_of model dr)" by simp
qed

lemma length_Mr_of:
  assumes "0 < dr" and "dr \<le> radius_of_planet model * 1000"
  shows "length (Mr_of model dr) = length (radii_of model dr) - 1"
  by (simp add: Mr_of_def length_rho_of [OF assms])

lemma length_eta_of:
  assumes "0 < dr" and "dr \<le> radius_of_planet model * 1000"
  shows "length (eta_of model taper dr) = length (radii_of model dr) - 1"
  by (simp add: eta_of_def Let_def length_Mr_of [OF assms] length_rho_of [OF assms])

lemma last_eta_of:
  assumes "0 < dr" and "dr \<le> radius_of_planet model * 1000"
  shows "0 < 2 * last (eta_of model taper dr) + 4" and "eta_of model taper dr \<noteq> []"
proof -
  have lr: "2 \<le> length (radii_of model dr)"
    unfolding length_radii_of using assms(1,2) by (rule sample_count(1))
  with length_eta_of [OF assms, of taper] have "length (eta_of model taper dr) \<noteq> 0" by simp
  then show ne: "eta_of model taper dr \<noteq> []" by simp
  have "\<exists>ys. eta_of model taper dr = map (\<lambda>y. 6.25 * (1 - 3 * y / 2) ^ 2 - 1) ys"
    unfolding eta_of_def Let_def by (rule exI) (rule refl)
  then obtain ys where ys: "eta_of model taper dr = map (\<lambda>y. 6.25 * (1 - 3 * y / 2) ^ 2 - 1) ys"
    by blast
  with ne have yne: "ys \<noteq> []" by auto
  show "0 < 2 * last (eta_of model taper dr) + 4"
    unfolding ys using yne radau_bound [of "last ys"] by (simp add: last_map)
qed

lemma model_epsilon_old_shape:
  assumes "lod \<noteq> 0" and "0 < dr" and "dr \<le> radius_of_planet model * 1000"
  shows "\<exists>eps.
           model_epsilon_old model lod taper dr
             = Inr (model\<lparr>epsilon_profile := Some (radii_of model dr, eps)\<rparr>)
           \<and> length eps = length (radii_of model dr)
           \<and> hd (radii_of model dr) = 0
           \<and> last (radii_of model dr) = radius_of_planet model * 1000
           \<and> last eps = spec_surface_epsilon (radius_of_planet model * 1000) lod
                            (last (Mr_of model dr)) (last (eta_of model taper dr))
           \<and> eps ! 0 = eps ! 1"
proof -
  define e where "e = map exp (0 # cumtrapz (map2 (\<lambda>e ri. dr * e / ri) (eta_of model taper dr)
                                               (tl (radii_of model dr))))"
  define c where "c = spec_surface_epsilon (radius_of_planet model * 1000) lod
                         (last (Mr_of model dr)) (last (eta_of model taper dr))"
  define eps where "eps = map (\<lambda>x. c * x / last e) e"
  have lr: "2 \<le> length (radii_of model dr)"
    unfolding length_radii_of using assms(2,3) by (rule sample_count(1))
  have ne: "e \<noteq> []" by (simp add: e_def)
  have le: "length e = length (radii_of model dr) - 1"
    using lr by (simp add: e_def length_eta_of [OF assms(2,3)])
  have "last e = exp (last (0 # cumtrapz (map2 (\<lambda>e ri. dr * e / ri) (eta_of model taper dr)
                                               (tl (radii_of model dr)))))"
    unfolding e_def by (rule last_map) simp
  then have nz: "last e \<noteq> 0" by simp
  have m: "Mr_of model dr \<noteq> []"
    using lr length_Mr_of [OF assms(2,3)] by (metis length_0_conv diff_is_0_eq not_numeral_le_zero
        one_le_numeral le_trans numeral_le_one_iff semiring_norm(69))
  note r = last_eta_of(2) [OF assms(2,3), of taper]
  have d0: "dr \<noteq> 0" using assms(2) by simp
  have nn: "\<not> 1 + py_int (radius_of_planet model * 1000 / dr) < 0"
    using sample_count(2) [OF assms(2,3)] by simp
  have eq: "model_epsilon_old model lod taper dr
      = Inr (model\<lparr>epsilon_profile := Some (radii_of model dr, eps ! 0 # eps)\<rparr>)"
    unfolding model_epsilon_old_def Let_def eps_def c_def spec_surface_epsilon_def e_def
    by (simp only: assms(1) d0 nn if_False py_last_ne [OF m] py_last_ne [OF r]
        py_last_ne [OF ne [unfolded e_def]] py_index_0_map [OF ne [unfolded e_def]]
        bind_exn_Inr)
  note fp = finish_profile [OF ne nz, of c, folded eps_def]
  have len: "length (eps ! 0 # eps) = length (radii_of model dr)"
    using le lr by (simp add: eps_def)
  have ends: "hd (radii_of model dr) = 0"
    "last (radii_of model dr) = radius_of_planet model * 1000"
    using linspace0_ends [OF lr [unfolded length_radii_of]]
    by (simp_all add: radii_of_def Let_def)
  have "model_epsilon_old model lod taper dr
          = Inr (model\<lparr>epsilon_profile := Some (radii_of model dr, eps ! 0 # eps)\<rparr>)
        \<and> length (eps ! 0 # eps) = length (radii_of model dr)
        \<and> hd (radii_of model dr) = 0
        \<and> last (radii_of model dr) = radius_of_planet model * 1000
        \<and> last (eps ! 0 # eps) = c
        \<and> (eps ! 0 # eps) ! 0 = (eps ! 0 # eps) ! 1"
    using eq len ends fp(5) fp(6) by (simp only: simp_thms)
  then show ?thesis unfolding c_def by blast
qed

lemma demo_top_radius: "top_radius_of demo_model = [5000, 10000]"
  by (simp add: top_radius_of_def Let_def demo_layers_def)

lemma demo_mass: "mass_of demo_model = [10 ^ 15 * pi, 45 * 10 ^ 14 * pi]"
  by (simp add: mass_of_def Let_def demo_layers_def demo_top_radius diff_list_def cumsum_def)

lemma demo_radau: "last (radau_of demo_model) = 17 / 64"
  by (simp add: radau_of_def Let_def demo_layers_def demo_top_radius demo_mass diff_list_def
      cumsum_def power2_eq_square)

lemma demo_layered: "layered_planet demo_model"
  by (simp add: layered_planet_def demo_layers_def)

lemma demo_density:
  "\<forall>depth. 0 < evaluate_above demo_model depth ''d''" "0 < evaluate_below demo_model 0 ''d''"
  by (simp_all add: demo_velocity_above_def demo_velocity_below_def)

text \<open>
  Claim C8. Newer variant: for a length of day that is not zero and a model with at least
  one layer the builder returns the model with the pair of attributes \<open>top_epsilon\<close>,
  \<open>bot_epsilon\<close>, one value per layer each. The value at the top of the shallowest layer,
  the surface, is \<open>5 h\<^sub>a / (2 \<eta>\<^sub>a + 4)\<close> with \<open>h\<^sub>a = a\<^sup>3 \<Omega>\<^sup>2 / (G M)\<close>, where \<open>M\<close> is the last entry
  of \<open>mass\<close> and \<open>\<eta>\<^sub>a\<close> the last entry of \<open>radau\<close>; the value at the bottom of the deepest
  layer, the centre, is the value at the top of the deepest layer, the first sample of
  non-zero radius. For a layered model with positive densities \<open>M\<close> and the surface value
  are positive. Older variant: for a step \<open>0 < dr \<le> a\<close> the builder returns the model with
  the radii from 0 to \<open>a\<close> and as many values; the value at the last radius is the same
  expression in the last entries of \<open>Mr\<close> and \<open>eta\<close>, and the value at radius 0 is the
  value at the second radius, which is positive. When the density queries of the model
  are positive, \<open>M\<close> and the surface value are positive.
\<close>

theorem profile_surface_and_centre:
  "(lod \<noteq> 0 \<and> layers model \<noteq> [] \<longrightarrow>
      (\<exists>tops bots.
          model_epsilon model lod = Inr (model\<lparr>top_bot_epsilon := Some (tops, bots)\<rparr>)
          \<and> length tops = length (layers model) \<and> length bots = length (layers model)
          \<and> hd tops = spec_surface_epsilon (radius_of_planet model * 1000) lod
                        (last (mass_of model)) (last (radau_of model))
          \<and> last bots = last tops))
   \<and> (lod \<noteq> 0 \<and> layered_planet model \<longrightarrow>
        0 < last (mass_of model)
        \<and> 0 < spec_surface_epsilon (radius_of_planet model * 1000) lod
                  (last (mass_of model)) (last (radau_of model)))
   \<and> (lod \<noteq> 0 \<and> 0 < dr \<and> dr \<le> radius_of_planet omodel * 1000 \<longrightarrow>
        (\<exists>eps.
            model_epsilon_old omodel lod taper dr
              = Inr (omodel\<lparr>epsilon_profile := Some (radii_of omodel dr, eps)\<rparr>)
            \<and> length eps = length (radii_of omodel dr)
            \<and> hd (radii_of omodel dr) = 0
            \<and> 0 < radii_of omodel dr ! 1
            \<and> last (radii_of omodel dr) = radius_of_planet omodel * 1000
            \<and> last eps = spec_surface_epsilon (radius_of_planet omodel * 1000) lod
                             (last (Mr_of omodel dr)) (last (eta_of omodel taper dr))
            \<and> eps ! 0 = eps ! 1))
   \<and> (lod \<noteq> 0 \<and> 0 < dr \<and> dr \<le> radius_of_planet omodel * 1000
        \<and> (\<forall>depth. 0 < evaluate_above omodel depth ''d'')
        \<and> 0 < evaluate_below omodel 0 ''d'' \<longrightarrow>
        0 < last (Mr_of omodel dr)
        \<and> 0 < spec_surface_epsilon (radius_of_planet omodel * 1000) lod
                  (last (Mr_of omodel dr)) (last (eta_of omodel taper dr)))"
proof (intro conjI impI)
  assume "lod \<noteq> 0 \<and> layers model \<noteq> []"
  then show "\<exists>tops bots.
          model_epsilon model lod = Inr (model\<lparr>top_bot_epsilon := Some (tops, bots)\<rparr>)
          \<and> length tops = length (layers model) \<and> length bots = length (layers model)
          \<and> hd tops = spec_surface_epsilon (radius_of_planet model * 1000) lod
                        (last (mass_of model)) (last (radau_of model))
          \<and> last bots = last tops"
    using model_epsilon_shape [of lod model] by blast
next
  assume h: "lod \<noteq> 0 \<and> layered_planet model"
  then show m: "0 < last (mass_of model)" using total_mass_pos [of model] by blast
  from h have "0 < radius_of_planet model * 1000" "layers model \<noteq> []"
    by (simp_all add: layered_planet_def)
  with h m show "0 < spec_surface_epsilon (radius_of_planet model * 1000) lod
                  (last (mass_of model)) (last (radau_of model))"
    by (intro spec_surface_epsilon_pos last_radau_of) simp_all
next
  assume h: "lod \<noteq> 0 \<and> 0 < dr \<and> dr \<le> radius_of_planet omodel * 1000"
  then have lr: "2 \<le> length (radii_of omodel dr)"
    unfolding length_radii_of using sample_count(1) [of dr "radius_of_planet omodel * 1000"]
    by blast
  from h have "0 < radii_of omodel dr ! 1"
    using radii_of_nth(2) [of dr omodel 1] lr by simp
  with h show "\<exists>eps.
            model_epsilon_old omodel lod taper dr
              = Inr (omodel\<lparr>epsilon_profile := Some (radii_of omodel dr, eps)\<rparr>)
            \<and> length eps = length (radii_of omodel dr)
            \<and> hd (radii_of omodel dr) = 0
            \<and> 0 < radii_of omodel dr ! 1
            \<and> last (radii_of omodel dr) = radius_of_planet omodel * 1000
            \<and> last eps = spec_surface_epsilon (radius_of_planet omodel * 1000) lod
                             (last (Mr_of omodel dr)) (last (eta_of omodel taper dr))
            \<and> eps ! 0 = eps ! 1"
    using model_epsilon_old_shape [of lod dr omodel taper] by blast
next
  assume h: "lod \<noteq> 0 \<and> 0 < dr \<and> dr \<le> radius_of_planet omodel * 1000
        \<and> (\<forall>depth. 0 < evaluate_above omodel depth ''d'')
        \<and> 0 < evaluate_below omodel 0 ''d''"
  then show m: "0 < last (Mr_of omodel dr)"
    using total_mass_old_pos(1) [of dr omodel] by blast
  from h have a: "0 < radius_of_planet omodel * 1000" by linarith
  from h have e: "0 < 2 * last (eta_of omodel taper dr) + 4"
    using last_eta_of(1) [of dr omodel taper] by blast
  from h a m e show "0 < spec_surface_epsilon (radius_of_planet omodel * 1000) lod
                  (last (Mr_of omodel dr)) (last (eta_of omodel taper dr))"
    by (intro spec_surface_epsilon_pos) simp_all
qed

theorem profile_surface_and_centre_witness:
  "(\<exists>tops bots.
       model_epsilon demo_model EARTH_LOD
         = Inr (demo_model\<lparr>top_bot_epsilon := Some (tops, bots)\<rparr>)
       \<and> length tops = 2 \<and> length bots = 2
       \<and> hd tops = spec_surface_epsilon 10000 EARTH_LOD (45 * 10 ^ 14 * pi) (17 / 64)
       \<and> last bots = last tops)
   \<and> 0 < spec_surface_epsilon 10000 EARTH_LOD (45 * 10 ^ 14 * pi) (17 / 64)
   \<and> (\<exists>eps.
         model_epsilon_old demo_model EARTH_LOD True 100
           = Inr (demo_model\<lparr>epsilon_profile := Some (radii_of demo_model 100, eps)\<rparr>)
         \<and> length eps = 101
         \<and> hd (radii_of demo_model 100) = 0
         \<and> 0 < radii_of demo_model 100 ! 1
         \<and> last (radii_of demo_model 100) = 10000
         \<and> last eps = spec_surface_epsilon 10000 EARTH_LOD
                          (last (Mr_of demo_model 100)) (last (eta_of demo_model True 100))
         \<and> eps ! 0 = eps ! 1)
   \<and> 0 < spec_surface_epsilon 10000 EARTH_LOD
           (last (Mr_of demo_model 100)) (last (eta_of demo_model True 100))"
proof -
  note k = profile_surface_and_centre [where lod = EARTH_LOD and model = demo_model
      and omodel = demo_model and dr = 100 and taper = True]
  have l: "EARTH_LOD \<noteq> 0" by (simp add: EARTH_LOD_def)
  have lne: "layers demo_model \<noteq> []" by (simp add: demo_layers_def)
  have dr: "(0 :: real) < 100" "100 \<le> radius_of_planet demo_model * 1000" by simp_all
  have n: "length (radii_of demo_model 100) = 101"
    by (simp add: length_radii_of py_int_def)
  have ll: "length (layers demo_model) = 2" by (simp add: demo_layers_def)
  have lm: "last (mass_of demo_model) = 45 * 10 ^ 14 * pi" by (simp add: demo_mass)
  have r: "radius_of_planet demo_model * 1000 = 10000" by simp
  from k [THEN conjunct1] l lne
  have a: "\<exists>tops bots.
       model_epsilon demo_model EARTH_LOD
         = Inr (demo_model\<lparr>top_bot_epsilon := Some (tops, bots)\<rparr>)
       \<and> length tops = 2 \<and> length bots = 2
       \<and> hd tops = spec_surface_epsilon 10000 EARTH_LOD (45 * 10 ^ 14 * pi) (17 / 64)
       \<and> last bots = last tops"
    unfolding ll lm demo_radau r by blast
  from k [THEN conjunct2, THEN conjunct1] l demo_layered
  have b: "0 < spec_surface_epsilon 10000 EARTH_LOD (45 * 10 ^ 14 * pi) (17 / 64)"
    unfolding lm demo_radau r by blast
  from k [THEN conjunct2, THEN conjunct2, THEN conjunct1] l dr
  have c: "\<exists>eps.
         model_epsilon_old demo_model EARTH_LOD True 100
           = Inr (demo_model\<lparr>epsilon_profile := Some (radii_of demo_model 100, eps)\<rparr>)
         \<and> length eps = 101
         \<and> hd (radii_of demo_model 100) = 0
         \<and> 0 < radii_of demo_model 100 ! 1
         \<and> last (radii_of demo_model 100) = 10000
         \<and> last eps = spec_surface_epsilon 10000 EARTH_LOD
                          (last (Mr_of demo_model 100)) (last (eta_of demo_model True 100))
         \<and> eps ! 0 = eps ! 1"
    unfolding n r by blast
  from k [THEN conjunct2, THEN conjunct2, THEN conjunct2] l dr demo_density
  have d: "0 < spec_surface_epsilon 10000 EARTH_LOD
           (last (Mr_of demo_model 100)) (last (eta_of demo_model True 100))"
    unfolding r by blast
  from a b c d show ?thesis by blast
qed
end
